theory Spec2Isabelle
  imports Complex_Main "HOL-Library.Sublist" "HOL-Library.List_Lexorder" "HOL-Library.Product_Lexorder"
begin

section \<open>Python values used by the service\<close>

text \<open>
  A Python \<open>str\<close> is a sequence of Unicode code points; \<open>len\<close> counts code points.
  A string is therefore a list of code points, each a natural number.
\<close>

type_synonym pystr = "nat list"

definition ascii :: "string \<Rightarrow> pystr" where
  "ascii s = map of_char s"

datatype py_error = IndexError | KeyError | TypeError

text \<open>
  \<open>str.isspace\<close> on one code point, which is also the set \<open>str.strip()\<close> removes:
  U+0009..U+000D, U+001C..U+0020, U+0085, U+00A0, U+1680, U+2000..U+200A, U+2028,
  U+2029, U+202F, U+205F, U+3000.
\<close>

definition py_isspace :: "nat \<Rightarrow> bool" where
  "py_isspace c \<longleftrightarrow>
     (9 \<le> c \<and> c \<le> 13) \<or> (28 \<le> c \<and> c \<le> 32) \<or> c = 133 \<or> c = 160 \<or> c = 5760 \<or>
     (8192 \<le> c \<and> c \<le> 8202) \<or> c = 8232 \<or> c = 8233 \<or> c = 8239 \<or> c = 8287 \<or> c = 12288"

definition py_strip :: "pystr \<Rightarrow> pystr" where
  "py_strip s = rev (dropWhile py_isspace (rev (dropWhile py_isspace s)))"

text \<open>\<open>xs[i]\<close>: a negative index counts from the end, an index out of range raises.\<close>

definition py_index :: "'a list \<Rightarrow> int \<Rightarrow> py_error + 'a" where
  "py_index xs i =
     (let n = int (length xs) in
      if 0 \<le> i \<and> i < n then Inr (xs ! nat i)
      else if - n \<le> i \<and> i < 0 then Inr (xs ! nat (i + n))
      else Inl IndexError)"

text \<open>\<open>xs[a:b]\<close>: both bounds are clamped into the list, negative ones count from the end.\<close>

definition py_clamp :: "nat \<Rightarrow> int \<Rightarrow> nat" where
  "py_clamp n i = (if i < 0 then nat (max 0 (i + int n)) else min (nat i) n)"

definition py_slice :: "'a list \<Rightarrow> int \<Rightarrow> int \<Rightarrow> 'a list" where
  "py_slice xs a b =
     (let lo = py_clamp (length xs) a; hi = py_clamp (length xs) b
      in take (hi - lo) (drop lo xs))"

section \<open>Chunker: \<open>DocumentProcessor._split_text_into_chunks\<close>\<close>

definition is_sentence_end :: "nat \<Rightarrow> bool" where
  \<comment> \<open>\<open>text[i] in '.!?'\<close>\<close>
  "is_sentence_end c \<longleftrightarrow> c = 46 \<or> c = 33 \<or> c = 63"

definition is_newline :: "nat \<Rightarrow> bool" where
  "is_newline c \<longleftrightarrow> c = 10"

text \<open>
  \<open>for i in range(end, stop, -1): if P(text[i]): end = i + 1; break\<close>.
  The result is the index at which the loop broke, if it did.
\<close>

function scan_back :: "(nat \<Rightarrow> bool) \<Rightarrow> pystr \<Rightarrow> int \<Rightarrow> int \<Rightarrow> py_error + int option" where
  "scan_back P text i stop =
     (if i \<le> stop then Inr None
      else case py_index text i of
             Inl e \<Rightarrow> Inl e
           | Inr c \<Rightarrow> if P c then Inr (Some i) else scan_back P text (i - 1) stop)"
  by pat_completeness auto
termination
  by (relation "measure (\<lambda>(P, text, i, stop). nat (i - stop))") auto

declare scan_back.simps [simp del]

text \<open>The value of \<open>end\<close> after the two boundary searches of one loop iteration.\<close>

definition chunk_end :: "int \<Rightarrow> pystr \<Rightarrow> int \<Rightarrow> py_error + int" where
  "chunk_end max_chunk_size text start =
     (let end0 = start + max_chunk_size;
          stop = max (start + max_chunk_size - 100) start
      in if end0 < int (length text) then
           (case scan_back is_sentence_end text end0 stop of
              Inl e \<Rightarrow> Inl e
            | Inr r \<Rightarrow>
                (let end1 = (case r of Some i \<Rightarrow> i + 1 | None \<Rightarrow> end0)
                 in if end1 = start + max_chunk_size then
                      (case scan_back is_newline text end1 stop of
                         Inl e \<Rightarrow> Inl e
                       | Inr r' \<Rightarrow> Inr (case r' of Some i \<Rightarrow> i + 1 | None \<Rightarrow> end1))
                    else Inr end1))
         else Inr end0)"

text \<open>
  The \<open>while start < len(text)\<close> loop. It has no iteration counter, so the model is a
  partial function: \<open>None\<close> stands for a loop that never returns.
\<close>

partial_function (option) split_loop ::
  "int \<Rightarrow> int \<Rightarrow> pystr \<Rightarrow> int \<Rightarrow> pystr list \<Rightarrow> (py_error + pystr list) option" where
  "split_loop max_chunk_size overlap text start chunks =
     (if start < int (length text) then
        (case chunk_end max_chunk_size text start of
           Inl e \<Rightarrow> Some (Inl e)
         | Inr end \<Rightarrow>
             (let chunk = py_strip (py_slice text start end);
                  chunks' = (if chunk \<noteq> [] then chunks @ [chunk] else chunks);
                  start' = end - overlap
              in if start' \<ge> int (length text) then Some (Inr chunks')
                 else split_loop max_chunk_size overlap text start' chunks'))
      else Some (Inr chunks))"

definition split_text_into_chunks :: "int \<Rightarrow> int \<Rightarrow> pystr \<Rightarrow> (py_error + pystr list) option" where
  "split_text_into_chunks max_chunk_size overlap text =
     (if int (length text) \<le> max_chunk_size then Some (Inr [text])
      else split_loop max_chunk_size overlap text 0 [])"

text \<open>A text without whitespace and without sentence or paragraph boundaries.\<close>

definition plain_text :: "pystr \<Rightarrow> bool" where
  "plain_text t \<longleftrightarrow> (\<forall>c\<in>set t. \<not> py_isspace c \<and> \<not> is_sentence_end c \<and> \<not> is_newline c)"

section \<open>Chunk creation: \<open>DocumentProcessor._create_chunks_from_content\<close>\<close>

record content_item =
  ci_content :: pystr
  ci_type :: "pystr option"
  ci_section_name :: pystr
  ci_page :: "int option"

record chunk_data =
  cd_document_id :: int
  cd_chunk_index :: int
  cd_content :: pystr
  cd_chunk_type :: pystr
  cd_section_name :: pystr
  cd_page_number :: "int option"
  cd_chunk_sub_index :: int
  cd_embedding :: "real list"

definition MAX_CHUNKS_PER_DOCUMENT :: int where
  "MAX_CHUNKS_PER_DOCUMENT = 200"

text \<open>
  The inner loop \<open>for i, text_chunk in enumerate(text_chunks)\<close>. The embedding service is
  a parameter; \<open>None\<close> is an embedding call that raises, after which the loop goes on
  with the next chunk. The state is the pair \<open>(chunks, chunk_index)\<close>.
\<close>

fun embed_text_chunks ::
  "(pystr \<Rightarrow> real list option) \<Rightarrow> int \<Rightarrow> content_item \<Rightarrow> (int \<times> pystr) list \<Rightarrow>
   chunk_data list \<times> int \<Rightarrow> chunk_data list \<times> int" where
  "embed_text_chunks embedder document_id item [] st = st"
| "embed_text_chunks embedder document_id item ((i, text_chunk) # rest) (chunks, chunk_index) =
     (if chunk_index \<ge> MAX_CHUNKS_PER_DOCUMENT then (chunks, chunk_index)
      else if py_strip text_chunk = [] then
        embed_text_chunks embedder document_id item rest (chunks, chunk_index)
      else case embedder text_chunk of
             None \<Rightarrow> embed_text_chunks embedder document_id item rest (chunks, chunk_index)
           | Some embedding \<Rightarrow>
               embed_text_chunks embedder document_id item rest
                 (chunks @ [\<lparr>cd_document_id = document_id, cd_chunk_index = chunk_index,
                              cd_content = text_chunk,
                              cd_chunk_type = (case ci_type item of Some t \<Rightarrow> t | None \<Rightarrow> ascii ''text''),
                              cd_section_name = ci_section_name item,
                              cd_page_number = ci_page item,
                              cd_chunk_sub_index = i,
                              cd_embedding = embedding\<rparr>],
                  chunk_index + 1))"

definition py_enumerate :: "'a list \<Rightarrow> (int \<times> 'a) list" where
  "py_enumerate xs = zip (map int [0..<length xs]) xs"

text \<open>
  The outer loop over the content items. The splitter is called with its default
  arguments (500, 50). \<open>None\<close> is the \<open>except Exception\<close> branch, where the function
  returns \<open>None\<close>, or a splitter that does not return.
\<close>

fun chunk_content_items ::
  "(pystr \<Rightarrow> real list option) \<Rightarrow> int \<Rightarrow> content_item list \<Rightarrow>
   chunk_data list \<times> int \<Rightarrow> chunk_data list option" where
  "chunk_content_items embedder document_id [] (chunks, chunk_index) = Some chunks"
| "chunk_content_items embedder document_id (item # rest) (chunks, chunk_index) =
     (if chunk_index \<ge> MAX_CHUNKS_PER_DOCUMENT then Some chunks
      else if py_strip (ci_content item) = [] then
        chunk_content_items embedder document_id rest (chunks, chunk_index)
      else case split_text_into_chunks 500 50 (ci_content item) of
             Some (Inr text_chunks) \<Rightarrow>
               chunk_content_items embedder document_id rest
                 (embed_text_chunks embedder document_id item (py_enumerate text_chunks)
                    (chunks, chunk_index))
           | _ \<Rightarrow> None)"

definition create_chunks_from_content ::
  "(pystr \<Rightarrow> real list option) \<Rightarrow> content_item list \<Rightarrow> int \<Rightarrow> chunk_data list option" where
  "create_chunks_from_content embedder content document_id =
     (if content = [] then None
      else chunk_content_items embedder document_id content ([], 0))"

section \<open>Document titles: \<open>get_document_info\<close> and \<open>get_better_document_name\<close>\<close>

record document =
  doc_title :: "pystr option"
  doc_original_filename :: pystr
  doc_filename :: pystr

record document_info =
  info_id :: int
  info_title :: "pystr option"
  info_filename :: pystr
  info_original_filename :: pystr

text \<open>\<open>str(n)\<close> for an integer: decimal digits, with a minus sign for a negative number.\<close>

fun py_str_nat :: "nat \<Rightarrow> pystr" where
  "py_str_nat n = (if n < 10 then [48 + n] else py_str_nat (n div 10) @ [48 + n mod 10])"

declare py_str_nat.simps [simp del]

definition py_str_int :: "int \<Rightarrow> pystr" where
  "py_str_int i = (if i < 0 then 45 # py_str_nat (nat (- i)) else py_str_nat (nat i))"

text \<open>
  The fallback title is the f-string of \<open>U+0414 U+043E U+043A U+0443 U+043C U+0435 U+043D
  U+0442\<close>, the Russian word for document, a space and the id.
\<close>

definition fallback_name :: "int \<Rightarrow> pystr" where
  "fallback_name document_id =
     [1044, 1086, 1082, 1091, 1084, 1077, 1085, 1090, 32] @ py_str_int document_id"

definition has_dot :: "pystr \<Rightarrow> bool" where
  \<comment> \<open>\<open>'.' in title\<close>\<close>
  "has_dot s \<longleftrightarrow> 46 \<in> set s"

definition rsplit_dot_head :: "pystr \<Rightarrow> pystr" where
  \<comment> \<open>\<open>title.rsplit('.', 1)[0]\<close> for a title with a dot: what precedes the last dot\<close>
  "rsplit_dot_head s = rev (tl (dropWhile (\<lambda>c. c \<noteq> 46) (rev s)))"

definition strip_extension :: "pystr \<Rightarrow> pystr" where
  "strip_extension s = (if has_dot s then rsplit_dot_head s else s)"

definition usable_name :: "pystr \<Rightarrow> bool" where
  \<comment> \<open>\<open>x and x != "string" and x.strip()\<close>\<close>
  "usable_name s \<longleftrightarrow> s \<noteq> [] \<and> s \<noteq> ascii ''string'' \<and> py_strip s \<noteq> []"

text \<open>
  The table of documents is a map from ids to rows. A missing row and a failed query
  both make \<open>get_document_info\<close> return \<open>None\<close>.
\<close>

definition get_document_info :: "(int \<rightharpoonup> document) \<Rightarrow> int \<Rightarrow> document_info option" where
  "get_document_info db document_id =
     (if document_id = 0 \<or> document_id \<le> 0 then None
      else case db document_id of
             None \<Rightarrow> None
           | Some d \<Rightarrow>
               (let document_title =
                      (if (case doc_title d of Some t \<Rightarrow> usable_name t | None \<Rightarrow> False)
                         then py_strip (the (doc_title d))
                       else if usable_name (doc_original_filename d)
                         then py_strip (doc_original_filename d)
                       else if usable_name (doc_filename d)
                         then py_strip (doc_filename d)
                       else fallback_name document_id);
                    document_title' =
                      (if document_title \<noteq> [] \<and> has_dot document_title
                       then rsplit_dot_head document_title else document_title)
                in Some \<lparr>info_id = document_id, info_title = Some document_title',
                         info_filename = doc_filename d,
                         info_original_filename = doc_original_filename d\<rparr>))"

definition get_better_document_name :: "document_info option \<Rightarrow> int \<Rightarrow> pystr" where
  "get_better_document_name source_info document_id =
     (case source_info of
        None \<Rightarrow> fallback_name document_id
      | Some info \<Rightarrow>
          (case info_title info of
             None \<Rightarrow> fallback_name document_id
           | Some title \<Rightarrow>
               if title = [] then fallback_name document_id
               else if title = [] \<or> title = ascii ''string'' \<or> py_strip title = []
                 then fallback_name document_id
               else strip_extension title))"

text \<open>The two steps as the chat handler chains them for one cited document.\<close>

definition resolve_title :: "(int \<rightharpoonup> document) \<Rightarrow> int \<Rightarrow> pystr" where
  "resolve_title db document_id =
     get_better_document_name (get_document_info db document_id) document_id"

text \<open>
  \<open>chat_with_ai\<close> checks the resolved name once more before it builds a source entry:
  the literal \<open>"string"\<close> and a blank name are replaced by the fallback.
\<close>

definition chat_document_name :: "(int \<rightharpoonup> document) \<Rightarrow> int \<Rightarrow> pystr" where
  "chat_document_name db document_id =
     (let document_name = resolve_title db document_id;
          document_name1 = (if document_name = ascii ''string''
                            then fallback_name document_id else document_name)
      in if document_name1 = [] \<or> py_strip document_name1 = []
         then fallback_name document_id else document_name1)"

section \<open>Vector store adapter: \<open>VectorService.search_similar\<close>\<close>

text \<open>
  A point of the collection as a search returns it: its similarity to the query vector
  and its payload. An optional payload field is \<open>None\<close> when the key is absent; the
  indexer never stores a null value. Only the payload keys that the retrieval code
  reads are kept.
\<close>

record payload =
  pl_document_id :: "int option"
  pl_chunk_id :: pystr
  pl_content :: "pystr option"
  pl_section :: "pystr option"
  pl_access_level :: "pystr option"
  pl_chunk_type :: "pystr option"
  pl_page_number :: "int option"
  pl_section_name :: "pystr option"
  pl_metadata :: "(pystr \<times> pystr) list"
  pl_content_length :: "int option"

record scored_point =
  sp_score :: real
  sp_payload :: payload

text \<open>The \<open>filters\<close> dictionary with the two keys the retrieval engine sets.\<close>

record search_filters =
  f_section :: "pystr option"
  f_access_level :: "pystr option"

text \<open>
  The vector store is an external service. Its filter is a conjunction of exact matches
  on payload keys (\<open>Filter(must=[FieldCondition(key, MatchValue)])\<close>).
\<close>

definition payload_matches :: "search_filters \<Rightarrow> payload \<Rightarrow> bool" where
  "payload_matches f p \<longleftrightarrow>
     (case f_section f of None \<Rightarrow> True | Some s \<Rightarrow> pl_section p = Some s) \<and>
     (case f_access_level f of None \<Rightarrow> True | Some a \<Rightarrow> pl_access_level p = Some a)"

text \<open>
  What the retrieval code is run against: whether the embedding service answers, the
  store's search for the query vector (filter, limit, score threshold; \<open>None\<close> when the
  call raises), and \<open>str.isalnum\<close> on one code point.

  A score is a \<open>float\<close>, taken as the real number it denotes; comparisons of floats are
  exact. The sum and the product of two floats are rounded by the interpreter, so they
  are parameters as well: \<open>float_add x y\<close> and \<open>float_mul x y\<close> are what \<open>x + y\<close> and
  \<open>x * y\<close> evaluate to, a decimal literal standing for the float it is read as. Where
  a float is compared with one of the literals 0.3, 0.5, 0.6 and 0.7 by \<open>>\<close>, the
  decimal itself is written: 0.5 is a float, and each of the others is read as the
  greatest float below it, so that a float exceeds the one exactly when it exceeds the
  other.

  \<open>pydantic_int\<close> is the conversion that the validation of \<open>DocumentSearchResult\<close>
  applies to the string it is given for the field \<open>chunk_id: int\<close>: the integer, or
  \<open>None\<close> when the validation fails.
\<close>

record vector_env =
  embedding_ok :: bool
  client_search :: "search_filters \<Rightarrow> int \<Rightarrow> real \<Rightarrow> scored_point list option"
  py_isalnum :: "nat \<Rightarrow> bool"
  float_add :: "real \<Rightarrow> real \<Rightarrow> real"
  float_mul :: "real \<Rightarrow> real \<Rightarrow> real"
  pydantic_int :: "pystr \<Rightarrow> int option"

definition honours_filters :: "vector_env \<Rightarrow> bool" where
  "honours_filters env \<longleftrightarrow>
     (\<forall>f l t ps. client_search env f l t = Some ps \<longrightarrow>
        (\<forall>p\<in>set ps. payload_matches f (sp_payload p)))"

text \<open>
  A store that holds the given points and answers as the service documents it: the
  points that match the filter and reach the threshold, best first, at most \<open>limit\<close>.
\<close>

definition store_search ::
  "scored_point list \<Rightarrow> search_filters \<Rightarrow> int \<Rightarrow> real \<Rightarrow> scored_point list option" where
  "store_search points f limit t =
     Some (take (nat limit)
       (sort_key (\<lambda>p. - sp_score p)
          (filter (\<lambda>p. payload_matches f (sp_payload p) \<and> sp_score p \<ge> t) points)))"

text \<open>The \<open>result_data\<close> dictionary of \<open>_smart_filter_and_rank_results\<close>.\<close>

record hit =
  h_score :: real
  h_document_id :: "int option"
  h_chunk_id :: pystr
  h_content :: pystr
  h_section :: "pystr option"
  h_access_level :: "pystr option"
  h_chunk_type :: pystr
  h_page_number :: "int option"
  h_section_name :: "pystr option"
  h_metadata :: "(pystr \<times> pystr) list"
  h_content_length :: int

definition format_hit :: "scored_point \<Rightarrow> hit" where
  "format_hit r =
     (let p = sp_payload r in
      \<lparr>h_score = sp_score r,
       h_document_id = pl_document_id p,
       h_chunk_id = pl_chunk_id p,
       h_content = (case pl_content p of Some c \<Rightarrow> c | None \<Rightarrow> []),
       h_section = pl_section p,
       h_access_level = pl_access_level p,
       h_chunk_type = (case pl_chunk_type p of Some t \<Rightarrow> t | None \<Rightarrow> ascii ''text''),
       h_page_number = pl_page_number p,
       h_section_name = pl_section_name p,
       h_metadata = pl_metadata p,
       h_content_length = (case pl_content_length p of Some n \<Rightarrow> n | None \<Rightarrow> 0)\<rparr>)"

text \<open>
  Grouping into a dictionary of lists: the keys keep the order of their first
  occurrence, as the items of a Python \<open>dict\<close> do.
\<close>

definition add_to_group :: "'k \<Rightarrow> 'a \<Rightarrow> ('k \<times> 'a list) list \<Rightarrow> ('k \<times> 'a list) list" where
  "add_to_group k x groups =
     (if k \<in> fst ` set groups
      then map (\<lambda>(k', xs). if k' = k then (k', xs @ [x]) else (k', xs)) groups
      else groups @ [(k, [x])])"

definition group_by_key :: "('a \<Rightarrow> 'k) \<Rightarrow> 'a list \<Rightarrow> ('k \<times> 'a list) list" where
  "group_by_key key xs = foldl (\<lambda>groups x. add_to_group (key x) x groups) [] xs"

text \<open>
  What a grouping by a key function looks like: the keys are distinct, no group is empty
  and every member of a group has the group's key.
\<close>

definition grouped :: "('a \<Rightarrow> 'k) \<Rightarrow> ('k \<times> 'a list) list \<Rightarrow> bool" where
  "grouped f groups \<longleftrightarrow> distinct (map fst groups) \<and>
     (\<forall>g\<in>set groups. snd g \<noteq> [] \<and> (\<forall>y\<in>set (snd g). f y = fst g))"

text \<open>\<open>sorted(xs, key=k, reverse=True)\<close>: descending and stable.\<close>

definition sort_desc :: "('a \<Rightarrow> real) \<Rightarrow> 'a list \<Rightarrow> 'a list" where
  "sort_desc k xs = sort_key (\<lambda>x. - k x) xs"

definition calculate_quality_score :: "vector_env \<Rightarrow> hit \<Rightarrow> real" where
  "calculate_quality_score env result =
     (let base_score = h_score result;
          content_length = h_content_length result;
          length_bonus = (if 100 \<le> content_length \<and> content_length \<le> 500 then 0.1
                          else if content_length > 500 then - 0.05 else 0);
          type_bonus = (if h_chunk_type result = ascii ''text'' then 0.05 else 0);
          metadata_bonus = (if h_metadata result \<noteq> [] then 0.02 else 0)
      in float_add env (float_add env (float_add env base_score length_bonus) type_bonus)
           metadata_bonus)"

definition special_chars :: "(nat \<Rightarrow> bool) \<Rightarrow> pystr \<Rightarrow> nat" where
  \<comment> \<open>\<open>sum(1 for c in content if not c.isalnum() and not c.isspace())\<close>\<close>
  "special_chars alnum content = length (filter (\<lambda>c. \<not> alnum c \<and> \<not> py_isspace c) content)"

definition keeps_hit :: "vector_env \<Rightarrow> real \<Rightarrow> hit \<Rightarrow> bool" where
  \<comment> \<open>the three \<open>continue\<close> tests of the quality filter, negated\<close>
  "keeps_hit env score_threshold result \<longleftrightarrow>
     \<not> length (py_strip (h_content result)) < 20 \<and>
     \<not> h_score result < float_mul env score_threshold 0.9 \<and>
     \<not> real (special_chars (py_isalnum env) (h_content result)) >
         float_mul env (real (length (h_content result))) 0.3"

definition smart_filter_and_rank_results ::
  "vector_env \<Rightarrow> scored_point list \<Rightarrow> int \<Rightarrow> real \<Rightarrow> hit list" where
  "smart_filter_and_rank_results env search_result limit score_threshold =
     (let results = map format_hit search_result in
      if results = [] then []
      else
        let filtered_results = filter (keeps_hit env score_threshold) results;
            document_chunks = group_by_key h_document_id filtered_results;
            deduplicated_results =
              concat (map (\<lambda>(doc_id, chunks). take 3 (sort_desc h_score chunks)) document_chunks);
            ranked = sort_desc (calculate_quality_score env) deduplicated_results
        in py_slice ranked 0 limit)"

text \<open>\<open>None\<close>: the search call raised, and \<open>search_similar\<close> raises in turn.\<close>

definition search_similar ::
  "vector_env \<Rightarrow> int \<Rightarrow> real \<Rightarrow> search_filters \<Rightarrow> hit list option" where
  "search_similar env limit score_threshold filters =
     (let initial_limit = min (limit * 3) 50 in
      case client_search env filters initial_limit (float_mul env score_threshold 0.8) of
        None \<Rightarrow> None
      | Some search_result \<Rightarrow>
          Some (smart_filter_and_rank_results env search_result limit score_threshold))"

section \<open>Retrieval engine: \<open>search_documents_internal\<close>\<close>

text \<open>
  \<open>DocumentSearchResult\<close> is a validated model with the fields \<open>document_id: int\<close> and
  \<open>chunk_id: int\<close>. Its constructor raises when the hit has no document id, and it
  converts the chunk id, which the indexer stores as a string, to an integer.
\<close>

record search_result =
  sr_document_id :: int
  sr_chunk_id :: int
  sr_content :: pystr
  sr_score :: real
  sr_section :: pystr
  sr_access_level :: pystr
  sr_chunk_type :: pystr
  sr_page_number :: "int option"
  sr_section_name :: "pystr option"
  sr_metadata :: "(pystr \<times> pystr) list"

definition DocumentSearchResult :: "vector_env \<Rightarrow> hit \<Rightarrow> search_result option" where
  \<comment> \<open>\<open>None\<close>: the constructor raises a validation error\<close>
  "DocumentSearchResult env result =
     (case h_document_id result of
        None \<Rightarrow> None
      | Some document_id \<Rightarrow>
          (case pydantic_int env (h_chunk_id result) of
             None \<Rightarrow> None
           | Some chunk_id \<Rightarrow>
               Some \<lparr>sr_document_id = document_id,
                     sr_chunk_id = chunk_id,
                     sr_content = h_content result,
                     sr_score = h_score result,
                     sr_section = (case h_section result of Some s \<Rightarrow> s | None \<Rightarrow> []),
                     sr_access_level =
                       (case h_access_level result of Some a \<Rightarrow> a | None \<Rightarrow> []),
                     sr_chunk_type = h_chunk_type result,
                     sr_page_number = h_page_number result,
                     sr_section_name = h_section_name result,
                     sr_metadata = h_metadata result\<rparr>))"

text \<open>
  The conversion loops. A loop inside a \<open>try\<close> whose handler returns the empty list
  gives all the results or none; the loop of one section of the fallback pass appends
  to a list that outlives its \<open>try\<close>, so the results before the first failure stay.
\<close>

definition convert_all :: "vector_env \<Rightarrow> hit list \<Rightarrow> search_result list option" where
  "convert_all env raw_results = those (map (DocumentSearchResult env) raw_results)"

definition convert_until_error :: "vector_env \<Rightarrow> hit list \<Rightarrow> search_result list" where
  "convert_until_error env section_results =
     map the (takeWhile (\<lambda>r. r \<noteq> None) (map (DocumentSearchResult env) section_results))"

definition truthy_str :: "pystr option \<Rightarrow> bool" where
  \<comment> \<open>\<open>if s:\<close> for an optional string\<close>
  "truthy_str s \<longleftrightarrow> (case s of None \<Rightarrow> False | Some x \<Rightarrow> x \<noteq> [])"

definition access_filter :: "pystr option \<Rightarrow> pystr option" where
  \<comment> \<open>\<open>if access_level: filters['access_level'] = access_level\<close>\<close>
  "access_filter access_level = (if truthy_str access_level then access_level else None)"

text \<open>Every exception inside a pass is caught there and the pass returns the empty list.\<close>

definition perform_section_search ::
  "vector_env \<Rightarrow> pystr \<Rightarrow> pystr option \<Rightarrow> int \<Rightarrow> real \<Rightarrow> search_result list" where
  "perform_section_search env target_section access_level limit score_threshold =
     (if \<not> embedding_ok env then []
      else
        let filters = \<lparr>f_section = Some target_section,
                       f_access_level = access_filter access_level\<rparr>;
            adjusted_score_threshold = max score_threshold 0.6
        in case search_similar env (limit * 2) adjusted_score_threshold filters of
             None \<Rightarrow> []
           | Some raw_results \<Rightarrow>
               (case convert_all env raw_results of
                  None \<Rightarrow> []
                | Some search_results \<Rightarrow> py_slice (sort_desc sr_score search_results) 0 limit))"

definition perform_fallback_search ::
  "vector_env \<Rightarrow> pystr option \<Rightarrow> int \<Rightarrow> real \<Rightarrow> pystr list \<Rightarrow> search_result list" where
  "perform_fallback_search env access_level limit score_threshold user_sections =
     (if \<not> embedding_ok env then []
      else if user_sections \<noteq> [] then
        (let all_results =
               concat (map (\<lambda>section.
                  case search_similar env (limit div int (length user_sections)) score_threshold
                         \<lparr>f_section = Some section, f_access_level = access_filter access_level\<rparr> of
                    None \<Rightarrow> []
                  | Some section_results \<Rightarrow> convert_until_error env section_results)
                  user_sections)
         in py_slice (sort_desc sr_score all_results) 0 limit)
      else
        (case search_similar env limit score_threshold
                \<lparr>f_section = None, f_access_level = access_filter access_level\<rparr> of
           None \<Rightarrow> []
         | Some raw_results \<Rightarrow>
             (case convert_all env raw_results of
                None \<Rightarrow> []
              | Some search_results \<Rightarrow> search_results)))"

text \<open>
  The dictionary \<open>unique_results\<close>: one entry per \<open>(document_id, chunk_id)\<close>, replaced
  only by a strictly better score, in the order in which the keys first appear.
\<close>

definition keep_best ::
  "((int \<times> int) \<times> search_result) list \<Rightarrow> search_result \<Rightarrow>
   ((int \<times> int) \<times> search_result) list" where
  "keep_best unique_results result =
     (let key = (sr_document_id result, sr_chunk_id result) in
      case map_of unique_results key of
        None \<Rightarrow> unique_results @ [(key, result)]
      | Some old \<Rightarrow>
          if sr_score result > sr_score old
          then map (\<lambda>(k, v). if k = key then (k, result) else (k, v)) unique_results
          else unique_results)"

definition combine_and_rank :: "search_result list \<Rightarrow> int \<Rightarrow> search_result list" where
  "combine_and_rank all_results limit =
     (let unique_results = foldl keep_best [] all_results;
          final_results = sort_desc sr_score (map snd unique_results)
      in py_slice final_results 0 limit)"

definition search_documents_internal ::
  "vector_env \<Rightarrow> pystr option \<Rightarrow> pystr option \<Rightarrow> int \<Rightarrow> real \<Rightarrow> pystr list \<Rightarrow> bool \<Rightarrow>
   search_result list" where
  "search_documents_internal env section access_level limit score_threshold user_sections
     strict_section_search =
     (if truthy_str section \<and> the section \<notin> set user_sections \<and> strict_section_search then []
      else
        let section_results =
              (if truthy_str section \<and> the section \<in> set user_sections
               then perform_section_search env (the section) access_level limit score_threshold
               else []);
            section1 = (if truthy_str section \<and> the section \<notin> set user_sections
                        then None else section)
        in
          if truthy_str section1 \<and> section_results = [] \<and> strict_section_search then []
          else if truthy_str section1 \<and> section_results \<noteq> [] \<and> strict_section_search
            then py_slice section_results 0 limit
          else if truthy_str section1 \<and> section_results \<noteq> [] \<and>
                  (\<exists>result\<in>set section_results.
                     sr_score result > float_mul env score_threshold 0.8)
            then py_slice section_results 0 limit
          else
            let section2 = (if truthy_str section1 \<and> section_results = [] then None else section1);
                fallback_results =
                  (if \<not> strict_section_search \<and> user_sections \<noteq> []
                   then perform_fallback_search env access_level (limit * 2)
                          (float_mul env score_threshold 0.6) user_sections
                   else [])
            in
              if \<not> (\<not> strict_section_search \<and> user_sections \<noteq> []) \<and> strict_section_search \<and>
                 truthy_str section2 \<and> the section2 \<notin> set user_sections
              then []
              else
                combine_and_rank
                  (section_results @ (if \<not> strict_section_search then fallback_results else []))
                  limit)"

section \<open>Access control and the two retrieval endpoints\<close>

definition access_levels :: "pystr \<rightharpoonup> pystr list" where
  \<comment> \<open>\<open>settings.access_levels\<close>, as configured by default\<close>
  "access_levels = map_of
     [(ascii ''restaurant_management'',
         [ascii ''restaurant_ops'', ascii ''procedures'', ascii ''standards'']),
      (ascii ''kitchen_management'',
         [ascii ''restaurant_ops'', ascii ''procedures'', ascii ''standards'']),
      (ascii ''concepts_recipes'',
         [ascii ''restaurant_ops'', ascii ''procedures'', ascii ''standards''])]"

definition detailed_access_levels :: "pystr \<rightharpoonup> (pystr \<rightharpoonup> pystr)" where
  \<comment> \<open>\<open>settings.detailed_access_levels\<close>, as configured by default\<close>
  "detailed_access_levels = map_of
     [(ascii ''restaurant_management'', map_of
         [(ascii ''restaurant_ops'', ascii ''full''),
          (ascii ''standards'', ascii ''read_only''),
          (ascii ''procedures'', ascii ''read_only'')]),
      (ascii ''kitchen_management'', map_of
         [(ascii ''restaurant_ops'', ascii ''none''),
          (ascii ''standards'', ascii ''full''),
          (ascii ''procedures'', ascii ''full'')]),
      (ascii ''concepts_recipes'', map_of
         [(ascii ''restaurant_ops'', ascii ''none''),
          (ascii ''standards'', ascii ''read_only''),
          (ascii ''procedures'', ascii ''full'')])]"

definition check_section_access ::
  "(pystr \<rightharpoonup> (pystr \<rightharpoonup> pystr)) \<Rightarrow> pystr \<Rightarrow> pystr \<Rightarrow> pystr \<Rightarrow> bool" where
  "check_section_access detailed_access subscription_type section required_access =
     (case detailed_access subscription_type of
        None \<Rightarrow> False
      | Some user_access \<Rightarrow>
          (case user_access section of
             None \<Rightarrow> False
           | Some section_access \<Rightarrow>
               if section_access = ascii ''none'' then False
               else if section_access = ascii ''full'' then True
               else if section_access = ascii ''read_only''
                 then required_access \<in> {ascii ''read_only'', ascii ''read''}
               else False))"

definition get_user_sections :: "(pystr \<rightharpoonup> pystr list) \<Rightarrow> pystr \<Rightarrow> pystr list" where
  "get_user_sections levels subscription_type =
     (case levels subscription_type of Some sections \<Rightarrow> sections | None \<Rightarrow> [])"

record search_request =
  rq_section :: "pystr option"
  rq_access_level :: "pystr option"
  rq_limit :: int
  rq_score_threshold :: real
  rq_strict_section_search :: bool

text \<open>The retrieval call of the \<open>/search\<close> endpoint for a valid token.\<close>

definition search_documents ::
  "vector_env \<Rightarrow> (pystr \<rightharpoonup> pystr list) \<Rightarrow> search_request \<Rightarrow> pystr \<Rightarrow> search_result list" where
  "search_documents env levels request token_access_level =
     (let user_sections = get_user_sections levels token_access_level;
          strict_search = (rq_strict_section_search request \<or> truthy_str (rq_section request))
      in search_documents_internal env (rq_section request)
           (if truthy_str (rq_access_level request) then rq_access_level request
            else Some token_access_level)
           (rq_limit request) (rq_score_threshold request) user_sections strict_search)"

text \<open>
  The retrieval call of the \<open>/chat\<close> endpoint when the memory policy asks for a new
  search. The handler does not consult the access configuration: the list of sections
  is the same for every access level.
\<close>

definition chat_user_sections :: "pystr list" where
  "chat_user_sections = [ascii ''restaurant_ops'', ascii ''procedures'', ascii ''standards'']"

definition chat_new_search ::
  "vector_env \<Rightarrow> pystr option \<Rightarrow> pystr option \<Rightarrow> pystr \<Rightarrow> search_result list" where
  "chat_new_search env request_section request_context token_access_level =
     (let user_sections = chat_user_sections;
          target_section =
            (if truthy_str request_section then request_section
             else if truthy_str request_context \<and> the request_context \<in> set user_sections
               then request_context
             else None);
          strict_search = False;
          score_threshold = (if truthy_str request_section then 0.5 else 0.6);
          limit = (if truthy_str request_section then 8 else 6)
      in search_documents_internal env target_section (Some token_access_level)
           limit score_threshold user_sections strict_search)"

section \<open>Citations: the sources of \<open>chat_with_ai\<close> and \<open>_filter_relevant_sources\<close>\<close>

text \<open>
  The handler's \<open>search_results\<close> are the result objects of a new search, or the
  dictionaries that the handler rebuilds from the session's context when the memory
  policy reuses it. A chunk id is an integer in a result object and a string in a
  dictionary.
\<close>

record reused_result =
  rr_document_id :: "int option"
  rr_chunk_id :: pystr
  rr_content :: pystr
  rr_section :: "pystr option"
  rr_score :: real

datatype chat_results = SearchResults "search_result list" | ReusedResults "reused_result list"

record context_chunk =
  cc_content :: pystr
  cc_document_id :: "int option"
  cc_chunk_id :: "int + pystr"
  cc_section :: "pystr option"
  cc_score :: real

definition to_context_chunks :: "chat_results \<Rightarrow> context_chunk list" where
  "to_context_chunks search_results =
     (case search_results of
        SearchResults results \<Rightarrow>
          map (\<lambda>r. \<lparr>cc_content = sr_content r, cc_document_id = Some (sr_document_id r),
                     cc_chunk_id = Inl (sr_chunk_id r), cc_section = Some (sr_section r),
                     cc_score = sr_score r\<rparr>) results
      | ReusedResults results \<Rightarrow>
          map (\<lambda>d. \<lparr>cc_content = rr_content d, cc_document_id = rr_document_id d,
                     cc_chunk_id = Inr (rr_chunk_id d), cc_section = rr_section d,
                     cc_score = rr_score d\<rparr>) results)"

record usage_info =
  ui_chunks_used :: nat
  ui_max_score :: real
  ui_total_content_length :: nat
  ui_fallback_included :: bool

record source =
  src_document_id :: int
  src_chunk_id :: "int + pystr"
  src_section :: "pystr option"
  src_document_name :: pystr
  src_chunk_type :: pystr
  src_total_chunks :: nat
  src_chunk_ids :: "(int + pystr) list"
  src_usage_info :: "usage_info option"

definition truthy_id :: "int option \<Rightarrow> bool" where
  \<comment> \<open>\<open>if doc_id:\<close> for an optional integer\<close>
  "truthy_id d \<longleftrightarrow> (case d of None \<Rightarrow> False | Some n \<Rightarrow> n \<noteq> 0)"

text \<open>One source per result that carries a document id; the others are skipped.\<close>

definition object_source :: "(int \<rightharpoonup> document) \<Rightarrow> search_result \<Rightarrow> source option" where
  "object_source db result =
     (if sr_document_id result = 0 then None
      else Some \<lparr>src_document_id = sr_document_id result,
                 src_chunk_id = Inl (sr_chunk_id result),
                 src_section = Some (sr_section result),
                 src_document_name = chat_document_name db (sr_document_id result),
                 src_chunk_type = sr_chunk_type result,
                 src_total_chunks = 0, src_chunk_ids = [], src_usage_info = None\<rparr>)"

definition dict_source :: "(int \<rightharpoonup> document) \<Rightarrow> reused_result \<Rightarrow> source option" where
  "dict_source db result =
     (if \<not> truthy_id (rr_document_id result) then None
      else Some \<lparr>src_document_id = the (rr_document_id result),
                 src_chunk_id = Inr (rr_chunk_id result),
                 src_section = rr_section result,
                 src_document_name = chat_document_name db (the (rr_document_id result)),
                 src_chunk_type = ascii ''context_reuse'',
                 src_total_chunks = 0, src_chunk_ids = [], src_usage_info = None\<rparr>)"

definition chat_sources :: "(int \<rightharpoonup> document) \<Rightarrow> chat_results \<Rightarrow> source list" where
  "chat_sources db search_results =
     (case search_results of
        SearchResults results \<Rightarrow> List.map_filter (object_source db) results
      | ReusedResults results \<Rightarrow> List.map_filter (dict_source db) results)"

text \<open>Deduplication by \<open>(document_id, chunk_id)\<close>: the first of each key is kept.\<close>

fun unique_by :: "('a \<Rightarrow> 'k) \<Rightarrow> 'k list \<Rightarrow> 'a list \<Rightarrow> 'a list" where
  "unique_by key seen [] = []"
| "unique_by key seen (x # xs) =
     (if key x \<in> set seen then unique_by key seen xs
      else x # unique_by key (seen @ [key x]) xs)"

text \<open>
  The sources are sorted by \<open>(document_id, chunk_id)\<close>, deduplicated, grouped by
  document and reduced to the first source of each group. The chunk ids of one turn
  are all integers or all strings, and the sort compares them as such: \<open>sort_order\<close> is
  the key under which the sources of the turn are compared.
\<close>

definition compact :: "(source \<Rightarrow> 'k::linorder) \<Rightarrow> source list \<Rightarrow> source list" where
  "compact sort_order sources =
     (let sorted_sources = sort_key sort_order sources;
          unique_sources =
            unique_by (\<lambda>x. (src_document_id x, src_chunk_id x)) [] sorted_sources;
          document_groups = group_by_key src_document_id unique_sources
      in List.map_filter (\<lambda>(doc_id, doc_sources).
           if doc_sources \<noteq> []
           then Some ((hd doc_sources)\<lparr>src_total_chunks := length doc_sources,
                                       src_chunk_ids := map src_chunk_id doc_sources\<rparr>)
           else None) document_groups)"

definition compact_sources :: "(int \<rightharpoonup> document) \<Rightarrow> chat_results \<Rightarrow> source list" where
  "compact_sources db search_results =
     (case search_results of
        SearchResults results \<Rightarrow>
          compact (\<lambda>x. (src_document_id x, projl (src_chunk_id x)))
            (chat_sources db search_results)
      | ReusedResults results \<Rightarrow>
          compact (\<lambda>x. (src_document_id x, projr (src_chunk_id x)))
            (chat_sources db search_results))"

text \<open>
  What the filter records for one document of the context. The total of the scores is
  accumulated and read nowhere, neither by the relevance rule nor by the fallback; it
  is summed here without rounding.
\<close>

record document_usage =
  du_chunks :: "context_chunk list"
  du_total_score :: real
  du_max_score :: real
  du_content_length :: nat

definition add_usage :: "(int \<rightharpoonup> document_usage) \<Rightarrow> context_chunk \<Rightarrow> (int \<rightharpoonup> document_usage)" where
  "add_usage usage chunk =
     (if truthy_id (cc_document_id chunk) then
        (let doc_id = the (cc_document_id chunk);
             u = (case usage doc_id of
                    None \<Rightarrow> \<lparr>du_chunks = [], du_total_score = 0, du_max_score = 0,
                              du_content_length = 0\<rparr>
                  | Some u \<Rightarrow> u)
         in usage(doc_id \<mapsto>
              \<lparr>du_chunks = du_chunks u @ [chunk],
               du_total_score = du_total_score u + cc_score chunk,
               du_max_score = max (du_max_score u) (cc_score chunk),
               du_content_length = du_content_length u + length (cc_content chunk)\<rparr>))
      else usage)"

definition build_usage :: "context_chunk list \<Rightarrow> (int \<rightharpoonup> document_usage)" where
  "build_usage context_chunks = foldl add_usage Map.empty context_chunks"

definition is_relevant :: "document_usage \<Rightarrow> bool" where
  "is_relevant usage_info \<longleftrightarrow>
     du_max_score usage_info > 0.7 \<or>
     (du_max_score usage_info > 0.5 \<and> du_content_length usage_info > 200 \<and>
      length (du_chunks usage_info) > 1)"

text \<open>\<open>max(xs, key=k)\<close> on a list that is not empty: the first of the greatest.\<close>

definition py_max_key :: "('a \<Rightarrow> real) \<Rightarrow> 'a \<Rightarrow> 'a list \<Rightarrow> 'a" where
  "py_max_key k x xs = foldl (\<lambda>best y. if k y > k best then y else best) x xs"

definition with_usage :: "bool \<Rightarrow> document_usage \<Rightarrow> source \<Rightarrow> source" where
  "with_usage fallback u s =
     s\<lparr>src_usage_info := Some \<lparr>ui_chunks_used = length (du_chunks u),
                                ui_max_score = du_max_score u,
                                ui_total_content_length = du_content_length u,
                                ui_fallback_included = fallback\<rparr>\<rparr>"

definition filter_relevant_sources :: "source list \<Rightarrow> context_chunk list \<Rightarrow> source list" where
  "filter_relevant_sources sources context_chunks =
     (if sources = [] \<or> context_chunks = [] then sources
      else
        let usage = build_usage context_chunks;
            filtered_sources =
              List.map_filter (\<lambda>s.
                 case usage (src_document_id s) of
                   None \<Rightarrow> None
                 | Some u \<Rightarrow> if is_relevant u then Some (with_usage False u s) else None)
                sources
        in if filtered_sources = [] then
             (let best_source =
                    py_max_key (\<lambda>s. case usage (src_document_id s) of
                                       None \<Rightarrow> 0 | Some u \<Rightarrow> du_max_score u)
                      (hd sources) (tl sources);
                  best_doc_id = src_document_id best_source
              in case usage best_doc_id of
                   None \<Rightarrow> filtered_sources
                 | Some u \<Rightarrow>
                     if best_doc_id \<noteq> 0 then [with_usage True u best_source]
                     else filtered_sources)
           else filtered_sources)"

text \<open>The citations of a chat turn whose search results are not empty.\<close>

definition chat_citations :: "(int \<rightharpoonup> document) \<Rightarrow> chat_results \<Rightarrow> source list" where
  "chat_citations db search_results =
     filter_relevant_sources (compact_sources db search_results)
       (to_context_chunks search_results)"

section \<open>Memory policy: \<open>SessionContextService.should_use_existing_context\<close>\<close>

record message =
  msg_role :: pystr
  msg_content :: pystr

record doc_snapshot =
  ds_content :: pystr
  ds_document_id :: "int option"
  ds_section :: "pystr option"
  ds_score :: real
  ds_query :: "pystr option"

record conversation_context =
  ctx_messages :: "message list"
  ctx_document_context :: "doc_snapshot list"
  ctx_current_section :: "pystr option"

definition last_user_message :: "message list \<Rightarrow> pystr option" where
  \<comment> \<open>the loop over \<open>reversed(context['messages'])\<close> that breaks at the first user message\<close>
  "last_user_message messages =
     (case find (\<lambda>msg. msg_role msg = ascii ''user'') (rev messages) of
        None \<Rightarrow> None
      | Some msg \<Rightarrow> Some (msg_content msg))"

text \<open>
  The similarity is computed by numpy on 64-bit floats. A float is taken as the real
  number it denotes, and the operations, which round, are parameters: \<open>np_dot\<close> and
  \<open>np_linalg_norm\<close> are the two library functions on vectors of equal length,
  \<open>np_multiply\<close> and \<open>np_divide\<close> are \<open>*\<close> and \<open>/\<close> on their results. The comparisons
  \<open>==\<close> and \<open>>\<close> of floats are exact, and the thresholds 0.6 and 0.3 are written as
  decimals: each is read as the greatest float below it, so a float exceeds the one
  exactly when it exceeds the other.
\<close>

record numpy =
  np_dot :: "real list \<Rightarrow> real list \<Rightarrow> real"
  np_linalg_norm :: "real list \<Rightarrow> real"
  np_multiply :: "real \<Rightarrow> real \<Rightarrow> real"
  np_divide :: "real \<Rightarrow> real \<Rightarrow> real"

text \<open>
  The embedding service is a parameter: \<open>None\<close> is a call that raises. Every exception,
  also the one \<open>np.dot\<close> raises for vectors of different lengths, makes the similarity
  \<open>0.0\<close>.
\<close>

definition calculate_query_similarity ::
  "numpy \<Rightarrow> (pystr \<Rightarrow> real list option) \<Rightarrow> pystr \<Rightarrow> pystr \<Rightarrow> real" where
  "calculate_query_similarity np embedder query1 query2 =
     (case embedder query1 of
        None \<Rightarrow> 0
      | Some vec1 \<Rightarrow>
          (case embedder query2 of
             None \<Rightarrow> 0
           | Some vec2 \<Rightarrow>
               if length vec1 \<noteq> length vec2 then 0
               else
                 let dot_product = np_dot np vec1 vec2;
                     norm1 = np_linalg_norm np vec1;
                     norm2 = np_linalg_norm np vec2
                 in if norm1 = 0 \<or> norm2 = 0 then 0
                    else np_divide np dot_product (np_multiply np norm1 norm2)))"

text \<open>
  The policy on the conversation context that \<open>get_conversation_context\<close> returned.
  \<open>_is_clarifying_question\<close>, a pure test of the two queries by word lists and regular
  expressions, is a parameter.
\<close>

definition should_use_existing_context ::
  "numpy \<Rightarrow> (pystr \<Rightarrow> real list option) \<Rightarrow> (pystr \<Rightarrow> pystr \<Rightarrow> bool) \<Rightarrow>
   conversation_context \<Rightarrow> pystr \<Rightarrow> real \<Rightarrow> bool \<times> doc_snapshot list \<times> pystr" where
  "should_use_existing_context np embedder is_clarifying_question context new_query threshold =
     (if ctx_document_context context = [] then (False, [], ascii ''new_search'')
      else if length (ctx_messages context) < 2 then (False, [], ascii ''new_search'')
      else case last_user_message (ctx_messages context) of
             None \<Rightarrow> (False, [], ascii ''new_search'')
           | Some last_message \<Rightarrow>
               if last_message = [] then (False, [], ascii ''new_search'')
               else if is_clarifying_question new_query last_message
                 then (True, ctx_document_context context, ascii ''context_reuse'')
               else
                 let similarity = calculate_query_similarity np embedder last_message new_query
                 in if similarity > threshold
                      then (True, ctx_document_context context, ascii ''context_reuse'')
                    else if similarity > 0.3
                      then (True, ctx_document_context context, ascii ''hybrid_context'')
                    else (False, [], ascii ''new_search''))"

section \<open>Prompt builder: \<open>RAGService._prepare_conversation_messages\<close>\<close>

text \<open>
  The string literals of the function, as lists of code points. Most of them are
  Russian text; each definition names the line of the literal and says what it is.
\<close>

definition SYSTEM_PROMPT :: pystr where
  \<comment> \<open>line 145 of \<open>rag_service.py\<close>: the system instructions, 1391 code points, from the first line of the prompt to its closing reminder\<close>
  "SYSTEM_PROMPT =
     [1058, 1099, 32, 45, 32, 1101, 1082, 1089, 1087, 1077, 1088, 1090, 32, 1087, 1086, 32,
      1082, 1091, 1083, 1080, 1085, 1072, 1088, 1085, 1099, 1084, 32, 1074, 1086, 1087, 1088,
      1086, 1089, 1072, 1084, 32, 1080, 32, 1088, 1077, 1089, 1090, 1086, 1088, 1072, 1085,
      1085, 1086, 1084, 1091, 32, 1084, 1077, 1085, 1077, 1076, 1078, 1084, 1077, 1085, 1090,
      1091, 46, 32, 1058, 1074, 1086, 1103, 32, 1079, 1072, 1076, 1072, 1095, 1072, 32, 45, 32,
      1074, 1077, 1089, 1090, 1080, 32, 1077, 1089, 1090, 1077, 1089, 1090, 1074, 1077, 1085,
      1085, 1099, 1081, 32, 1076, 1080, 1072, 1083, 1086, 1075, 32, 1089, 32, 1087, 1086, 1083,
      1100, 1079, 1086, 1074, 1072, 1090, 1077, 1083, 1103, 1084, 1080, 46, 10, 10, 1042, 1040,
      1046, 1053, 1054, 58, 32, 1042, 1057, 1045, 1043, 1044, 1040, 32, 1086, 1090, 1074, 1077,
      1095, 1072, 1081, 32, 1058, 1054, 1051, 1068, 1050, 1054, 32, 1053, 1040, 32, 1056, 1059,
      1057, 1057, 1050, 1054, 1052, 32, 1071, 1047, 1067, 1050, 1045, 44, 32, 1085, 1077, 1079,
      1072, 1074, 1080, 1089, 1080, 1084, 1086, 32, 1086, 1090, 32, 1103, 1079, 1099, 1082,
      1072, 32, 1074, 1086, 1087, 1088, 1086, 1089, 1072, 32, 1087, 1086, 1083, 1100, 1079,
      1086, 1074, 1072, 1090, 1077, 1083, 1103, 46, 10, 10, 1056, 1045, 1046, 1048, 1052, 1067,
      32, 1054, 1058, 1042, 1045, 1058, 1054, 1042, 58, 10, 49, 46, 32, 42, 42, 1044, 1054,
      1050, 1059, 1052, 1045, 1053, 1058, 1053, 1067, 1049, 32, 1056, 1045, 1046, 1048, 1052,
      42, 42, 32, 45, 32, 1082, 1086, 1075, 1076, 1072, 32, 1077, 1089, 1090, 1100, 32, 1088,
      1077, 1083, 1077, 1074, 1072, 1085, 1090, 1085, 1072, 1103, 32, 1080, 1085, 1092, 1086,
      1088, 1084, 1072, 1094, 1080, 1103, 32, 1074, 32, 1076, 1086, 1082, 1091, 1084, 1077,
      1085, 1090, 1072, 1093, 10, 50, 46, 32, 42, 42, 1043, 1048, 1041, 1056, 1048, 1044, 1053,
      1067, 1049, 32, 1056, 1045, 1046, 1048, 1052, 42, 42, 32, 45, 32, 1082, 1086, 1084, 1073,
      1080, 1085, 1080, 1088, 1091, 1081, 32, 1076, 1086, 1082, 1091, 1084, 1077, 1085, 1090,
      1099, 32, 1089, 32, 1086, 1073, 1097, 1080, 1084, 1080, 32, 1079, 1085, 1072, 1085, 1080,
      1103, 1084, 1080, 32, 32, 10, 51, 46, 32, 42, 42, 1054, 1041, 1065, 1048, 1049, 32, 1056,
      1045, 1046, 1048, 1052, 42, 42, 32, 45, 32, 1080, 1089, 1087, 1086, 1083, 1100, 1079,
      1091, 1081, 32, 1086, 1073, 1097, 1080, 1077, 32, 1079, 1085, 1072, 1085, 1080, 1103, 32,
      1076, 1083, 1103, 32, 1087, 1086, 1076, 1076, 1077, 1088, 1078, 1072, 1085, 1080, 1103,
      32, 1076, 1080, 1072, 1083, 1086, 1075, 1072, 10, 10, 1057, 1058, 1056, 1040, 1058, 1045,
      1043, 1048, 1071, 32, 1044, 1048, 1040, 1051, 1054, 1043, 1040, 58, 10, 45, 32, 1045,
      1089, 1083, 1080, 32, 1074, 1086, 1087, 1088, 1086, 1089, 32, 1089, 1074, 1103, 1079,
      1072, 1085, 32, 1089, 32, 1085, 1072, 1081, 1076, 1077, 1085, 1085, 1099, 1084, 1080, 32,
      1076, 1086, 1082, 1091, 1084, 1077, 1085, 1090, 1072, 1084, 1080, 32, 45, 32, 1080, 1089,
      1087, 1086, 1083, 1100, 1079, 1091, 1081, 32, 1080, 1093, 32, 1082, 1072, 1082, 32, 1086,
      1089, 1085, 1086, 1074, 1091, 10, 45, 32, 1045, 1089, 1083, 1080, 32, 1074, 1086, 1087,
      1088, 1086, 1089, 32, 1074, 1099, 1093, 1086, 1076, 1080, 1090, 32, 1079, 1072, 32, 1088,
      1072, 1084, 1082, 1080, 32, 1076, 1086, 1082, 1091, 1084, 1077, 1085, 1090, 1086, 1074,
      32, 45, 32, 1080, 1089, 1087, 1086, 1083, 1100, 1079, 1091, 1081, 32, 1086, 1073, 1097,
      1080, 1077, 32, 1079, 1085, 1072, 1085, 1080, 1103, 10, 45, 32, 1045, 1089, 1083, 1080,
      32, 1101, 1090, 1086, 32, 1087, 1088, 1086, 1076, 1086, 1083, 1078, 1077, 1085, 1080,
      1077, 32, 1076, 1080, 1072, 1083, 1086, 1075, 1072, 32, 45, 32, 1087, 1086, 1076, 1076,
      1077, 1088, 1078, 1080, 1074, 1072, 1081, 32, 1082, 1086, 1085, 1090, 1077, 1082, 1089,
      1090, 32, 1080, 32, 1077, 1089, 1090, 1077, 1089, 1090, 1074, 1077, 1085, 1085, 1086,
      1089, 1090, 1100, 10, 45, 32, 1047, 1072, 1076, 1072, 1074, 1072, 1081, 32, 1091, 1090,
      1086, 1095, 1085, 1103, 1102, 1097, 1080, 1077, 32, 1074, 1086, 1087, 1088, 1086, 1089,
      1099, 32, 1076, 1083, 1103, 32, 1083, 1091, 1095, 1096, 1077, 1075, 1086, 32, 1087, 1086,
      1085, 1080, 1084, 1072, 1085, 1080, 1103, 32, 1087, 1086, 1090, 1088, 1077, 1073, 1085,
      1086, 1089, 1090, 1077, 1081, 10, 45, 32, 1055, 1088, 1077, 1076, 1083, 1072, 1075, 1072,
      1081, 32, 1089, 1074, 1103, 1079, 1072, 1085, 1085, 1099, 1077, 32, 1090, 1077, 1084,
      1099, 32, 1076, 1083, 1103, 32, 1091, 1075, 1083, 1091, 1073, 1083, 1077, 1085, 1080,
      1103, 32, 1088, 1072, 1079, 1075, 1086, 1074, 1086, 1088, 1072, 10, 10, 1055, 1056, 1040,
      1042, 1048, 1051, 1040, 32, 1054, 1058, 1042, 1045, 1058, 1054, 1042, 58, 10, 49, 46, 32,
      1054, 1090, 1074, 1077, 1095, 1072, 1081, 32, 1058, 1054, 1051, 1068, 1050, 1054, 32,
      1085, 1072, 32, 1088, 1091, 1089, 1089, 1082, 1086, 1084, 32, 1103, 1079, 1099, 1082,
      1077, 10, 50, 46, 32, 1055, 1088, 1080, 1086, 1088, 1080, 1090, 1077, 1090, 32, 45, 32,
      1085, 1072, 1081, 1076, 1077, 1085, 1085, 1099, 1084, 32, 1076, 1086, 1082, 1091, 1084,
      1077, 1085, 1090, 1072, 1084, 44, 32, 1085, 1086, 32, 1085, 1077, 32, 1086, 1075, 1088,
      1072, 1085, 1080, 1095, 1080, 1074, 1072, 1081, 1089, 1103, 32, 1090, 1086, 1083, 1100,
      1082, 1086, 32, 1080, 1084, 1080, 10, 51, 46, 32, 1045, 1089, 1083, 1080, 32, 1080, 1085,
      1092, 1086, 1088, 1084, 1072, 1094, 1080, 1080, 32, 1085, 1077, 1076, 1086, 1089, 1090,
      1072, 1090, 1086, 1095, 1085, 1086, 32, 1074, 32, 1076, 1086, 1082, 1091, 1084, 1077,
      1085, 1090, 1072, 1093, 32, 45, 32, 1080, 1089, 1087, 1086, 1083, 1100, 1079, 1091, 1081,
      32, 1086, 1073, 1097, 1080, 1077, 32, 1079, 1085, 1072, 1085, 1080, 1103, 10, 52, 46, 32,
      1055, 1086, 1076, 1076, 1077, 1088, 1078, 1080, 1074, 1072, 1081, 32, 1077, 1089, 1090,
      1077, 1089, 1090, 1074, 1077, 1085, 1085, 1099, 1081, 32, 1076, 1080, 1072, 1083, 1086,
      1075, 32, 1080, 32, 1082, 1086, 1085, 1090, 1077, 1082, 1089, 1090, 32, 1088, 1072, 1079,
      1075, 1086, 1074, 1086, 1088, 1072, 10, 53, 46, 32, 1047, 1072, 1076, 1072, 1074, 1072,
      1081, 32, 1091, 1090, 1086, 1095, 1085, 1103, 1102, 1097, 1080, 1077, 32, 1074, 1086,
      1087, 1088, 1086, 1089, 1099, 32, 1076, 1083, 1103, 32, 1083, 1091, 1095, 1096, 1077,
      1075, 1086, 32, 1087, 1086, 1085, 1080, 1084, 1072, 1085, 1080, 1103, 10, 54, 46, 32,
      1055, 1088, 1077, 1076, 1083, 1072, 1075, 1072, 1081, 32, 1089, 1074, 1103, 1079, 1072,
      1085, 1085, 1099, 1077, 32, 1090, 1077, 1084, 1099, 32, 1076, 1083, 1103, 32, 1087, 1088,
      1086, 1076, 1086, 1083, 1078, 1077, 1085, 1080, 1103, 32, 1088, 1072, 1079, 1075, 1086,
      1074, 1086, 1088, 1072, 10, 10, 1060, 1054, 1056, 1052, 1040, 1058, 32, 1054, 1058, 1042,
      1045, 1058, 1040, 58, 10, 45, 32, 1053, 1072, 1095, 1080, 1085, 1072, 1081, 32, 1089, 32,
      1087, 1088, 1103, 1084, 1086, 1075, 1086, 32, 1086, 1090, 1074, 1077, 1090, 1072, 32,
      1085, 1072, 32, 1074, 1086, 1087, 1088, 1086, 1089, 10, 45, 32, 1055, 1086, 1076, 1082,
      1088, 1077, 1087, 1083, 1103, 1081, 32, 1086, 1090, 1074, 1077, 1090, 1099, 32, 1076,
      1072, 1085, 1085, 1099, 1084, 1080, 32, 1080, 1079, 32, 1076, 1086, 1082, 1091, 1084,
      1077, 1085, 1090, 1086, 1074, 32, 40, 1077, 1089, 1083, 1080, 32, 1077, 1089, 1090, 1100,
      41, 10, 45, 32, 1044, 1086, 1073, 1072, 1074, 1083, 1103, 1081, 32, 1087, 1086, 1083,
      1077, 1079, 1085, 1091, 1102, 32, 1080, 1085, 1092, 1086, 1088, 1084, 1072, 1094, 1080,
      1102, 32, 1080, 1079, 32, 1086, 1073, 1097, 1080, 1093, 32, 1079, 1085, 1072, 1085, 1080,
      1081, 10, 45, 32, 1047, 1072, 1074, 1077, 1088, 1096, 1072, 1081, 32, 1087, 1088, 1077,
      1076, 1083, 1086, 1078, 1077, 1085, 1080, 1077, 1084, 32, 1076, 1083, 1103, 32, 1087,
      1088, 1086, 1076, 1086, 1083, 1078, 1077, 1085, 1080, 1103, 32, 1076, 1080, 1072, 1083,
      1086, 1075, 1072, 10, 10, 1055, 1054, 1052, 1053, 1048, 58, 32, 1058, 1099, 32, 1085,
      1077, 32, 1087, 1088, 1086, 1089, 1090, 1086, 32, 1087, 1086, 1080, 1089, 1082, 1086,
      1074, 1080, 1082, 44, 32, 1072, 32, 1089, 1086, 1073, 1077, 1089, 1077, 1076, 1085, 1080,
      1082, 45, 1101, 1082, 1089, 1087, 1077, 1088, 1090, 33]"

definition SESSION_HEADER :: pystr where
  \<comment> \<open>line 182 of \<open>rag_service.py\<close>: heading of the session summary\<close>
  "SESSION_HEADER =
     [10, 10, 1055, 1056, 1045, 1044, 1067, 1044, 1059, 1065, 1048, 1049, 32, 1050, 1054, 1053,
      1058, 1045, 1050, 1057, 1058, 32, 1057, 1045, 1057, 1057, 1048, 1048, 58, 10]"

definition SESSION_INTRO :: pystr where
  \<comment> \<open>line 183 of \<open>rag_service.py\<close>: sentence that introduces the documents of the session\<close>
  "SESSION_INTRO =
     [1042, 32, 1101, 1090, 1086, 1081, 32, 1089, 1077, 1089, 1089, 1080, 1080, 32, 1091, 1078,
      1077, 32, 1086, 1073, 1089, 1091, 1078, 1076, 1072, 1083, 1080, 1089, 1100, 32, 1089,
      1083, 1077, 1076, 1091, 1102, 1097, 1080, 1077, 32, 1076, 1086, 1082, 1091, 1084, 1077,
      1085, 1090, 1099, 58, 10]"

definition DOC_LINE_1 :: pystr where
  \<comment> \<open>line 189 of \<open>rag_service.py\<close>: after the number of a session document: a dot, a space, the word for document, a space\<close>
  "DOC_LINE_1 =
     [46, 32, 1044, 1086, 1082, 1091, 1084, 1077, 1085, 1090, 32]"

definition DOC_LINE_2 :: pystr where
  \<comment> \<open>line 189 of \<open>rag_service.py\<close>: before the section of a session document\<close>
  "DOC_LINE_2 =
     [32, 40, 1088, 1072, 1079, 1076, 1077, 1083, 58, 32]"

definition DOC_LINE_3 :: pystr where
  \<comment> \<open>line 189 of \<open>rag_service.py\<close>: before the quoted query of a session document\<close>
  "DOC_LINE_3 =
     [41, 32, 45, 32, 1085, 1072, 1081, 1076, 1077, 1085, 32, 1087, 1086, 32, 1079, 1072, 1087,
      1088, 1086, 1089, 1091, 58, 32, 39]"

definition DOC_LINE_4 :: pystr where
  \<comment> \<open>line 189 of \<open>rag_service.py\<close>: closing quote and newline\<close>
  "DOC_LINE_4 =
     [39, 10]"

definition SECTION_FOCUS :: pystr where
  \<comment> \<open>line 193 of \<open>rag_service.py\<close>: heading of the current section focus\<close>
  "SECTION_FOCUS =
     [10, 1058, 1045, 1050, 1059, 1065, 1048, 1049, 32, 1060, 1054, 1050, 1059, 1057, 32, 1056,
      1040, 1047, 1044, 1045, 1051, 1040, 58, 32]"

definition NEWLINE :: pystr where
  \<comment> \<open>line 193 of \<open>rag_service.py\<close>: one newline\<close>
  "NEWLINE =
     [10]"

definition HISTORY_HEADER_1 :: pystr where
  \<comment> \<open>line 203 of \<open>rag_service.py\<close>: heading of the dialogue history, up to the count\<close>
  "HISTORY_HEADER_1 =
     [10, 10, 1048, 1057, 1058, 1054, 1056, 1048, 1071, 32, 1044, 1048, 1040, 1051, 1054, 1043,
      1040, 32, 40, 1087, 1086, 1089, 1083, 1077, 1076, 1085, 1080, 1077, 32]"

definition HISTORY_HEADER_2 :: pystr where
  \<comment> \<open>line 203 of \<open>rag_service.py\<close>: rest of the heading of the dialogue history\<close>
  "HISTORY_HEADER_2 =
     [32, 1089, 1086, 1086, 1073, 1097, 1077, 1085, 1080, 1081, 41, 58, 10]"

definition HISTORY_USER :: pystr where
  \<comment> \<open>line 207 of \<open>rag_service.py\<close>: label of a user message\<close>
  "HISTORY_USER =
     [1055, 1086, 1083, 1100, 1079, 1086, 1074, 1072, 1090, 1077, 1083, 1100, 58, 32]"

definition HISTORY_ASSISTANT :: pystr where
  \<comment> \<open>line 209 of \<open>rag_service.py\<close>: label of a previous answer\<close>
  "HISTORY_ASSISTANT =
     [1055, 1088, 1077, 1076, 1099, 1076, 1091, 1097, 1080, 1081, 32, 1086, 1090, 1074, 1077,
      1090, 58, 32]"

definition CONTEXT_HEADER :: pystr where
  \<comment> \<open>line 216 of \<open>rag_service.py\<close>: heading of the document context\<close>
  "CONTEXT_HEADER =
     [10, 10, 1058, 1045, 1050, 1059, 1065, 1048, 1049, 32, 1050, 1054, 1053, 1058, 1045, 1050,
      1057, 1058, 32, 1044, 1054, 1050, 1059, 1052, 1045, 1053, 1058, 1054, 1042, 58, 10]"

definition CONTEXT_INTRO :: pystr where
  \<comment> \<open>line 217 of \<open>rag_service.py\<close>: sentence that introduces the retrieved fragments\<close>
  "CONTEXT_INTRO =
     [1042, 1086, 1090, 32, 1085, 1072, 1081, 1076, 1077, 1085, 1085, 1099, 1077, 32, 1088,
      1077, 1083, 1077, 1074, 1072, 1085, 1090, 1085, 1099, 1077, 32, 1092, 1088, 1072, 1075,
      1084, 1077, 1085, 1090, 1099, 32, 1076, 1086, 1082, 1091, 1084, 1077, 1085, 1090, 1086,
      1074, 32, 40, 1080, 1089, 1087, 1086, 1083, 1100, 1079, 1091, 1081, 32, 1080, 1093, 32,
      1082, 1072, 1082, 32, 1086, 1089, 1085, 1086, 1074, 1091, 44, 32, 1085, 1086, 32, 1085,
      1077, 32, 1086, 1075, 1088, 1072, 1085, 1080, 1095, 1080, 1074, 1072, 1081, 1089, 1103,
      32, 1090, 1086, 1083, 1100, 1082, 1086, 32, 1080, 1084, 1080, 41, 58, 10, 10]"

definition FRAGMENT_1 :: pystr where
  \<comment> \<open>line 220 of \<open>rag_service.py\<close>: label of a fragment, before its number\<close>
  "FRAGMENT_1 =
     [1060, 1088, 1072, 1075, 1084, 1077, 1085, 1090, 32]"

definition FRAGMENT_2 :: pystr where
  \<comment> \<open>line 220 of \<open>rag_service.py\<close>: colon and newline\<close>
  "FRAGMENT_2 =
     [58, 10]"

definition FRAGMENT_CONTENT :: pystr where
  \<comment> \<open>line 221 of \<open>rag_service.py\<close>: label of the content of a fragment\<close>
  "FRAGMENT_CONTENT =
     [1057, 1086, 1076, 1077, 1088, 1078, 1072, 1085, 1080, 1077, 58, 32]"

definition FRAGMENT_SOURCE_1 :: pystr where
  \<comment> \<open>line 222 of \<open>rag_service.py\<close>: label of the source of a fragment, up to the document id\<close>
  "FRAGMENT_SOURCE_1 =
     [1048, 1089, 1090, 1086, 1095, 1085, 1080, 1082, 58, 32, 1044, 1086, 1082, 1091, 1084,
      1077, 1085, 1090, 32]"

definition FRAGMENT_SOURCE_2 :: pystr where
  \<comment> \<open>line 222 of \<open>rag_service.py\<close>: label of the section of a fragment\<close>
  "FRAGMENT_SOURCE_2 =
     [44, 32, 1056, 1072, 1079, 1076, 1077, 1083, 58, 32]"

definition FRAGMENT_SCORE :: pystr where
  \<comment> \<open>line 223 of \<open>rag_service.py\<close>: label of the relevance of a fragment\<close>
  "FRAGMENT_SCORE =
     [1056, 1077, 1083, 1077, 1074, 1072, 1085, 1090, 1085, 1086, 1089, 1090, 1100, 58, 32]"

definition TWO_NEWLINES :: pystr where
  \<comment> \<open>line 223 of \<open>rag_service.py\<close>: two newlines\<close>
  "TWO_NEWLINES =
     [10, 10]"

definition NO_DOCUMENTS_NOTICE :: pystr where
  \<comment> \<open>line 225 of \<open>rag_service.py\<close>: the notice that no documents were found for the query and that general knowledge is to be used\<close>
  "NO_DOCUMENTS_NOTICE =
     [10, 10, 1050, 1054, 1053, 1058, 1045, 1050, 1057, 1058, 58, 32, 1042, 32, 1076, 1072,
      1085, 1085, 1099, 1081, 32, 1084, 1086, 1084, 1077, 1085, 1090, 32, 1085, 1077, 1090, 32,
      1085, 1072, 1081, 1076, 1077, 1085, 1085, 1099, 1093, 32, 1076, 1086, 1082, 1091, 1084,
      1077, 1085, 1090, 1086, 1074, 32, 1087, 1086, 32, 1079, 1072, 1087, 1088, 1086, 1089,
      1091, 46, 32, 1048, 1089, 1087, 1086, 1083, 1100, 1079, 1091, 1081, 32, 1086, 1073, 1097,
      1080, 1077, 32, 1079, 1085, 1072, 1085, 1080, 1103, 32, 1076, 1083, 1103, 32, 1086, 1090,
      1074, 1077, 1090, 1072, 32, 1080, 32, 1087, 1088, 1077, 1076, 1083, 1086, 1078, 1080, 44,
      32, 1082, 1072, 1082, 1080, 1077, 32, 1076, 1086, 1082, 1091, 1084, 1077, 1085, 1090,
      1099, 32, 1084, 1086, 1075, 1091, 1090, 32, 1073, 1099, 1090, 1100, 32, 1087, 1086, 1083,
      1077, 1079, 1085, 1099, 46]"

definition QUESTION_HEADER :: pystr where
  \<comment> \<open>line 228 of \<open>rag_service.py\<close>: heading of the user question\<close>
  "QUESTION_HEADER =
     [1042, 1054, 1055, 1056, 1054, 1057, 32, 1055, 1054, 1051, 1068, 1047, 1054, 1042, 1040,
      1058, 1045, 1051, 1071, 58, 10]"

definition STRATEGY_DOCUMENT_HEAVY :: pystr where
  \<comment> \<open>line 234 of \<open>rag_service.py\<close>: strategy guidance: relevant documents exist, emphasise them\<close>
  "STRATEGY_DOCUMENT_HEAVY =
     [10, 10, 1057, 1058, 1056, 1040, 1058, 1045, 1043, 1048, 1071, 32, 1054, 1058, 1042, 1045,
      1058, 1040, 58, 32, 1059, 32, 1090, 1077, 1073, 1103, 32, 1077, 1089, 1090, 1100, 32,
      1088, 1077, 1083, 1077, 1074, 1072, 1085, 1090, 1085, 1099, 1077, 32, 1076, 1086, 1082,
      1091, 1084, 1077, 1085, 1090, 1099, 46, 32, 1057, 1076, 1077, 1083, 1072, 1081, 32, 1072,
      1082, 1094, 1077, 1085, 1090, 32, 1085, 1072, 32, 1085, 1080, 1093, 44, 32, 1085, 1086,
      32, 1084, 1086, 1078, 1077, 1096, 1100, 32, 1076, 1086, 1087, 1086, 1083, 1085, 1080,
      1090, 1100, 32, 1086, 1073, 1097, 1080, 1084, 1080, 32, 1079, 1085, 1072, 1085, 1080,
      1103, 1084, 1080, 32, 1076, 1083, 1103, 32, 1073, 1086, 1083, 1077, 1077, 32, 1087, 1086,
      1083, 1085, 1086, 1075, 1086, 32, 1086, 1090, 1074, 1077, 1090, 1072, 46]"

definition STRATEGY_CONTEXT_AWARE :: pystr where
  \<comment> \<open>line 236 of \<open>rag_service.py\<close>: strategy guidance: the turn continues the dialogue\<close>
  "STRATEGY_CONTEXT_AWARE =
     [10, 10, 1057, 1058, 1056, 1040, 1058, 1045, 1043, 1048, 1071, 32, 1054, 1058, 1042, 1045,
      1058, 1040, 58, 32, 1069, 1090, 1086, 32, 1087, 1088, 1086, 1076, 1086, 1083, 1078, 1077,
      1085, 1080, 1077, 32, 1076, 1080, 1072, 1083, 1086, 1075, 1072, 46, 32, 1048, 1089, 1087,
      1086, 1083, 1100, 1079, 1091, 1081, 32, 1082, 1086, 1085, 1090, 1077, 1082, 1089, 1090,
      32, 1087, 1088, 1077, 1076, 1099, 1076, 1091, 1097, 1080, 1093, 32, 1089, 1086, 1086,
      1073, 1097, 1077, 1085, 1080, 1081, 32, 1080, 32, 1085, 1072, 1081, 1076, 1077, 1085,
      1085, 1099, 1077, 32, 1076, 1086, 1082, 1091, 1084, 1077, 1085, 1090, 1099, 32, 1076,
      1083, 1103, 32, 1089, 1074, 1103, 1079, 1085, 1086, 1075, 1086, 32, 1086, 1090, 1074,
      1077, 1090, 1072, 46]"

definition STRATEGY_GENERAL_KNOWLEDGE :: pystr where
  \<comment> \<open>line 238 of \<open>rag_service.py\<close>: strategy guidance: no documents found\<close>
  "STRATEGY_GENERAL_KNOWLEDGE =
     [10, 10, 1057, 1058, 1056, 1040, 1058, 1045, 1043, 1048, 1071, 32, 1054, 1058, 1042, 1045,
      1058, 1040, 58, 32, 1044, 1086, 1082, 1091, 1084, 1077, 1085, 1090, 1086, 1074, 32, 1085,
      1077, 32, 1085, 1072, 1081, 1076, 1077, 1085, 1086, 46, 32, 1048, 1089, 1087, 1086, 1083,
      1100, 1079, 1091, 1081, 32, 1086, 1073, 1097, 1080, 1077, 32, 1079, 1085, 1072, 1085,
      1080, 1103, 32, 1080, 32, 1087, 1088, 1077, 1076, 1083, 1086, 1078, 1080, 44, 32, 1082,
      1072, 1082, 32, 1084, 1086, 1078, 1085, 1086, 32, 1085, 1072, 1081, 1090, 1080, 32, 1085,
      1091, 1078, 1085, 1091, 1102, 32, 1080, 1085, 1092, 1086, 1088, 1084, 1072, 1094, 1080,
      1102, 46]"

definition STRATEGY_HYBRID :: pystr where
  \<comment> \<open>line 240 of \<open>rag_service.py\<close>: strategy guidance: start from the documents\<close>
  "STRATEGY_HYBRID =
     [10, 10, 1057, 1058, 1056, 1040, 1058, 1045, 1043, 1048, 1071, 32, 1054, 1058, 1042, 1045,
      1058, 1040, 58, 32, 1059, 32, 1090, 1077, 1073, 1103, 32, 1077, 1089, 1090, 1100, 32,
      1088, 1077, 1083, 1077, 1074, 1072, 1085, 1090, 1085, 1099, 1077, 32, 1076, 1086, 1082,
      1091, 1084, 1077, 1085, 1090, 1099, 46, 32, 1053, 1072, 1095, 1085, 1080, 32, 1089, 32,
      1085, 1080, 1093, 44, 32, 1085, 1086, 32, 1084, 1086, 1078, 1077, 1096, 1100, 32, 1076,
      1086, 1087, 1086, 1083, 1085, 1080, 1090, 1100, 32, 1086, 1073, 1097, 1080, 1084, 1080,
      32, 1079, 1085, 1072, 1085, 1080, 1103, 1084, 1080, 32, 1076, 1083, 1103, 32, 1073, 1086,
      1083, 1077, 1077, 32, 1087, 1086, 1083, 1085, 1086, 1075, 1086, 32, 1086, 1090, 1074,
      1077, 1090, 1072, 46]"

definition STRATEGY_DEFAULT_DOCUMENTS :: pystr where
  \<comment> \<open>line 244 of \<open>rag_service.py\<close>: default guidance when there are chunks\<close>
  "STRATEGY_DEFAULT_DOCUMENTS =
     [10, 10, 1057, 1058, 1056, 1040, 1058, 1045, 1043, 1048, 1071, 32, 1054, 1058, 1042, 1045,
      1058, 1040, 58, 32, 1059, 32, 1090, 1077, 1073, 1103, 32, 1077, 1089, 1090, 1100, 32,
      1088, 1077, 1083, 1077, 1074, 1072, 1085, 1090, 1085, 1099, 1077, 32, 1076, 1086, 1082,
      1091, 1084, 1077, 1085, 1090, 1099, 46, 32, 1053, 1072, 1095, 1085, 1080, 32, 1089, 32,
      1085, 1080, 1093, 44, 32, 1085, 1086, 32, 1084, 1086, 1078, 1077, 1096, 1100, 32, 1076,
      1086, 1087, 1086, 1083, 1085, 1080, 1090, 1100, 32, 1086, 1073, 1097, 1080, 1084, 1080,
      32, 1079, 1085, 1072, 1085, 1080, 1103, 1084, 1080, 32, 1076, 1083, 1103, 32, 1073, 1086,
      1083, 1077, 1077, 32, 1087, 1086, 1083, 1085, 1086, 1075, 1086, 32, 1086, 1090, 1074,
      1077, 1090, 1072, 46]"

definition STRATEGY_DEFAULT_NONE :: pystr where
  \<comment> \<open>line 246 of \<open>rag_service.py\<close>: default guidance when there are no chunks\<close>
  "STRATEGY_DEFAULT_NONE =
     [10, 10, 1057, 1058, 1056, 1040, 1058, 1045, 1043, 1048, 1071, 32, 1054, 1058, 1042, 1045,
      1058, 1040, 58, 32, 1044, 1086, 1082, 1091, 1084, 1077, 1085, 1090, 1086, 1074, 32, 1085,
      1077, 32, 1085, 1072, 1081, 1076, 1077, 1085, 1086, 46, 32, 1048, 1089, 1087, 1086, 1083,
      1100, 1079, 1091, 1081, 32, 1086, 1073, 1097, 1080, 1077, 32, 1079, 1085, 1072, 1085,
      1080, 1103, 32, 1080, 32, 1087, 1088, 1077, 1076, 1083, 1086, 1078, 1080, 44, 32, 1082,
      1072, 1082, 32, 1084, 1086, 1078, 1085, 1086, 32, 1085, 1072, 1081, 1090, 1080, 32, 1085,
      1091, 1078, 1085, 1091, 1102, 32, 1080, 1085, 1092, 1086, 1088, 1084, 1072, 1094, 1080,
      1102, 46]"

definition ANSWER_HEADER :: pystr where
  \<comment> \<open>line 248 of \<open>rag_service.py\<close>: the closing request for an answer in Russian\<close>
  "ANSWER_HEADER =
     [10, 10, 1054, 1058, 1042, 1045, 1058, 32, 40, 1086, 1073, 1103, 1079, 1072, 1090, 1077,
      1083, 1100, 1085, 1086, 32, 1085, 1072, 32, 1088, 1091, 1089, 1089, 1082, 1086, 1084, 32,
      1103, 1079, 1099, 1082, 1077, 44, 32, 1087, 1086, 1076, 1076, 1077, 1088, 1078, 1080,
      1074, 1072, 1081, 32, 1076, 1080, 1072, 1083, 1086, 1075, 41, 58]"

definition FOLLOW_UP_1 :: pystr where
  \<comment> \<open>line 252 of \<open>rag_service.py\<close>: special instructions for a follow-up question, heading\<close>
  "FOLLOW_UP_1 =
     [10, 10, 1054, 1057, 1054, 1041, 1067, 1045, 32, 1048, 1053, 1057, 1058, 1056, 1059, 1050,
      1062, 1048, 1048, 32, 1044, 1051, 1071, 32, 70, 79, 76, 76, 79, 87, 45, 85, 80, 32, 1042,
      1054, 1055, 1056, 1054, 1057, 1040, 58, 10]"

definition FOLLOW_UP_2 :: pystr where
  \<comment> \<open>line 253 of \<open>rag_service.py\<close>: follow-up instructions, line 1\<close>
  "FOLLOW_UP_2 =
     [45, 32, 1069, 1090, 1086, 32, 1087, 1088, 1086, 1076, 1086, 1083, 1078, 1077, 1085, 1080,
      1077, 32, 1076, 1080, 1072, 1083, 1086, 1075, 1072, 44, 32, 1087, 1086, 1101, 1090, 1086,
      1084, 1091, 32, 1087, 1086, 1076, 1076, 1077, 1088, 1078, 1080, 1074, 1072, 1081, 32,
      1077, 1089, 1090, 1077, 1089, 1090, 1074, 1077, 1085, 1085, 1086, 1089, 1090, 1100, 10]"

definition FOLLOW_UP_3 :: pystr where
  \<comment> \<open>line 254 of \<open>rag_service.py\<close>: follow-up instructions, line 2\<close>
  "FOLLOW_UP_3 =
     [45, 32, 1057, 1089, 1099, 1083, 1072, 1081, 1089, 1103, 32, 1085, 1072, 32, 1087, 1088,
      1077, 1076, 1099, 1076, 1091, 1097, 1080, 1077, 32, 1086, 1090, 1074, 1077, 1090, 1099,
      32, 1080, 32, 1085, 1072, 1081, 1076, 1077, 1085, 1085, 1099, 1077, 32, 1076, 1086, 1082,
      1091, 1084, 1077, 1085, 1090, 1099, 10]"

definition FOLLOW_UP_4 :: pystr where
  \<comment> \<open>line 255 of \<open>rag_service.py\<close>: follow-up instructions, line 3\<close>
  "FOLLOW_UP_4 =
     [45, 32, 1045, 1089, 1083, 1080, 32, 1085, 1091, 1078, 1085, 1086, 44, 32, 1079, 1072,
      1076, 1072, 1074, 1072, 1081, 32, 1091, 1090, 1086, 1095, 1085, 1103, 1102, 1097, 1080,
      1077, 32, 1074, 1086, 1087, 1088, 1086, 1089, 1099, 10]"

definition FOLLOW_UP_5 :: pystr where
  \<comment> \<open>line 256 of \<open>rag_service.py\<close>: follow-up instructions, line 4\<close>
  "FOLLOW_UP_5 =
     [45, 32, 1055, 1088, 1077, 1076, 1083, 1072, 1075, 1072, 1081, 32, 1089, 1074, 1103, 1079,
      1072, 1085, 1085, 1099, 1077, 32, 1090, 1077, 1084, 1099, 32, 1076, 1083, 1103, 32, 1091,
      1075, 1083, 1091, 1073, 1083, 1077, 1085, 1080, 1103, 32, 1088, 1072, 1079, 1075, 1086,
      1074, 1086, 1088, 1072]"

definition CLARIFICATION_1 :: pystr where
  \<comment> \<open>line 260 of \<open>rag_service.py\<close>: special instructions for a clarifying question, heading\<close>
  "CLARIFICATION_1 =
     [10, 10, 1054, 1057, 1054, 1041, 1067, 1045, 32, 1048, 1053, 1057, 1058, 1056, 1059, 1050,
      1062, 1048, 1048, 32, 1044, 1051, 1071, 32, 1059, 1058, 1054, 1063, 1053, 1071, 1070,
      1065, 1045, 1043, 1054, 32, 1042, 1054, 1055, 1056, 1054, 1057, 1040, 58, 10]"

definition CLARIFICATION_2 :: pystr where
  \<comment> \<open>line 261 of \<open>rag_service.py\<close>: clarification instructions, line 1\<close>
  "CLARIFICATION_2 =
     [45, 32, 1054, 1073, 1098, 1103, 1089, 1085, 1080, 32, 1087, 1088, 1086, 1089, 1090, 1099,
      1084, 1080, 32, 1080, 32, 1087, 1086, 1085, 1103, 1090, 1085, 1099, 1084, 1080, 32, 1089,
      1083, 1086, 1074, 1072, 1084, 1080, 10]"

definition CLARIFICATION_3 :: pystr where
  \<comment> \<open>line 262 of \<open>rag_service.py\<close>: clarification instructions, line 2\<close>
  "CLARIFICATION_3 =
     [45, 32, 1048, 1089, 1087, 1086, 1083, 1100, 1079, 1091, 1081, 32, 1087, 1088, 1080, 1084,
      1077, 1088, 1099, 32, 1080, 32, 1072, 1085, 1072, 1083, 1086, 1075, 1080, 1080, 10]"

definition CLARIFICATION_4 :: pystr where
  \<comment> \<open>line 263 of \<open>rag_service.py\<close>: clarification instructions, line 3\<close>
  "CLARIFICATION_4 =
     [45, 32, 1056, 1072, 1079, 1073, 1080, 1074, 1072, 1081, 32, 1089, 1083, 1086, 1078, 1085,
      1099, 1077, 32, 1082, 1086, 1085, 1094, 1077, 1087, 1094, 1080, 1080, 32, 1085, 1072, 32,
      1087, 1088, 1086, 1089, 1090, 1099, 1077, 32, 1095, 1072, 1089, 1090, 1080, 10]"

definition CLARIFICATION_5 :: pystr where
  \<comment> \<open>line 264 of \<open>rag_service.py\<close>: clarification instructions, line 4\<close>
  "CLARIFICATION_5 =
     [45, 32, 1055, 1088, 1086, 1074, 1077, 1088, 1103, 1081, 32, 1087, 1086, 1085, 1080, 1084,
      1072, 1085, 1080, 1077, 32, 1087, 1086, 1083, 1100, 1079, 1086, 1074, 1072, 1090, 1077,
      1083, 1103]"

definition PRACTICAL_1 :: pystr where
  \<comment> \<open>line 268 of \<open>rag_service.py\<close>: special instructions for a practical question, heading\<close>
  "PRACTICAL_1 =
     [10, 10, 1054, 1057, 1054, 1041, 1067, 1045, 32, 1048, 1053, 1057, 1058, 1056, 1059, 1050,
      1062, 1048, 1048, 32, 1044, 1051, 1071, 32, 1055, 1056, 1040, 1050, 1058, 1048, 1063,
      1045, 1057, 1050, 1054, 1043, 1054, 32, 1042, 1054, 1055, 1056, 1054, 1057, 1040, 58, 10]"

definition PRACTICAL_2 :: pystr where
  \<comment> \<open>line 269 of \<open>rag_service.py\<close>: practical instructions, line 1\<close>
  "PRACTICAL_2 =
     [45, 32, 1044, 1072, 1074, 1072, 1081, 32, 1087, 1086, 1096, 1072, 1075, 1086, 1074, 1099,
      1077, 32, 1080, 1085, 1089, 1090, 1088, 1091, 1082, 1094, 1080, 1080, 10]"

definition PRACTICAL_3 :: pystr where
  \<comment> \<open>line 270 of \<open>rag_service.py\<close>: practical instructions, line 2\<close>
  "PRACTICAL_3 =
     [45, 32, 1059, 1082, 1072, 1079, 1099, 1074, 1072, 1081, 32, 1074, 1072, 1078, 1085, 1099,
      1077, 32, 1076, 1077, 1090, 1072, 1083, 1080, 32, 1080, 32, 1085, 1102, 1072, 1085, 1089,
      1099, 10]"

definition PRACTICAL_4 :: pystr where
  \<comment> \<open>line 271 of \<open>rag_service.py\<close>: practical instructions, line 3\<close>
  "PRACTICAL_4 =
     [45, 32, 1055, 1088, 1077, 1076, 1091, 1087, 1088, 1077, 1078, 1076, 1072, 1081, 32, 1086,
      32, 1074, 1086, 1079, 1084, 1086, 1078, 1085, 1099, 1093, 32, 1087, 1088, 1086, 1073,
      1083, 1077, 1084, 1072, 1093, 10]"

definition PRACTICAL_5 :: pystr where
  \<comment> \<open>line 272 of \<open>rag_service.py\<close>: practical instructions, line 4\<close>
  "PRACTICAL_5 =
     [45, 32, 1055, 1088, 1077, 1076, 1083, 1072, 1075, 1072, 1081, 32, 1072, 1083, 1100, 1090,
      1077, 1088, 1085, 1072, 1090, 1080, 1074, 1085, 1099, 1077, 32, 1074, 1072, 1088, 1080,
      1072, 1085, 1090, 1099]"

record question_analysis =
  qa_suggested_strategy :: pystr
  qa_is_follow_up :: bool
  qa_is_clarification :: bool
  qa_is_practical :: bool

definition py_last :: "nat \<Rightarrow> 'a list \<Rightarrow> 'a list" where
  \<comment> \<open>\<open>xs[-n:]\<close> for a positive \<open>n\<close>\<close>
  "py_last n xs = drop (length xs - n) xs"

definition py_enumerate_from :: "int \<Rightarrow> 'a list \<Rightarrow> (int \<times> 'a) list" where
  \<comment> \<open>\<open>enumerate(xs, start)\<close>\<close>
  "py_enumerate_from start xs = zip (map (\<lambda>i. start + int i) [0..<length xs]) xs"

text \<open>
  A value inside an f-string. The dictionaries that the handler passes have every key
  that the builder reads, with the value \<open>None\<close> where there is nothing to say; the
  default of \<open>dict.get\<close>, which is for a missing key, is never used, and \<open>None\<close> is
  printed as the word \<open>None\<close>.
\<close>

definition py_str_opt :: "pystr option \<Rightarrow> pystr" where
  "py_str_opt v = (case v of Some s \<Rightarrow> s | None \<Rightarrow> ascii ''None'')"

definition session_doc_line :: "int \<times> doc_snapshot \<Rightarrow> pystr" where
  "session_doc_line = (\<lambda>(i, doc).
     py_str_int i @ DOC_LINE_1 @ py_str_opt (map_option py_str_int (ds_document_id doc)) @
     DOC_LINE_2 @ py_str_opt (ds_section doc) @ DOC_LINE_3 @ py_str_opt (ds_query doc) @
     DOC_LINE_4)"

definition session_summary :: "conversation_context option \<Rightarrow> pystr" where
  "session_summary session_context =
     (case session_context of
        None \<Rightarrow> []
      | Some sc \<Rightarrow>
          if ctx_document_context sc = [] then []
          else
            (let recent_docs = py_last 5 (ctx_document_context sc) in
             SESSION_HEADER @ SESSION_INTRO @
             concat (map session_doc_line (py_enumerate_from 1 recent_docs)) @
             (if truthy_str (ctx_current_section sc)
              then SECTION_FOCUS @ the (ctx_current_section sc) @ NEWLINE else [])))"

definition history_line :: "message \<Rightarrow> pystr" where
  "history_line msg =
     (if msg_role msg = ascii ''user'' then HISTORY_USER @ msg_content msg @ [10]
      else HISTORY_ASSISTANT @ msg_content msg @ [10])"

definition history_summary :: "message list option \<Rightarrow> pystr" where
  "history_summary conversation_history =
     (case conversation_history of
        None \<Rightarrow> []
      | Some history \<Rightarrow>
          if history = [] then []
          else
            (let recent_history = py_last 5 history in
             HISTORY_HEADER_1 @ py_str_int (int (length recent_history)) @ HISTORY_HEADER_2 @
             concat (map history_line recent_history)))"

text \<open>
  One pass of the loop over \<open>enumerate(context_chunks, 1)\<close>. The format \<open>:.2f\<close> of a
  floating-point score is a parameter.
\<close>

definition fragment_lines :: "(real \<Rightarrow> pystr) \<Rightarrow> int \<times> context_chunk \<Rightarrow> pystr" where
  "fragment_lines format_2f = (\<lambda>(i, chunk).
     FRAGMENT_1 @ py_str_int i @ FRAGMENT_2 @
     FRAGMENT_CONTENT @ cc_content chunk @ [10] @
     FRAGMENT_SOURCE_1 @ py_str_opt (map_option py_str_int (cc_document_id chunk)) @
       FRAGMENT_SOURCE_2 @ py_str_opt (cc_section chunk) @ [10] @
     FRAGMENT_SCORE @ format_2f (cc_score chunk) @ TWO_NEWLINES)"

definition strategy_guidance :: "question_analysis option \<Rightarrow> context_chunk list \<Rightarrow> pystr" where
  "strategy_guidance question_analysis context_chunks =
     (case question_analysis of
        Some qa \<Rightarrow>
          (let strategy = qa_suggested_strategy qa in
           if strategy = ascii ''document_heavy'' then STRATEGY_DOCUMENT_HEAVY
           else if strategy = ascii ''context_aware'' then STRATEGY_CONTEXT_AWARE
           else if strategy = ascii ''general_knowledge'' then STRATEGY_GENERAL_KNOWLEDGE
           else STRATEGY_HYBRID)
      | None \<Rightarrow>
          if context_chunks \<noteq> [] then STRATEGY_DEFAULT_DOCUMENTS else STRATEGY_DEFAULT_NONE)"

definition special_instructions :: "question_analysis option \<Rightarrow> pystr" where
  "special_instructions question_analysis =
     (case question_analysis of
        None \<Rightarrow> []
      | Some qa \<Rightarrow>
          (if qa_is_follow_up qa
           then FOLLOW_UP_1 @ FOLLOW_UP_2 @ FOLLOW_UP_3 @ FOLLOW_UP_4 @ FOLLOW_UP_5 else []) @
          (if qa_is_clarification qa
           then CLARIFICATION_1 @ CLARIFICATION_2 @ CLARIFICATION_3 @ CLARIFICATION_4 @
                CLARIFICATION_5 else []) @
          (if qa_is_practical qa
           then PRACTICAL_1 @ PRACTICAL_2 @ PRACTICAL_3 @ PRACTICAL_4 @ PRACTICAL_5 else []))"

text \<open>
  The prompt grows by appending. The notice is the \<open>else\<close> clause of the \<open>for\<close> loop over
  the chunks, and the loop has no \<open>break\<close>: the clause runs after the last pass, also
  when there was no pass at all. The result is the list of messages, each a pair of
  role and content. The \<open>except\<close> branch with its short prompt is reached only when a
  dictionary lacks a key that the function reads without a default; the records have
  these fields.
\<close>

definition prepare_conversation_messages ::
  "(real \<Rightarrow> pystr) \<Rightarrow> pystr \<Rightarrow> context_chunk list \<Rightarrow> message list option \<Rightarrow>
   conversation_context option \<Rightarrow> question_analysis option \<Rightarrow> (pystr \<times> pystr) list" where
  "prepare_conversation_messages format_2f query context_chunks conversation_history
     session_context question_analysis =
     (let prompt0 = SYSTEM_PROMPT;
          prompt1 = prompt0 @ session_summary session_context;
          prompt2 = prompt1 @ history_summary conversation_history;
          prompt3 = prompt2 @ (if context_chunks \<noteq> [] then CONTEXT_HEADER @ CONTEXT_INTRO else []);
          prompt4 = prompt3 @
                    concat (map (fragment_lines format_2f) (py_enumerate_from 1 context_chunks)) @
                    NO_DOCUMENTS_NOTICE;
          prompt5 = prompt4 @ QUESTION_HEADER @ query @ [10, 10];
          prompt6 = prompt5 @ strategy_guidance question_analysis context_chunks;
          prompt7 = prompt6 @ ANSWER_HEADER;
          prompt8 = prompt7 @ special_instructions question_analysis
      in [(ascii ''system'', prompt8)])"

section \<open>Example data\<close>

text \<open>
  A stored chunk of document 1 with thirty letters of content, and a store that holds
  given points behind a working embedding service. The example runtime adds and
  multiplies without rounding, and it reads a chunk id by its decimal digits, skipping
  the underscore, as the validation does with an id of the form that the indexer
  writes: \<open>1_0\<close> becomes 10.
\<close>

definition example_point :: "pystr \<Rightarrow> pystr \<Rightarrow> real \<Rightarrow> scored_point" where
  "example_point section access_level score =
     \<lparr>sp_score = score,
      sp_payload = \<lparr>pl_document_id = Some 1, pl_chunk_id = ascii ''1_0'',
                    pl_content = Some (replicate 30 97), pl_section = Some section,
                    pl_access_level = Some access_level,
                    pl_chunk_type = Some (ascii ''text''), pl_page_number = None,
                    pl_section_name = None, pl_metadata = [],
                    pl_content_length = Some 30\<rparr>\<rparr>"

fun digits_value :: "nat \<Rightarrow> pystr \<Rightarrow> nat option" where
  "digits_value acc [] = Some acc"
| "digits_value acc (c # cs) =
     (if 48 \<le> c \<and> c \<le> 57 then digits_value (acc * 10 + (c - 48)) cs
      else if c = 95 then digits_value acc cs
      else None)"

definition example_int :: "pystr \<Rightarrow> int option" where
  "example_int s = (if s = [] then None else map_option int (digits_value 0 s))"

definition example_env :: "scored_point list \<Rightarrow> vector_env" where
  "example_env points =
     \<lparr>embedding_ok = True, client_search = store_search points,
      py_isalnum = (\<lambda>c. (48 \<le> c \<and> c \<le> 57) \<or> (65 \<le> c \<and> c \<le> 90) \<or> (97 \<le> c \<and> c \<le> 122)),
      float_add = (\<lambda>x y. x + y), float_mul = (\<lambda>x y. x * y),
      pydantic_int = example_int\<rparr>"

text \<open>The result object that the retrieval builds from such a chunk.\<close>

definition example_result :: "pystr \<Rightarrow> pystr \<Rightarrow> real \<Rightarrow> search_result" where
  "example_result sec al sc =
     \<lparr>sr_document_id = 1, sr_chunk_id = 10, sr_content = replicate 30 97,
      sr_score = sc, sr_section = sec, sr_access_level = al, sr_chunk_type = ascii ''text'',
      sr_page_number = None, sr_section_name = None, sr_metadata = []\<rparr>"

text \<open>
  A session with two earlier exchanges and one context snapshot, and an embedding
  service that knows five queries. On these vectors no operation of the similarity
  rounds, so the arithmetic of the example is the exact one.
\<close>

definition example_context :: conversation_context where
  "example_context =
     \<lparr>ctx_messages = [\<lparr>msg_role = ascii ''user'', msg_content = ascii ''q9''\<rparr>,
                      \<lparr>msg_role = ascii ''assistant'', msg_content = ascii ''a9''\<rparr>,
                      \<lparr>msg_role = ascii ''user'', msg_content = ascii ''q0''\<rparr>,
                      \<lparr>msg_role = ascii ''assistant'', msg_content = ascii ''a0''\<rparr>],
      ctx_document_context =
        [\<lparr>ds_content = replicate 30 97, ds_document_id = Some 1,
          ds_section = Some (ascii ''procedures''), ds_score = 0.9,
          ds_query = Some (ascii ''q0'')\<rparr>],
      ctx_current_section = None\<rparr>"

definition example_embedder :: "pystr \<Rightarrow> real list option" where
  "example_embedder q =
     (if q = ascii ''q0'' then Some [1, 0, 0, 0]
      else if q = ascii ''q1'' then Some [2, 0, 0, 0]
      else if q = ascii ''q2'' then Some [1, 1, 1, 1]
      else if q = ascii ''q3'' then Some [0, 1, 0, 0]
      else if q = ascii ''q9'' then Some [0, 0, 0, 1]
      else None)"

definition example_numpy :: numpy where
  "example_numpy =
     \<lparr>np_dot = (\<lambda>vec1 vec2. sum_list (map (\<lambda>(a, b). a * b) (zip vec1 vec2))),
      np_linalg_norm = (\<lambda>vec. sqrt (sum_list (map (\<lambda>a. a * a) vec))),
      np_multiply = (\<lambda>x y. x * y),
      np_divide = (\<lambda>x y. x / y)\<rparr>"

text \<open>
  Two turns that reuse the session's context, with two documents each. In the first
  no document passes the relevance rule; in the second only document 2 does.
\<close>

definition example_reused :: "int \<Rightarrow> real \<Rightarrow> reused_result" where
  "example_reused document_id score =
     \<lparr>rr_document_id = Some document_id,
      rr_chunk_id = ascii ''context_'' @ py_str_int document_id,
      rr_content = replicate 30 97, rr_section = Some (ascii ''procedures''),
      rr_score = score\<rparr>"

section \<open>Chunker: properties\<close>

lemma scan_back_ok:
  assumes "0 \<le> stop" "i < int (length text)"
  shows "\<exists>r. scan_back P text i stop = Inr r \<and> (\<forall>j. r = Some j \<longrightarrow> stop < j \<and> j \<le> i)"
  using assms
proof (induction P "text" i stop rule: scan_back.induct)
  case (1 P t i stop)
  show ?case
  proof (cases "i \<le> stop")
    case True
    then show ?thesis by (simp add: scan_back.simps)
  next
    case False
    with 1 have idx: "py_index t i = Inr (t ! nat i)"
      by (simp add: py_index_def)
    show ?thesis
    proof (cases "P (t ! nat i)")
      case True
      with False idx show ?thesis by (simp add: scan_back.simps)
    next
      case nP: False
      from 1 False idx nP obtain r where
        "scan_back P t (i - 1) stop = Inr r" "\<forall>j. r = Some j \<longrightarrow> stop < j \<and> j \<le> i - 1"
        by fastforce
      with False idx nP show ?thesis
        by (subst scan_back.simps) auto
    qed
  qed
qed

lemma chunk_end_bounds:
  assumes "0 \<le> start"
  shows "\<exists>e. chunk_end 500 text start = Inr e \<and> start + 402 \<le> e \<and> e \<le> start + 501
           \<and> (int (length text) \<le> start + 500 \<longrightarrow> e = start + 500)"
proof (cases "start + 500 < int (length text)")
  case False
  then show ?thesis by (simp add: chunk_end_def)
next
  case True
  define stop where "stop = max (start + 500 - 100) start"
  have stop: "0 \<le> stop" "stop = start + 400"
    using assms by (simp_all add: stop_def)
  have "\<exists>r. scan_back is_sentence_end text (start + 500) stop = Inr r \<and>
          (\<forall>j. r = Some j \<longrightarrow> stop < j \<and> j \<le> start + 500)"
    by (rule scan_back_ok) (use stop True in simp_all)
  then obtain r where r: "scan_back is_sentence_end text (start + 500) stop = Inr r"
    "\<forall>j. r = Some j \<longrightarrow> stop < j \<and> j \<le> start + 500" by blast
  have "\<exists>r. scan_back is_newline text (start + 500) stop = Inr r \<and>
          (\<forall>j. r = Some j \<longrightarrow> stop < j \<and> j \<le> start + 500)"
    by (rule scan_back_ok) (use stop True in simp_all)
  then obtain r' where r': "scan_back is_newline text (start + 500) stop = Inr r'"
    "\<forall>j. r' = Some j \<longrightarrow> stop < j \<and> j \<le> start + 500" by blast
  have unf: "chunk_end 500 text start =
     (let end1 = (case r of Some i \<Rightarrow> i + 1 | None \<Rightarrow> start + 500)
      in if end1 = start + 500
         then Inr (case r' of Some i \<Rightarrow> i + 1 | None \<Rightarrow> end1) else Inr end1)"
    unfolding chunk_end_def Let_def stop_def [symmetric]
    using True r(1) r'(1) by simp
  show ?thesis
    unfolding unf using True r(2) r'(2) stop(2)
    by (cases r; cases r') (auto simp: Let_def)
qed



lemma scan_back_none:
  assumes "0 \<le> stop" "i < int (length text)"
    and "\<And>j. stop < j \<Longrightarrow> j \<le> i \<Longrightarrow> \<not> P (text ! nat j)"
  shows "scan_back P text i stop = Inr None"
  using assms
proof (induction P "text" i stop rule: scan_back.induct)
  case (1 P t i stop)
  show ?case
  proof (cases "i \<le> stop")
    case True
    then show ?thesis by (simp add: scan_back.simps)
  next
    case False
    with 1 have idx: "py_index t i = Inr (t ! nat i)"
      by (simp add: py_index_def)
    from False 1(4) [of i] have nP: "\<not> P (t ! nat i)" by simp
    have "scan_back P t (i - 1) stop = Inr None"
      using 1(1) [OF False idx nP] 1(2,3,4) by simp
    with False idx nP show ?thesis
      by (subst scan_back.simps) simp
  qed
qed

lemma chunk_end_no_break:
  assumes "0 \<le> start"
    and "\<And>j. start + 400 < j \<Longrightarrow> j \<le> start + 500 \<Longrightarrow> j < int (length text) \<Longrightarrow>
           \<not> is_sentence_end (text ! nat j) \<and> \<not> is_newline (text ! nat j)"
  shows "chunk_end 500 text start = Inr (start + 500)"
proof (cases "start + 500 < int (length text)")
  case False
  then show ?thesis by (simp add: chunk_end_def)
next
  case True
  define stop where "stop = max (start + 500 - 100) start"
  have stop: "0 \<le> stop" "stop = start + 400"
    using assms(1) by (simp_all add: stop_def)
  have s1: "scan_back is_sentence_end text (start + 500) stop = Inr None"
    by (rule scan_back_none) (use stop True assms(2) in simp_all)
  have s2: "scan_back is_newline text (start + 500) stop = Inr None"
    by (rule scan_back_none) (use stop True assms(2) in simp_all)
  show ?thesis
    unfolding chunk_end_def Let_def stop_def [symmetric]
    using True s1 s2 by simp
qed

lemma py_strip_no_space:
  assumes "\<And>c. c \<in> set s \<Longrightarrow> \<not> py_isspace c"
  shows "py_strip s = s"
proof -
  have "dropWhile py_isspace s = s"
    using assms by (cases s) simp_all
  moreover have "dropWhile py_isspace (rev s) = rev s"
    using assms by (cases "rev s") (simp, metis dropWhile.simps(2) list.set_intros(1) set_rev)
  ultimately show ?thesis by (simp add: py_strip_def)
qed

lemma py_strip_all_space:
  assumes "\<And>c. c \<in> set s \<Longrightarrow> py_isspace c"
  shows "py_strip s = []"
proof -
  have d: "dropWhile py_isspace s = []"
    using assms by (simp add: dropWhile_eq_Nil_conv)
  show ?thesis unfolding py_strip_def d by simp
qed

lemma py_slice_nonneg:
  assumes "0 \<le> a" "a \<le> b"
  shows "py_slice xs a b = take (nat b - nat a) (drop (nat a) xs)"
  using assms by (auto simp: py_slice_def py_clamp_def Let_def min_def)

text \<open>A text of exactly 1050 code points: the loop makes three slices.\<close>

lemma split_1050_shape:
  assumes len: "length text = 1050"
  shows "\<exists>e1 e2. chunk_end 500 text 0 = Inr e1 \<and> chunk_end 500 text (e1 - 50) = Inr e2 \<and>
           402 \<le> e1 \<and> e1 \<le> 501 \<and> e1 + 352 \<le> e2 \<and> e2 \<le> e1 + 451 \<and>
           split_text_into_chunks 500 50 text =
             Some (Inr (filter (\<lambda>c. c \<noteq> [])
               (map py_strip [py_slice text 0 e1, py_slice text (e1 - 50) e2,
                              py_slice text (e2 - 50) (e2 + 450)])))"
proof -
  from chunk_end_bounds [of 0 "text"] obtain e1 where
    e1: "chunk_end 500 text 0 = Inr e1" "402 \<le> e1" "e1 \<le> 501" by auto
  from chunk_end_bounds [of "e1 - 50" "text"] e1 obtain e2 where
    e2: "chunk_end 500 text (e1 - 50) = Inr e2" "e1 + 352 \<le> e2" "e2 \<le> e1 + 451" by auto
  from chunk_end_bounds [of "e2 - 50" "text"] e1 e2 len have
    e3: "chunk_end 500 text (e2 - 50) = Inr (e2 + 450)" by auto
  let ?c1 = "py_strip (py_slice text 0 e1)"
  let ?c2 = "py_strip (py_slice text (e1 - 50) e2)"
  let ?c3 = "py_strip (py_slice text (e2 - 50) (e2 + 450))"
  let ?a1 = "if ?c1 \<noteq> [] then [] @ [?c1] else []"
  let ?a2 = "if ?c2 \<noteq> [] then ?a1 @ [?c2] else ?a1"
  let ?a3 = "if ?c3 \<noteq> [] then ?a2 @ [?c3] else ?a2"
  have l3: "split_loop 500 50 text (e2 - 50) ?a2 = Some (Inr ?a3)"
    using e1 e2 e3 len by (subst split_loop.simps) (simp add: Let_def)
  have l2: "split_loop 500 50 text (e1 - 50) ?a1 = Some (Inr ?a3)"
    using e1 e2 len l3 by (subst split_loop.simps) (simp add: Let_def)
  have l1: "split_loop 500 50 text 0 [] = Some (Inr ?a3)"
    using e1 len l2 by (subst split_loop.simps) (simp add: Let_def)
  have "?a3 = filter (\<lambda>c. c \<noteq> []) (map py_strip [py_slice text 0 e1, py_slice text (e1 - 50) e2,
                              py_slice text (e2 - 50) (e2 + 450)])"
    by simp
  with l1 len have "split_text_into_chunks 500 50 text =
             Some (Inr (filter (\<lambda>c. c \<noteq> [])
               (map py_strip [py_slice text 0 e1, py_slice text (e1 - 50) e2,
                              py_slice text (e2 - 50) (e2 + 450)])))"
    by (simp add: split_text_into_chunks_def)
  with e1 e2 show ?thesis by blast
qed


lemma split_1050_example:
  "split_text_into_chunks 500 50 (97 # replicate 1049 32) = Some (Inr [[97]])"
proof -
  let ?t = "97 # replicate 1049 (32::nat)"
  have len: "length ?t = 1050" by simp
  have sp: "py_isspace 32" "\<not> py_isspace 97"
    by (simp_all add: py_isspace_def)
  have nb: "\<And>j. 400 < j \<Longrightarrow> j < int (length ?t) \<Longrightarrow>
              \<not> is_sentence_end (?t ! nat j) \<and> \<not> is_newline (?t ! nat j)"
  proof -
    fix j :: int assume "400 < j" "j < int (length ?t)"
    then have "?t ! nat j = 32"
      by (cases "nat j") simp_all
    then show "\<not> is_sentence_end (?t ! nat j) \<and> \<not> is_newline (?t ! nat j)"
      by (simp add: is_sentence_end_def is_newline_def)
  qed
  from split_1050_shape [OF len] obtain e1 e2 where
    e: "chunk_end 500 ?t 0 = Inr e1" "chunk_end 500 ?t (e1 - 50) = Inr e2"
    and r: "split_text_into_chunks 500 50 ?t =
             Some (Inr (filter (\<lambda>c. c \<noteq> [])
               (map py_strip [py_slice ?t 0 e1, py_slice ?t (e1 - 50) e2,
                              py_slice ?t (e2 - 50) (e2 + 450)])))"
    by blast
  have "chunk_end 500 ?t 0 = Inr (0 + 500)"
  proof (rule chunk_end_no_break)
    fix j :: int assume "0 + 400 < j" "j < int (length ?t)"
    then show "\<not> is_sentence_end (?t ! nat j) \<and> \<not> is_newline (?t ! nat j)"
      using nb [of j] by linarith
  qed simp
  with e have e1: "e1 = 500" by simp
  have "chunk_end 500 ?t 450 = Inr (450 + 500)"
  proof (rule chunk_end_no_break)
    fix j :: int assume "450 + 400 < j" "j < int (length ?t)"
    then show "\<not> is_sentence_end (?t ! nat j) \<and> \<not> is_newline (?t ! nat j)"
      using nb [of j] by linarith
  qed simp
  with e e1 have e2: "e2 = 950" by simp
  have s1: "py_slice ?t 0 500 = 97 # replicate 499 32"
    by (simp add: py_slice_nonneg)
  have s2: "py_slice ?t 450 950 = replicate 500 32"
    by (simp add: py_slice_nonneg)
  have s3: "py_slice ?t 900 1400 = replicate 150 32"
    by (simp add: py_slice_nonneg)
  have c1: "py_strip (97 # replicate 499 32) = [97]"
    using sp by (simp add: py_strip_def dropWhile_append3 dropWhile_eq_Nil_conv)
  have c2: "py_strip (replicate 500 32) = []" "py_strip (replicate 150 32) = []"
    using sp by (auto intro!: py_strip_all_space)
  show ?thesis
    unfolding r e1 e2 by (simp add: s1 s2 s3 c1 c2)
qed

lemma split_499: "length text = 499 \<Longrightarrow> split_text_into_chunks 500 50 text = Some (Inr [text])"
  by (simp add: split_text_into_chunks_def)

lemma split_loop_plain:
  assumes "plain_text t" "0 \<le> start" "start < int (length t)"
  shows "\<exists>r. split_loop 500 50 t start chunks = Some (Inr r) \<and>
           length r = length chunks + nat ((int (length t) - start + 449) div 450)"
  using assms(2,3)
proof (induction "nat (int (length t) - start)" arbitrary: start chunks rule: less_induct)
  case less
  have e: "chunk_end 500 t start = Inr (start + 500)"
  proof (rule chunk_end_no_break)
    fix j :: int assume "start + 400 < j" "j < int (length t)"
    with less.prems have "t ! nat j \<in> set t" by simp
    with assms(1) show "\<not> is_sentence_end (t ! nat j) \<and> \<not> is_newline (t ! nat j)"
      by (simp add: plain_text_def)
  qed (use less.prems in simp)
  let ?sl = "py_slice t start (start + 500)"
  have sl: "?sl = take 500 (drop (nat start) t)"
    using less.prems by (simp add: py_slice_nonneg nat_add_distrib)
  have "set ?sl \<subseteq> set t"
    unfolding sl by (meson set_drop_subset set_take_subset subset_trans)
  with assms(1) have "py_strip ?sl = ?sl"
    by (intro py_strip_no_space) (auto simp: plain_text_def)
  moreover have "?sl \<noteq> []"
    unfolding sl using less.prems by simp
  ultimately have c: "py_strip ?sl \<noteq> []" by simp
  show ?case
  proof (cases "start + 450 \<ge> int (length t)")
    case True
    then have "split_loop 500 50 t start chunks = Some (Inr (chunks @ [py_strip ?sl]))"
      using less.prems e c by (subst split_loop.simps) (simp add: Let_def)
    moreover have "nat ((int (length t) - start + 449) div 450) = 1"
      using True less.prems by simp
    ultimately show ?thesis by simp
  next
    case False
    have m: "nat (int (length t) - (start + 450)) < nat (int (length t) - start)"
      using False less.prems by linarith
    from less.hyps [OF m, of "chunks @ [py_strip ?sl]"] False less.prems
    obtain r where r: "split_loop 500 50 t (start + 450) (chunks @ [py_strip ?sl]) = Some (Inr r)"
      "length r = length (chunks @ [py_strip ?sl]) + nat ((int (length t) - (start + 450) + 449) div 450)"
      by auto
    have "split_loop 500 50 t start chunks = Some (Inr r)"
      using less.prems e c False r(1) by (subst split_loop.simps) (simp add: Let_def add.commute)
    moreover have "nat ((int (length t) - (start + 450) + 449) div 450) + 1
                   = nat ((int (length t) - start + 449) div 450)"
      using False less.prems by simp
    ultimately show ?thesis using r(2) by simp
  qed
qed

lemma split_long_plain:
  "\<exists>chunks. split_text_into_chunks 500 50 (replicate 450001 97) = Some (Inr chunks)
      \<and> length chunks = 1001"
proof -
  have p: "plain_text (replicate 450001 97)"
    by (simp add: plain_text_def py_isspace_def is_sentence_end_def is_newline_def)
  from split_loop_plain [OF p, of 0 "[]"] show ?thesis
    by (simp add: split_text_into_chunks_def)
qed



text \<open>
  Claim C6, as amended. A text of 499 code points is returned as the single chunk, unchanged.
  A text of 1050 code points is cut into exactly three slices \<open>text[0:e1]\<close>,
  \<open>text[e1-50:e2]\<close> and \<open>text[e2-50:]\<close>, consecutive slices sharing 50 code points;
  the chunks are the stripped slices that are not empty, so there are at most three,
  and exactly three when the text has no whitespace.
\<close>

theorem split_text_boundary_inputs:
  "(length text = 499 \<longrightarrow> split_text_into_chunks 500 50 text = Some (Inr [text])) \<and>
   (length text = 1050 \<longrightarrow>
      (\<exists>e1 e2 chunks.
         chunk_end 500 text 0 = Inr e1 \<and> chunk_end 500 text (e1 - 50) = Inr e2 \<and>
         402 \<le> e1 \<and> e1 \<le> 501 \<and> e1 + 352 \<le> e2 \<and> e2 \<le> e1 + 451 \<and>
         split_text_into_chunks 500 50 text = Some (Inr chunks) \<and>
         chunks = filter (\<lambda>c. c \<noteq> [])
                    (map py_strip [py_slice text 0 e1, py_slice text (e1 - 50) e2,
                                   py_slice text (e2 - 50) (e2 + 450)]) \<and>
         length chunks \<le> 3 \<and>
         ((\<forall>c\<in>set text. \<not> py_isspace c) \<longrightarrow> length chunks = 3)))"
proof (intro conjI impI)
  assume "length text = 499"
  then show "split_text_into_chunks 500 50 text = Some (Inr [text])" by (rule split_499)
next
  assume len: "length text = 1050"
  from split_1050_shape [OF len] obtain e1 e2 where
    e: "chunk_end 500 text 0 = Inr e1" "chunk_end 500 text (e1 - 50) = Inr e2"
       "402 \<le> e1" "e1 \<le> 501" "e1 + 352 \<le> e2" "e2 \<le> e1 + 451"
    and r: "split_text_into_chunks 500 50 text =
             Some (Inr (filter (\<lambda>c. c \<noteq> [])
               (map py_strip [py_slice text 0 e1, py_slice text (e1 - 50) e2,
                              py_slice text (e2 - 50) (e2 + 450)])))"
    by blast
  let ?sl = "[py_slice text 0 e1, py_slice text (e1 - 50) e2, py_slice text (e2 - 50) (e2 + 450)]"
  let ?chunks = "filter (\<lambda>c. c \<noteq> []) (map py_strip ?sl)"
  have le3: "length ?chunks \<le> 3"
    using length_filter_le [of "\<lambda>c. c \<noteq> []" "map py_strip ?sl"] by simp
  have eq3: "length ?chunks = 3" if ns: "\<forall>c\<in>set text. \<not> py_isspace c"
  proof -
    have sub: "set (py_slice text a b) \<subseteq> set text" for a b
      unfolding py_slice_def Let_def by (meson set_drop_subset set_take_subset subset_trans)
    have st: "py_strip (py_slice text a b) = py_slice text a b" for a b
      using ns sub [of a b] by (intro py_strip_no_space) auto
    have ne: "py_slice text 0 e1 \<noteq> []" "py_slice text (e1 - 50) e2 \<noteq> []"
      "py_slice text (e2 - 50) (e2 + 450) \<noteq> []"
    proof -
      have t: "text \<noteq> []" using len by auto
      have a: "\<not> nat e2 \<le> nat (e1 - 50)" "\<not> 1050 \<le> nat (e1 - 50)"
        "\<not> 1050 \<le> nat (e2 - 50)" "0 < nat e1"
        using e by linarith+
      show "py_slice text 0 e1 \<noteq> []" "py_slice text (e1 - 50) e2 \<noteq> []"
        "py_slice text (e2 - 50) (e2 + 450) \<noteq> []"
        using e len t a by (simp_all add: py_slice_nonneg)
    qed
    show ?thesis using ne by (simp add: st)
  qed
  show "\<exists>e1 e2 chunks.
         chunk_end 500 text 0 = Inr e1 \<and> chunk_end 500 text (e1 - 50) = Inr e2 \<and>
         402 \<le> e1 \<and> e1 \<le> 501 \<and> e1 + 352 \<le> e2 \<and> e2 \<le> e1 + 451 \<and>
         split_text_into_chunks 500 50 text = Some (Inr chunks) \<and>
         chunks = filter (\<lambda>c. c \<noteq> [])
                    (map py_strip [py_slice text 0 e1, py_slice text (e1 - 50) e2,
                                   py_slice text (e2 - 50) (e2 + 450)]) \<and>
         length chunks \<le> 3 \<and>
         ((\<forall>c\<in>set text. \<not> py_isspace c) \<longrightarrow> length chunks = 3)"
    using e r le3 eq3 by blast
qed

theorem split_text_boundary_inputs_witness:
  "length (replicate 499 (97::nat)) = 499 \<and>
   split_text_into_chunks 500 50 (replicate 499 97) = Some (Inr [replicate 499 97]) \<and>
   length (replicate 1050 (97::nat)) = 1050 \<and> \<not> py_isspace 97 \<and>
   (\<exists>chunks. split_text_into_chunks 500 50 (replicate 1050 97) = Some (Inr chunks) \<and>
      length chunks = 3)"
proof -
  have ns: "\<forall>c\<in>set (replicate 1050 (97::nat)). \<not> py_isspace c"
    by (simp add: py_isspace_def)
  have a: "split_text_into_chunks 500 50 (replicate 499 97) = Some (Inr [replicate 499 97])"
    using split_text_boundary_inputs [of "replicate 499 97"] by simp
  have l: "length (replicate 1050 (97::nat)) = 1050" by simp
  from split_text_boundary_inputs [of "replicate 1050 97"] l ns
  have b: "\<exists>chunks. split_text_into_chunks 500 50 (replicate 1050 97) = Some (Inr chunks) \<and>
      length chunks = 3"
    by blast
  have "\<not> py_isspace 97" by (simp add: py_isspace_def)
  with a b show ?thesis by simp
qed

text \<open>
  As stated for every text of 1050 code points, the bound of three chunks fails: a letter
  followed by 1049 spaces gives one chunk, since slices that strip to nothing are dropped.
\<close>

theorem split_text_whitespace_counterexample:
  "length (97 # replicate 1049 (32::nat)) = 1050 \<and>
   split_text_into_chunks 500 50 (97 # replicate 1049 32) = Some (Inr [[97]])"
  using split_1050_example by simp

subsection \<open>Caps on chunk creation\<close>

text \<open>The cap of 200 chunks per document holds for every parsed document.\<close>

lemma embed_text_chunks_cap:
  "length chunks = nat chunk_index \<Longrightarrow> 0 \<le> chunk_index \<Longrightarrow> chunk_index \<le> 200 \<Longrightarrow>
   embed_text_chunks embedder d item tcs (chunks, chunk_index) = (chunks', chunk_index') \<Longrightarrow>
   length chunks' = nat chunk_index' \<and> 0 \<le> chunk_index' \<and> chunk_index' \<le> 200"
proof (induction tcs arbitrary: chunks chunk_index)
  case Nil
  then show ?case by simp
next
  case (Cons a tcs)
  obtain i tc where a: "a = (i, tc)" by (cases a)
  show ?case
    using Cons.prems Cons.IH [of chunks chunk_index]
      Cons.IH [of "chunks @ [x]" "chunk_index + 1" for x]
    unfolding a
    by (auto simp: MAX_CHUNKS_PER_DOCUMENT_def split: if_splits option.splits)
qed

lemma chunk_content_items_cap:
  "length chunks = nat chunk_index \<Longrightarrow> 0 \<le> chunk_index \<Longrightarrow> chunk_index \<le> 200 \<Longrightarrow>
   chunk_content_items embedder d items (chunks, chunk_index) = Some out \<Longrightarrow>
   length out \<le> 200"
proof (induction items arbitrary: chunks chunk_index)
  case Nil
  then show ?case by simp
next
  case (Cons item items)
  show ?case
  proof (cases "chunk_index \<ge> MAX_CHUNKS_PER_DOCUMENT \<or> py_strip (ci_content item) = []")
    case True
    with Cons show ?thesis
      by (auto simp: MAX_CHUNKS_PER_DOCUMENT_def split: if_splits)
  next
    case False
    with Cons.prems(4) obtain tcs where
      tcs: "split_text_into_chunks 500 50 (ci_content item) = Some (Inr tcs)"
      and rest: "chunk_content_items embedder d items
                   (embed_text_chunks embedder d item (py_enumerate tcs) (chunks, chunk_index)) = Some out"
      by (auto split: option.splits sum.splits)
    obtain chunks' chunk_index' where
      st: "embed_text_chunks embedder d item (py_enumerate tcs) (chunks, chunk_index) = (chunks', chunk_index')"
      by (cases "embed_text_chunks embedder d item (py_enumerate tcs) (chunks, chunk_index)")
    from embed_text_chunks_cap [OF Cons.prems(1,2,3) st]
    show ?thesis using Cons.IH [of chunks' chunk_index'] rest st by simp
  qed
qed

lemma create_chunks_cap:
  "create_chunks_from_content embedder content d = Some chunks \<Longrightarrow> length chunks \<le> 200"
  using chunk_content_items_cap [of "[]" 0 embedder d content chunks]
  by (simp add: create_chunks_from_content_def split: if_splits)

text \<open>
  Claim C7. The processor's split loop has neither the cap of 1000 iterations nor the
  minimal-progress check that \<open>DocumentParser._split_text_into_chunks\<close> has: on a content
  item of 450001 letters it returns 1001 chunks, and each iteration appends at most one
  chunk, so the loop ran more than 1000 times.
\<close>

theorem split_loop_exceeds_1000_iterations:
  "\<exists>chunks. split_text_into_chunks 500 50 (replicate 450001 97) = Some (Inr chunks)
      \<and> length chunks = 1001"
  by (rule split_long_plain)

section \<open>Document titles: properties\<close>

lemma fallback_name_not_placeholder:
  "fallback_name i \<noteq> ascii ''string''" "fallback_name i \<noteq> []"
  by (simp_all add: fallback_name_def ascii_def)

lemma chat_document_name_ok:
  "chat_document_name db i \<noteq> ascii ''string'' \<and> chat_document_name db i \<noteq> []"
  unfolding chat_document_name_def Let_def
  using fallback_name_not_placeholder by auto

text \<open>
  Claim C8. Title resolution checks for the placeholder \<open>"string"\<close> and for blank titles
  before it strips the extension, in both steps. A document titled \<open>string.v2.pdf\<close>
  resolves to the literal \<open>"string"\<close>, and one titled \<open>..pdf\<close> to the empty string.
\<close>

theorem resolve_title_returns_placeholder:
  "resolve_title
     [1 \<mapsto> \<lparr>doc_title = Some (ascii ''string.v2.pdf''),
             doc_original_filename = ascii ''string.v2.pdf'',
             doc_filename = ascii ''0a1b.pdf''\<rparr>] 1 = ascii ''string''
   \<and> resolve_title
     [1 \<mapsto> \<lparr>doc_title = Some (ascii ''..pdf''),
             doc_original_filename = ascii ''..pdf'',
             doc_filename = ascii ''0a1b.pdf''\<rparr>] 1 = []"
  by (simp add: resolve_title_def get_document_info_def get_better_document_name_def
      usable_name_def py_strip_def py_isspace_def has_dot_def rsplit_dot_head_def
      strip_extension_def ascii_def Let_def)

section \<open>Retrieval: properties\<close>

lemma set_py_slice: "set (py_slice xs a b) \<subseteq> set xs"
  unfolding py_slice_def Let_def by (meson set_drop_subset set_take_subset subset_trans)

lemma in_set_py_sliceD: "x \<in> set (py_slice xs a b) \<Longrightarrow> x \<in> set xs"
  using set_py_slice [of xs a b] by auto

lemma set_sort_desc [simp]: "set (sort_desc k xs) = set xs"
  by (simp add: sort_desc_def)

lemma add_to_group_members:
  assumes "\<forall>g\<in>set groups. set (snd g) \<subseteq> S" "x \<in> S"
  shows "\<forall>g\<in>set (add_to_group key x groups). set (snd g) \<subseteq> S"
  using assms unfolding add_to_group_def by (fastforce split: if_splits)

lemma foldl_add_to_group_members:
  assumes "\<forall>g\<in>set groups. set (snd g) \<subseteq> S" "set xs \<subseteq> S"
  shows "\<forall>g\<in>set (foldl (\<lambda>g x. add_to_group (f x) x g) groups xs). set (snd g) \<subseteq> S"
  using assms
proof (induction xs arbitrary: groups)
  case Nil
  then show ?case by simp
next
  case (Cons x xs)
  have "\<forall>g\<in>set (add_to_group (f x) x groups). set (snd g) \<subseteq> S"
    using Cons.prems by (intro add_to_group_members) auto
  with Cons show ?case by simp
qed

lemma group_by_key_members:
  "(k, ys) \<in> set (group_by_key f xs) \<Longrightarrow> set ys \<subseteq> set xs"
  using foldl_add_to_group_members [of "[]" "set xs" xs f]
  by (fastforce simp: group_by_key_def)

lemma add_to_group_grouped:
  assumes "grouped f groups"
  shows "grouped f (add_to_group (f x) x groups)"
proof (cases "f x \<in> fst ` set groups")
  case True
  have m: "map fst (map (\<lambda>(k', xs). if k' = f x then (k', xs @ [x]) else (k', xs)) groups) = map fst groups"
    by (induction groups) auto
  show ?thesis
    using assms True unfolding grouped_def add_to_group_def
    by (simp only: if_True m) (fastforce split: if_splits)
next
  case False
  with assms show ?thesis
    unfolding grouped_def add_to_group_def by auto
qed

lemma add_to_group_keys:
  "fst ` set (add_to_group k x groups) = insert k (fst ` set groups)"
  unfolding add_to_group_def by (auto split: if_splits) force+

lemma foldl_add_to_group_grouped:
  "grouped f groups \<Longrightarrow> grouped f (foldl (\<lambda>g x. add_to_group (f x) x g) groups xs)"
  by (induction xs arbitrary: groups) (simp_all add: add_to_group_grouped)

lemma foldl_add_to_group_keys:
  "fst ` set (foldl (\<lambda>g x. add_to_group (f x) x g) groups xs) = fst ` set groups \<union> f ` set xs"
  by (induction xs arbitrary: groups) (auto simp: add_to_group_keys)

lemma group_by_key_grouped: "grouped f (group_by_key f xs)"
  unfolding group_by_key_def by (rule foldl_add_to_group_grouped) (simp add: grouped_def)

lemma group_by_key_keys: "fst ` set (group_by_key f xs) = f ` set xs"
  unfolding group_by_key_def by (simp add: foldl_add_to_group_keys)


lemma smart_filter_subset:
  "set (smart_filter_and_rank_results env sr limit t)
     \<subseteq> {h \<in> format_hit ` set sr. keeps_hit env t h}"
proof -
  let ?filtered = "filter (keeps_hit env t) (map format_hit sr)"
  let ?groups = "group_by_key h_document_id ?filtered"
  have "set (concat (map (\<lambda>(doc_id, chunks). take 3 (sort_desc h_score chunks)) ?groups))
          \<subseteq> set ?filtered"
  proof
    fix h assume "h \<in> set (concat (map (\<lambda>(doc_id, chunks). take 3 (sort_desc h_score chunks)) ?groups))"
    then obtain k ys where g: "(k, ys) \<in> set ?groups" and "h \<in> set (take 3 (sort_desc h_score ys))"
      by auto
    then have "h \<in> set ys" by (auto dest: in_set_takeD)
    with group_by_key_members [OF g] show "h \<in> set ?filtered" by blast
  qed
  then have "set (py_slice (sort_desc (calculate_quality_score env)
      (concat (map (\<lambda>(doc_id, chunks). take 3 (sort_desc h_score chunks)) ?groups))) 0 limit)
      \<subseteq> set ?filtered"
    using set_py_slice [of "sort_desc (calculate_quality_score env)
      (concat (map (\<lambda>(doc_id, chunks). take 3 (sort_desc h_score chunks)) ?groups))" 0 limit]
    by (simp only: set_sort_desc)
  moreover have "set ?filtered \<subseteq> {h \<in> format_hit ` set sr. keeps_hit env t h}"
    by auto
  ultimately show ?thesis
    unfolding smart_filter_and_rank_results_def Let_def
    by (simp only: split: if_splits) auto
qed

lemma keeps_hit_bounds:
  assumes "keeps_hit env t h"
  shows "h_score h \<ge> float_mul env t 0.9" "length (h_content h) \<ge> 20"
    "length (py_strip (h_content h)) \<ge> 20"
proof -
  show a: "length (py_strip (h_content h)) \<ge> 20" and "h_score h \<ge> float_mul env t 0.9"
    using assms by (simp_all add: keeps_hit_def)
  have "length (py_strip s) \<le> length s" for s
    unfolding py_strip_def
    by (metis length_dropWhile_le length_rev order_trans)
  with a show "length (h_content h) \<ge> 20" using order_trans by blast
qed

lemma search_similar_hits:
  assumes "search_similar env limit t f = Some hits" "h \<in> set hits"
  shows "\<exists>ps p. client_search env f (min (limit * 3) 50) (float_mul env t 0.8) = Some ps \<and>
           p \<in> set ps \<and> h = format_hit p \<and> keeps_hit env t h"
proof -
  from assms(1) obtain ps where
    ps: "client_search env f (min (limit * 3) 50) (float_mul env t 0.8) = Some ps"
    and hits: "hits = smart_filter_and_rank_results env ps limit t"
    by (auto simp: search_similar_def Let_def split: option.splits)
  from assms(2) hits smart_filter_subset [of env ps limit t]
  have "h \<in> format_hit ` set ps" "keeps_hit env t h" by auto
  with ps show ?thesis by auto
qed

lemma search_similar_section:
  assumes "honours_filters env" "search_similar env limit t f = Some hits" "h \<in> set hits"
    and "f_section f = Some s" and "DocumentSearchResult env h = Some r"
  shows "sr_section r = s"
proof -
  from search_similar_hits [OF assms(2,3)] obtain ps p where
    ps: "client_search env f (min (limit * 3) 50) (float_mul env t 0.8) = Some ps" "p \<in> set ps"
    and h: "h = format_hit p" by blast
  from assms(1) ps have "payload_matches f (sp_payload p)"
    unfolding honours_filters_def by blast
  with assms(4) have "pl_section (sp_payload p) = Some s"
    by (simp add: payload_matches_def)
  with h assms(5) show ?thesis
    by (auto simp: format_hit_def DocumentSearchResult_def Let_def split: option.splits)
qed

lemma those_Some: "those xs = Some ys \<Longrightarrow> xs = map Some ys"
  by (induction xs arbitrary: ys) (auto split: option.splits)

lemma convert_all_members:
  assumes "convert_all env hits = Some rs" "r \<in> set rs"
  shows "\<exists>h\<in>set hits. DocumentSearchResult env h = Some r"
proof -
  from those_Some [OF assms(1) [unfolded convert_all_def]] assms(2)
  have "Some r \<in> set (map (DocumentSearchResult env) hits)" by simp
  then show ?thesis by auto
qed

lemma convert_until_error_members:
  assumes "r \<in> set (convert_until_error env hits)"
  shows "\<exists>h\<in>set hits. DocumentSearchResult env h = Some r"
proof -
  from assms obtain x where
    x: "x \<in> set (takeWhile (\<lambda>r. r \<noteq> None) (map (DocumentSearchResult env) hits))" "r = the x"
    unfolding convert_until_error_def by auto
  from x(1) have "x \<noteq> None" "x \<in> set (map (DocumentSearchResult env) hits)"
    by (auto dest: set_takeWhileD)
  with x(2) show ?thesis by auto
qed

lemma perform_section_search_section:
  assumes "honours_filters env" "r \<in> set (perform_section_search env s al limit t)"
  shows "sr_section r = s"
proof -
  let ?f = "\<lparr>f_section = Some s, f_access_level = access_filter al\<rparr>"
  from assms(2) have ok: "embedding_ok env"
    by (auto simp: perform_section_search_def split: if_splits)
  obtain hits where hits: "search_similar env (limit * 2) (max t 0.6) ?f = Some hits"
    using assms(2) ok
    by (cases "search_similar env (limit * 2) (max t 0.6) ?f")
       (auto simp: perform_section_search_def Let_def)
  obtain rs where rs: "convert_all env hits = Some rs"
    using assms(2) ok hits
    by (cases "convert_all env hits") (auto simp: perform_section_search_def Let_def)
  have r: "r \<in> set (py_slice (sort_desc sr_score rs) 0 limit)"
    using assms(2) ok hits rs by (simp add: perform_section_search_def Let_def)
  from r have "r \<in> set (sort_desc sr_score rs)"
    by (rule in_set_py_sliceD)
  then have "r \<in> set rs" by simp
  from convert_all_members [OF rs this] obtain h where
    "h \<in> set hits" "DocumentSearchResult env h = Some r" by blast
  with search_similar_section [OF assms(1) hits, of h s r] show ?thesis by simp
qed

lemma perform_fallback_search_section:
  assumes "honours_filters env" "user_sections \<noteq> []"
    and "r \<in> set (perform_fallback_search env al limit t user_sections)"
  shows "sr_section r \<in> set user_sections"
proof -
  let ?per = "\<lambda>section.
       case search_similar env (limit div int (length user_sections)) t
              \<lparr>f_section = Some section, f_access_level = access_filter al\<rparr> of
         None \<Rightarrow> []
       | Some section_results \<Rightarrow> convert_until_error env section_results"
  from assms(2,3) have "r \<in> set (py_slice (sort_desc sr_score (concat (map ?per user_sections))) 0 limit)"
    by (auto simp: perform_fallback_search_def Let_def split: if_splits)
  then have "r \<in> set (sort_desc sr_score (concat (map ?per user_sections)))"
    by (rule in_set_py_sliceD)
  then obtain s where s: "s \<in> set user_sections" and "r \<in> set (?per s)" by auto
  then obtain hits where
    hits: "search_similar env (limit div int (length user_sections)) t
       \<lparr>f_section = Some s, f_access_level = access_filter al\<rparr> = Some hits"
    and "r \<in> set (convert_until_error env hits)"
    by (cases "search_similar env (limit div int (length user_sections)) t
       \<lparr>f_section = Some s, f_access_level = access_filter al\<rparr>") auto
  from convert_until_error_members [OF this(2)] obtain h where
    "h \<in> set hits" "DocumentSearchResult env h = Some r" by blast
  with search_similar_section [OF assms(1) hits, of h s r] s show ?thesis by simp
qed

lemma keep_best_values:
  assumes "snd ` set acc \<subseteq> S" "r \<in> S"
  shows "snd ` set (keep_best acc r) \<subseteq> S"
  using assms unfolding keep_best_def Let_def
  by (fastforce split: option.splits if_splits)

lemma foldl_keep_best_values:
  "snd ` set acc \<subseteq> S \<Longrightarrow> set rs \<subseteq> S \<Longrightarrow> snd ` set (foldl keep_best acc rs) \<subseteq> S"
proof (induction rs arbitrary: acc)
  case Nil
  then show ?case by simp
next
  case (Cons r rs)
  have "snd ` set (keep_best acc r) \<subseteq> S"
    using Cons.prems by (intro keep_best_values) auto
  with Cons show ?case by simp
qed

lemma set_combine_and_rank: "set (combine_and_rank rs limit) \<subseteq> set rs"
proof -
  have "snd ` set (foldl keep_best [] rs) \<subseteq> set rs"
    by (rule foldl_keep_best_values) simp_all
  then show ?thesis
    unfolding combine_and_rank_def Let_def
    using set_py_slice [of "sort_desc sr_score (map snd (foldl keep_best [] rs))" 0 limit]
    by auto
qed

lemma search_internal_sections:
  assumes "honours_filters env"
    and "r \<in> set (search_documents_internal env section al limit t us strict)"
  shows "sr_section r \<in> set us"
proof -
  let ?sect = "if truthy_str section \<and> the section \<in> set us
               then perform_section_search env (the section) al limit t else []"
  let ?fb = "if \<not> strict \<and> us \<noteq> []
             then perform_fallback_search env al (limit * 2) (float_mul env t 0.6) us else []"
  have sect: "sr_section x \<in> set us" if "x \<in> set ?sect" for x
    using that perform_section_search_section [OF assms(1), of x "the section" al limit t]
    by (auto split: if_splits)
  have fb: "sr_section x \<in> set us" if "x \<in> set ?fb" for x
    using that
      perform_fallback_search_section [OF assms(1), of us x al "limit * 2" "float_mul env t 0.6"]
    by (auto split: if_splits)
  from assms(2) have "r \<in> set (py_slice ?sect 0 limit) \<or>
      r \<in> set (combine_and_rank (?sect @ (if \<not> strict then ?fb else [])) limit)"
    unfolding search_documents_internal_def Let_def
    by (auto split: if_splits)
  then have "r \<in> set ?sect \<or> r \<in> set ?fb"
    using set_py_slice [of ?sect 0 limit]
      set_combine_and_rank [of "?sect @ (if \<not> strict then ?fb else [])" limit]
    by (auto split: if_splits)
  with sect fb show ?thesis by blast
qed

lemma search_internal_strict:
  assumes "honours_filters env"
    and "r \<in> set (search_documents_internal env (Some s) al limit t us True)"
  shows "sr_section r = s \<and> s \<in> set us \<and> s \<noteq> []"
proof -
  have e: "search_documents_internal env (Some s) al limit t us True = []"
    if "s \<notin> set us \<or> s = []"
    using that unfolding search_documents_internal_def Let_def
    by (auto simp: truthy_str_def combine_and_rank_def py_slice_def sort_desc_def)
  with assms(2) have s: "s \<in> set us" "s \<noteq> []" by fastforce+
  then have "search_documents_internal env (Some s) al limit t us True =
     (if perform_section_search env s al limit t = [] then []
      else py_slice (perform_section_search env s al limit t) 0 limit)"
    unfolding search_documents_internal_def Let_def
    by (simp add: truthy_str_def)
  with assms(2) have "r \<in> set (perform_section_search env s al limit t)"
    by (auto split: if_splits dest: in_set_py_sliceD)
  with perform_section_search_section [OF assms(1)] s show ?thesis by blast
qed

lemma search_internal_strict_empty:
  "s \<notin> set us \<or> s = [] \<Longrightarrow> search_documents_internal env (Some s) al limit t us True = []"
  unfolding search_documents_internal_def Let_def
  by (auto simp: truthy_str_def combine_and_rank_def py_slice_def sort_desc_def)

lemma store_honours_filters:
  "client_search env = store_search points \<Longrightarrow> honours_filters env"
  unfolding honours_filters_def store_search_def
  by (auto dest!: in_set_takeD)

lemma py_slice_singleton: "1 \<le> limit \<Longrightarrow> py_slice [x] 0 limit = [x]"
  by (simp add: py_slice_def py_clamp_def Let_def)

lemma example_mul [simp]: "float_mul (example_env ps) x y = x * y"
  by (simp add: example_env_def)

lemma example_hit_kept:
  "keeps_hit (example_env ps) t (format_hit (example_point sec al sc))
     \<longleftrightarrow> t * 0.9 \<le> sc"
proof -
  have "py_strip (replicate 30 97) = replicate 30 97"
    by (rule py_strip_no_space) (simp add: py_isspace_def)
  then show ?thesis
    by (auto simp: keeps_hit_def format_hit_def example_point_def example_env_def
        special_chars_def Let_def)
qed

lemma smart_filter_single:
  assumes "1 \<le> limit"
  shows "smart_filter_and_rank_results env [p] limit t =
           (if keeps_hit env t (format_hit p) then [format_hit p] else [])"
  using assms
  by (simp add: smart_filter_and_rank_results_def group_by_key_def add_to_group_def
      sort_desc_def py_slice_singleton Let_def)
     (simp add: py_slice_def)

lemma search_similar_example:
  assumes "1 \<le> limit" "0 \<le> t"
  shows "search_similar (example_env [example_point sec al sc]) limit t f =
           Some (if payload_matches f (sp_payload (example_point sec al sc)) \<and> t * 0.9 \<le> sc
                 then [format_hit (example_point sec al sc)] else [])"
proof -
  let ?p = "example_point sec al sc"
  have sc: "sp_score ?p = sc" by (simp add: example_point_def)
  have lim: "0 < nat (min (limit * 3) 50)" using assms(1) by simp
  show ?thesis
  proof (cases "payload_matches f (sp_payload ?p) \<and> t * 0.8 \<le> sc")
    case True
    then have "client_search (example_env [?p]) f (min (limit * 3) 50) (t * 0.8) = Some [?p]"
      using lim sc by (simp add: example_env_def store_search_def take_Cons')
    then show ?thesis
      using True assms example_hit_kept [of "[?p]" t sec al sc]
      by (simp add: search_similar_def Let_def smart_filter_single example_mul)
  next
    case False
    then have "client_search (example_env [?p]) f (min (limit * 3) 50) (t * 0.8) = Some []"
      using sc by (auto simp: example_env_def store_search_def)
    moreover have "\<not> (payload_matches f (sp_payload ?p) \<and> t * 0.9 \<le> sc)"
      using False assms(2) by (auto simp: algebra_simps)
    ultimately show ?thesis
      by (simp add: search_similar_def Let_def smart_filter_and_rank_results_def example_mul)
  qed
qed

lemma example_env_honours: "honours_filters (example_env ps)"
  by (rule store_honours_filters [of _ ps]) (simp add: example_env_def)

lemma example_env_ok [simp]: "embedding_ok (example_env ps)"
  by (simp add: example_env_def)

lemma sort_desc_short [simp]: "sort_desc k [] = []" "sort_desc k [x] = [x]"
  by (simp_all add: sort_desc_def)

lemma combine_and_rank_single: "1 \<le> limit \<Longrightarrow> combine_and_rank [r] limit = [r]"
  by (simp add: combine_and_rank_def keep_best_def Let_def py_slice_singleton)

lemma example_payload_matches:
  "payload_matches \<lparr>f_section = Some s, f_access_level = a\<rparr> (sp_payload (example_point sec al sc))
     \<longleftrightarrow> s = sec \<and> (a = None \<or> a = Some al)"
  by (auto simp: payload_matches_def example_point_def split: option.splits)

lemma example_converted:
  "DocumentSearchResult (example_env ps) (format_hit (example_point sec al sc)) =
     Some (example_result sec al sc)"
  by (simp add: DocumentSearchResult_def format_hit_def example_point_def Let_def
      example_env_def example_int_def example_result_def ascii_def)

lemma names_distinct:
  "ascii ''restaurant_ops'' \<noteq> ascii ''procedures''"
  "ascii ''restaurant_ops'' \<noteq> ascii ''standards''"
  "ascii ''procedures'' \<noteq> ascii ''standards''"
  "ascii ''procedures'' \<noteq> ascii ''restaurant_ops''"
  "ascii ''standards'' \<noteq> ascii ''restaurant_ops''"
  "ascii ''standards'' \<noteq> ascii ''procedures''"
  "ascii ''kitchen_management'' \<noteq> []"
  "ascii ''procedures'' \<noteq> []"
  "ascii ''restaurant_ops'' \<noteq> []"
  by (simp_all add: ascii_def)

lemma chat_example:
  "chat_new_search
     (example_env [example_point (ascii ''restaurant_ops'') (ascii ''kitchen_management'') 0.9])
     None None (ascii ''kitchen_management'')
   = [example_result (ascii ''restaurant_ops'') (ascii ''kitchen_management'') 0.9]"
proof -
  let ?p = "example_point (ascii ''restaurant_ops'') (ascii ''kitchen_management'') 0.9"
  let ?E = "example_env [?p]"
  have s: "search_similar ?E 4 (9 / 25)
             \<lparr>f_section = Some sec, f_access_level = Some (ascii ''kitchen_management'')\<rparr>
           = Some (if sec = ascii ''restaurant_ops'' then [format_hit ?p] else [])" for sec
    by (subst search_similar_example) (auto simp: example_payload_matches)
  have fb: "perform_fallback_search ?E (Some (ascii ''kitchen_management'')) 12 (9 / 25)
              chat_user_sections
            = [example_result (ascii ''restaurant_ops'') (ascii ''kitchen_management'') 0.9]"
    unfolding perform_fallback_search_def Let_def chat_user_sections_def
    by (simp add: s access_filter_def truthy_str_def names_distinct py_slice_singleton
        convert_until_error_def example_converted)
  show ?thesis
    unfolding chat_new_search_def search_documents_internal_def Let_def
    using fb by (simp add: truthy_str_def chat_user_sections_def combine_and_rank_single)
qed

lemma kitchen_has_no_access:
  "\<not> check_section_access detailed_access_levels (ascii ''kitchen_management'')
       (ascii ''restaurant_ops'') (ascii ''read_only'')"
  by (simp add: check_section_access_def detailed_access_levels_def ascii_def)

lemma quality_example:
  "search_similar
     (example_env [example_point (ascii ''procedures'') (ascii ''kitchen_management'') 0.65])
     10 0.7 \<lparr>f_section = Some (ascii ''procedures''), f_access_level = None\<rparr>
   = Some [format_hit (example_point (ascii ''procedures'') (ascii ''kitchen_management'') 0.65)]"
  by (subst search_similar_example) (simp_all add: example_payload_matches)

lemma strict_example:
  "search_documents_internal
     (example_env [example_point (ascii ''procedures'') (ascii ''kitchen_management'') 0.9])
     (Some (ascii ''procedures'')) (Some (ascii ''kitchen_management'')) 10 0.7
     [ascii ''procedures'', ascii ''standards''] True
   = [example_result (ascii ''procedures'') (ascii ''kitchen_management'') 0.9]"
proof -
  let ?p = "example_point (ascii ''procedures'') (ascii ''kitchen_management'') 0.9"
  let ?E = "example_env [?p]"
  have s: "search_similar ?E 20 (7 / 10)
             \<lparr>f_section = Some (ascii ''procedures''),
              f_access_level = Some (ascii ''kitchen_management'')\<rparr>
           = Some [format_hit ?p]"
    by (subst search_similar_example) (simp_all add: example_payload_matches)
  have "perform_section_search ?E (ascii ''procedures'') (Some (ascii ''kitchen_management'')) 10 0.7
          = [example_result (ascii ''procedures'') (ascii ''kitchen_management'') 0.9]"
    unfolding perform_section_search_def Let_def
    by (simp add: s access_filter_def truthy_str_def names_distinct py_slice_singleton
        convert_all_def example_converted)
  then show ?thesis
    unfolding search_documents_internal_def Let_def
    by (simp add: truthy_str_def names_distinct py_slice_singleton)
qed

text \<open>
  Claim C2, as amended. Every chunk that \<open>search_similar\<close> returns for a requested
  threshold \<open>t\<close> has a score of at least the product \<open>t * 0.9\<close>, as the interpreter
  computes it, and a content of at least 20 code points, also after the whitespace at
  its two ends is stripped.
\<close>

theorem search_similar_quality_bounds:
  assumes "search_similar env limit t filters = Some hits"
  shows "\<forall>h\<in>set hits. float_mul env t 0.9 \<le> h_score h \<and>
           20 \<le> length (py_strip (h_content h)) \<and> 20 \<le> length (h_content h)"
proof
  fix h assume "h \<in> set hits"
  from search_similar_hits [OF assms this] have "keeps_hit env t h" by blast
  from keeps_hit_bounds [OF this]
  show "float_mul env t 0.9 \<le> h_score h \<and>
           20 \<le> length (py_strip (h_content h)) \<and> 20 \<le> length (h_content h)" by simp
qed

theorem search_similar_quality_bounds_witness:
  "search_similar
     (example_env [example_point (ascii ''procedures'') (ascii ''kitchen_management'') 0.65])
     10 0.7 \<lparr>f_section = Some (ascii ''procedures''), f_access_level = None\<rparr>
   = Some [format_hit (example_point (ascii ''procedures'') (ascii ''kitchen_management'') 0.65)]
   \<and> float_mul
       (example_env [example_point (ascii ''procedures'') (ascii ''kitchen_management'') 0.65])
       0.7 0.9 \<le>
       h_score (format_hit (example_point (ascii ''procedures'') (ascii ''kitchen_management'') 0.65))
   \<and> 20 \<le> length (py_strip
       (h_content (format_hit (example_point (ascii ''procedures'') (ascii ''kitchen_management'') 0.65))))
   \<and> 20 \<le> length
       (h_content (format_hit (example_point (ascii ''procedures'') (ascii ''kitchen_management'') 0.65)))"
  using search_similar_quality_bounds [OF quality_example] quality_example by simp

text \<open>
  The bound \<open>score \<ge> t\<close> itself fails: with \<open>t = 0.7\<close> a chunk of score 0.65 is returned.
\<close>

theorem search_similar_below_threshold_counterexample:
  "map_option (map h_score)
     (search_similar
        (example_env [example_point (ascii ''procedures'') (ascii ''kitchen_management'') 0.65])
        10 0.7 \<lparr>f_section = Some (ascii ''procedures''), f_access_level = None\<rparr>)
   = Some [0.65]
   \<and> \<not> (0.7::real) \<le> 0.65"
  unfolding quality_example by (simp add: format_hit_def example_point_def)

text \<open>
  Claim C3. With \<open>strict_section_search\<close> on and target section \<open>s\<close>, against a store
  that honours its filters, every returned chunk has section \<open>s\<close>; the result is empty
  when \<open>s\<close> is not among the principal's sections or is the empty string.
\<close>

theorem strict_search_stays_in_section:
  assumes "honours_filters env"
  shows "(\<forall>r\<in>set (search_documents_internal env (Some s) al limit t us True). sr_section r = s)
       \<and> (s \<notin> set us \<or> s = [] \<longrightarrow>
            search_documents_internal env (Some s) al limit t us True = [])"
  using search_internal_strict [OF assms] search_internal_strict_empty by blast

theorem strict_search_stays_in_section_witness:
  "honours_filters
     (example_env [example_point (ascii ''procedures'') (ascii ''kitchen_management'') 0.9])
   \<and> map sr_section (search_documents_internal
       (example_env [example_point (ascii ''procedures'') (ascii ''kitchen_management'') 0.9])
       (Some (ascii ''procedures'')) (Some (ascii ''kitchen_management'')) 10 0.7
       [ascii ''procedures'', ascii ''standards''] True) = [ascii ''procedures'']
   \<and> ascii ''restaurant_ops'' \<notin> set [ascii ''procedures'', ascii ''standards'']
   \<and> search_documents_internal
       (example_env [example_point (ascii ''procedures'') (ascii ''kitchen_management'') 0.9])
       (Some (ascii ''restaurant_ops'')) (Some (ascii ''kitchen_management'')) 10 0.7
       [ascii ''procedures'', ascii ''standards''] True = []"
proof -
  let ?E = "example_env [example_point (ascii ''procedures'') (ascii ''kitchen_management'') 0.9]"
  have h: "honours_filters ?E" by (rule example_env_honours)
  have n: "ascii ''restaurant_ops'' \<notin> set [ascii ''procedures'', ascii ''standards'']"
    by (simp add: names_distinct)
  from strict_search_stays_in_section [OF h, of "ascii ''restaurant_ops''"] n
  have e: "search_documents_internal ?E (Some (ascii ''restaurant_ops''))
       (Some (ascii ''kitchen_management'')) 10 0.7
       [ascii ''procedures'', ascii ''standards''] True = []"
    by blast
  have "map sr_section (search_documents_internal ?E
       (Some (ascii ''procedures'')) (Some (ascii ''kitchen_management'')) 10 0.7
       [ascii ''procedures'', ascii ''standards''] True) = [ascii ''procedures'']"
    by (simp add: strict_example example_result_def)
  with h n e show ?thesis by blast
qed

text \<open>
  Claim C1, as amended. Against a store that honours its filters, every chunk the
  retrieval engine returns lies in one of the sections it was given as \<open>user_sections\<close>:
  the fallback searches section by section. The \<open>/search\<close> endpoint passes the sections
  configured for the token's access level; the \<open>/chat\<close> endpoint passes the same three
  sections for every access level.
\<close>

theorem retrieval_sections_within_user_sections:
  assumes "honours_filters env"
  shows "(\<forall>r\<in>set (search_documents_internal env section al limit t us strict).
            sr_section r \<in> set us) \<and>
         (\<forall>r\<in>set (search_documents env levels request token_access_level).
            sr_section r \<in> set (get_user_sections levels token_access_level)) \<and>
         (\<forall>r\<in>set (chat_new_search env request_section request_context token_access_level).
            sr_section r \<in> set chat_user_sections)"
  using search_internal_sections [OF assms]
  unfolding search_documents_def chat_new_search_def Let_def by blast

theorem retrieval_sections_within_user_sections_witness:
  "honours_filters
     (example_env [example_point (ascii ''restaurant_ops'') (ascii ''kitchen_management'') 0.9])
   \<and> chat_new_search
        (example_env [example_point (ascii ''restaurant_ops'') (ascii ''kitchen_management'') 0.9])
        None None (ascii ''kitchen_management'') \<noteq> []
   \<and> list_all (\<lambda>r. sr_section r \<in> set chat_user_sections)
        (chat_new_search
          (example_env [example_point (ascii ''restaurant_ops'') (ascii ''kitchen_management'') 0.9])
          None None (ascii ''kitchen_management''))"
proof -
  let ?E = "example_env [example_point (ascii ''restaurant_ops'') (ascii ''kitchen_management'') 0.9]"
  have h: "honours_filters ?E" by (rule example_env_honours)
  from retrieval_sections_within_user_sections [OF h]
  have "\<forall>r\<in>set (chat_new_search ?E None None (ascii ''kitchen_management'')).
          sr_section r \<in> set chat_user_sections"
    by blast
  then have "list_all (\<lambda>r. sr_section r \<in> set chat_user_sections)
        (chat_new_search ?E None None (ascii ''kitchen_management''))"
    by (simp add: list_all_iff)
  moreover have "chat_new_search ?E None None (ascii ''kitchen_management'') \<noteq> []"
    by (simp add: chat_example)
  ultimately show ?thesis using h by blast
qed

text \<open>
  As stated for chat requests the claim fails: \<open>kitchen_management\<close> has no access to
  \<open>restaurant_ops\<close>, and a chat request of that principal without target section
  retrieves a chunk of \<open>restaurant_ops\<close>.
\<close>

theorem chat_returns_restaurant_ops_counterexample:
  "\<not> check_section_access detailed_access_levels (ascii ''kitchen_management'')
       (ascii ''restaurant_ops'') (ascii ''read_only'')
   \<and> map sr_section (chat_new_search
        (example_env [example_point (ascii ''restaurant_ops'') (ascii ''kitchen_management'') 0.9])
        None None (ascii ''kitchen_management''))
     = [ascii ''restaurant_ops'']"
  using kitchen_has_no_access by (simp add: chat_example example_result_def)

section \<open>Citations: properties\<close>

lemma unique_by_keys: "key ` set (unique_by key seen xs) = key ` set xs - set seen"
  by (induction xs arbitrary: seen) auto

lemma in_set_map_filterD: "x \<in> set (List.map_filter f xs) \<Longrightarrow> \<exists>y\<in>set xs. f y = Some x"
  by (auto simp: List.map_filter_def)

lemma in_set_map_filterI: "y \<in> set xs \<Longrightarrow> f y = Some x \<Longrightarrow> x \<in> set (List.map_filter f xs)"
  by (force simp: List.map_filter_def)

text \<open>The sources of a turn carry exactly the document ids of its context chunks.\<close>

lemma object_sources_ids:
  "src_document_id ` set (List.map_filter (object_source db) rs) =
     {d. d \<noteq> 0 \<and> d \<in> sr_document_id ` set rs}"
proof (intro set_eqI iffI)
  fix d assume "d \<in> src_document_id ` set (List.map_filter (object_source db) rs)"
  then obtain x where "x \<in> set (List.map_filter (object_source db) rs)" "d = src_document_id x"
    by blast
  from in_set_map_filterD [OF this(1)] this(2)
  show "d \<in> {d. d \<noteq> 0 \<and> d \<in> sr_document_id ` set rs}"
    by (auto simp: object_source_def split: if_splits)
next
  fix d assume "d \<in> {d. d \<noteq> 0 \<and> d \<in> sr_document_id ` set rs}"
  then obtain r where r: "r \<in> set rs" "sr_document_id r = d" "d \<noteq> 0" by auto
  then obtain x where x: "object_source db r = Some x" "src_document_id x = d"
    by (simp add: object_source_def)
  from in_set_map_filterI [of r rs "object_source db" x] r(1) x
  show "d \<in> src_document_id ` set (List.map_filter (object_source db) rs)" by force
qed

lemma dict_sources_ids:
  "src_document_id ` set (List.map_filter (dict_source db) ds) =
     {d. d \<noteq> 0 \<and> Some d \<in> rr_document_id ` set ds}"
proof (intro set_eqI iffI)
  fix d assume "d \<in> src_document_id ` set (List.map_filter (dict_source db) ds)"
  then obtain x where "x \<in> set (List.map_filter (dict_source db) ds)" "d = src_document_id x"
    by blast
  from in_set_map_filterD [OF this(1)] this(2) obtain y where
    y: "y \<in> set ds" "dict_source db y = Some x" "d = src_document_id x" by blast
  from y(2,3) have "rr_document_id y = Some d" "d \<noteq> 0"
    by (auto simp: dict_source_def truthy_id_def split: if_splits option.splits)
  with y(1) show "d \<in> {d. d \<noteq> 0 \<and> Some d \<in> rr_document_id ` set ds}"
    by force
next
  fix d assume "d \<in> {d. d \<noteq> 0 \<and> Some d \<in> rr_document_id ` set ds}"
  then obtain r where r: "r \<in> set ds" "rr_document_id r = Some d" "d \<noteq> 0" by force
  then obtain x where x: "dict_source db r = Some x" "src_document_id x = d"
    by (simp add: dict_source_def truthy_id_def)
  from in_set_map_filterI [of r ds "dict_source db" x] r(1) x
  show "d \<in> src_document_id ` set (List.map_filter (dict_source db) ds)" by force
qed

lemma chat_sources_ids:
  "src_document_id ` set (chat_sources db results) =
     {d. d \<noteq> 0 \<and> Some d \<in> cc_document_id ` set (to_context_chunks results)}"
proof (cases results)
  case (SearchResults rs)
  have "Some d \<in> (\<lambda>r. Some (sr_document_id r)) ` set rs \<longleftrightarrow> d \<in> sr_document_id ` set rs" for d
    by auto
  then show ?thesis
    unfolding SearchResults chat_sources_def to_context_chunks_def
    by (simp add: object_sources_ids image_image)
next
  case (ReusedResults ds)
  show ?thesis
    unfolding ReusedResults chat_sources_def to_context_chunks_def
    by (simp add: dict_sources_ids image_image)
qed

text \<open>The compact sources: one per document id, and every document id is kept.\<close>

lemma compact_shape:
  fixes sort_order :: "source \<Rightarrow> 'k::linorder"
  shows "distinct (map src_document_id (compact sort_order sources))"
    and "src_document_id ` set (compact sort_order sources) = src_document_id ` set sources"
proof -
  let ?key = "\<lambda>x. (src_document_id x, src_chunk_id x)"
  let ?unique = "unique_by ?key [] (sort_key sort_order sources)"
  let ?groups = "group_by_key src_document_id ?unique"
  let ?rep = "\<lambda>(doc_id, doc_sources).
           if doc_sources \<noteq> []
           then Some ((hd doc_sources)\<lparr>src_total_chunks := length doc_sources,
                                       src_chunk_ids := map src_chunk_id doc_sources\<rparr>)
           else None"
  let ?S = "compact sort_order sources"
  have S: "?S = List.map_filter ?rep ?groups"
    by (simp add: compact_def Let_def)
  have g: "grouped src_document_id ?groups" by (rule group_by_key_grouped)
  have grp: "snd gr \<noteq> []" "\<forall>y\<in>set (snd gr). src_document_id y = fst gr"
    if "gr \<in> set ?groups" for gr
    using that g unfolding grouped_def by blast+
  have hdm: "hd (snd gr) \<in> set (snd gr)" if "gr \<in> set ?groups" for gr
    using grp(1) [OF that] by simp
  have hdk: "src_document_id (hd (snd gr)) = fst gr" if "gr \<in> set ?groups" for gr
    using grp(2) [OF that] hdm [OF that] by blast
  have rep: "?rep gr = Some ((hd (snd gr))\<lparr>src_total_chunks := length (snd gr),
                                       src_chunk_ids := map src_chunk_id (snd gr)\<rparr>)"
    if "gr \<in> set ?groups" for gr
    using grp(1) [OF that] by (cases gr) simp
  have mf: "List.map_filter f xs = map (\<lambda>x. the (f x)) xs" if "\<forall>x\<in>set xs. f x \<noteq> None"
    for f :: "(int \<times> source list) \<Rightarrow> source option" and xs
    using that by (induction xs) (auto simp: List.map_filter_def)
  have S': "?S = map (\<lambda>gr. (hd (snd gr))\<lparr>src_total_chunks := length (snd gr),
                                       src_chunk_ids := map src_chunk_id (snd gr)\<rparr>) ?groups"
  proof -
    have "?S = map (\<lambda>x. the (?rep x)) ?groups"
      unfolding S by (rule mf) (use rep in simp)
    also have "\<dots> = map (\<lambda>gr. (hd (snd gr))\<lparr>src_total_chunks := length (snd gr),
                                       src_chunk_ids := map src_chunk_id (snd gr)\<rparr>) ?groups"
      by (rule map_cong) (use rep in simp_all)
    finally show ?thesis .
  qed
  have ids: "map src_document_id ?S = map fst ?groups"
    unfolding S' using hdk by (simp add: comp_def)
  from g show "distinct (map src_document_id ?S)"
    unfolding ids grouped_def by blast
  have "src_document_id ` set ?S = set (map src_document_id ?S)" by simp
  also have "\<dots> = fst ` set ?groups" unfolding ids by simp
  also have "\<dots> = src_document_id ` set ?unique" by (rule group_by_key_keys)
  also have "\<dots> = fst ` (?key ` set ?unique)" by (simp add: image_image)
  also have "\<dots> = fst ` (?key ` set (sort_key sort_order sources))"
    by (simp only: unique_by_keys) simp
  also have "\<dots> = src_document_id ` set sources" by (simp add: image_image)
  finally show "src_document_id ` set ?S = src_document_id ` set sources" .
qed

lemma add_usage_dom:
  "dom (add_usage usage c) =
     dom usage \<union> (if truthy_id (cc_document_id c) then {the (cc_document_id c)} else {})"
  by (auto simp: add_usage_def Let_def)

lemma foldl_add_usage_dom:
  "dom (foldl add_usage usage cs) =
     dom usage \<union> {d. d \<noteq> 0 \<and> Some d \<in> cc_document_id ` set cs}"
proof (induction cs arbitrary: usage)
  case Nil
  then show ?case by simp
next
  case (Cons c cs)
  show ?case
    unfolding foldl_Cons Cons.IH add_usage_dom
    by (auto simp: truthy_id_def split: option.splits)
qed

lemma build_usage_dom:
  "dom (build_usage cs) = {d. d \<noteq> 0 \<and> Some d \<in> cc_document_id ` set cs}"
  by (simp add: build_usage_def foldl_add_usage_dom)

lemma compact_sources_shape:
  "distinct (map src_document_id (compact_sources db results))"
  "src_document_id ` set (compact_sources db results) =
     dom (build_usage (to_context_chunks results))"
proof -
  show "distinct (map src_document_id (compact_sources db results))"
    by (cases results) (simp_all add: compact_sources_def compact_shape(1))
  have "src_document_id ` set (compact_sources db results) =
          src_document_id ` set (chat_sources db results)"
    by (cases results) (simp_all add: compact_sources_def compact_shape(2))
  then show "src_document_id ` set (compact_sources db results) =
     dom (build_usage (to_context_chunks results))"
    by (simp add: chat_sources_ids build_usage_dom)
qed

text \<open>
  The greatest score on record for a document is the greatest of its chunks' scores and
  of the 0 that the record starts with.
\<close>

lemma Max_insert_max:
  fixes a b :: real
  assumes "finite A"
  shows "Max (insert (max a b) A) = Max (insert a (insert b A))"
proof (cases "A = {}")
  case True
  then show ?thesis by (simp add: max.commute)
next
  case False
  with assms show ?thesis by (simp add: max.assoc)
qed

lemma add_usage_max:
  "(case add_usage usage c d of None \<Rightarrow> 0 | Some u \<Rightarrow> du_max_score u) =
     (if cc_document_id c = Some d \<and> d \<noteq> 0
      then max (case usage d of None \<Rightarrow> 0 | Some u \<Rightarrow> du_max_score u) (cc_score c)
      else (case usage d of None \<Rightarrow> 0 | Some u \<Rightarrow> du_max_score u))"
  by (auto simp: add_usage_def Let_def truthy_id_def split: option.splits)

lemma foldl_add_usage_max:
  "(case foldl add_usage usage cs d of None \<Rightarrow> 0 | Some u \<Rightarrow> du_max_score u) =
     Max (insert (case usage d of None \<Rightarrow> 0 | Some u \<Rightarrow> du_max_score u)
            (cc_score ` {c \<in> set cs. cc_document_id c = Some d \<and> d \<noteq> 0}))"
proof (induction cs arbitrary: usage)
  case Nil
  then show ?case by simp
next
  case (Cons c cs)
  let ?A = "cc_score ` {c \<in> set cs. cc_document_id c = Some d \<and> d \<noteq> 0}"
  let ?m = "case usage d of None \<Rightarrow> 0 | Some u \<Rightarrow> du_max_score u"
  have fin: "finite ?A" by simp
  show ?case
  proof (cases "cc_document_id c = Some d \<and> d \<noteq> 0")
    case True
    then have "cc_score ` {c' \<in> set (c # cs). cc_document_id c' = Some d \<and> d \<noteq> 0}
                 = insert (cc_score c) ?A"
      by auto
    then show ?thesis
      unfolding foldl_Cons Cons.IH add_usage_max
      using True Max_insert_max [OF fin, of ?m "cc_score c"] by simp
  next
    case False
    then have "cc_score ` {c' \<in> set (c # cs). cc_document_id c' = Some d \<and> d \<noteq> 0} = ?A"
      by auto
    then show ?thesis
      unfolding foldl_Cons Cons.IH add_usage_max
      using False by auto
  qed
qed

lemma build_usage_max:
  assumes "build_usage C d = Some u"
  shows "du_max_score u = Max (insert 0 (cc_score ` {c \<in> set C. cc_document_id c = Some d}))"
proof -
  from assms have "d \<in> dom (build_usage C)" by blast
  then have d: "d \<noteq> 0" by (simp add: build_usage_dom)
  from foldl_add_usage_max [of Map.empty C d] assms d show ?thesis
    by (simp add: build_usage_def)
qed

lemma py_max_key_member: "py_max_key k x xs \<in> set (x # xs)"
  unfolding py_max_key_def
proof (induction xs arbitrary: x)
  case Nil
  then show ?case by simp
next
  case (Cons y ys)
  show ?case
    using Cons.IH [of y] Cons.IH [of x] by (auto split: if_splits)
qed

lemma py_max_key_start: "k x \<le> k (py_max_key k x xs)"
  unfolding py_max_key_def
proof (induction xs arbitrary: x)
  case Nil
  then show ?case by simp
next
  case (Cons y ys)
  show ?case
    using Cons.IH [of y] Cons.IH [of x] by (auto split: if_splits)
qed

lemma py_max_key_greatest: "y \<in> set (x # xs) \<Longrightarrow> k y \<le> k (py_max_key k x xs)"
proof (induction xs arbitrary: x)
  case Nil
  then show ?case by (simp add: py_max_key_def)
next
  case (Cons z zs)
  have step: "py_max_key k x (z # zs) = py_max_key k (if k z > k x then z else x) zs"
    by (simp add: py_max_key_def)
  let ?x' = "if k z > k x then z else x"
  from Cons.prems consider "y = x" | "y = z" | "y \<in> set zs" by auto
  then show ?case
  proof cases
    case 1
    have "k x \<le> k ?x'" by simp
    also have "\<dots> \<le> k (py_max_key k ?x' zs)" by (rule py_max_key_start)
    finally show ?thesis unfolding step 1 .
  next
    case 2
    have "k z \<le> k ?x'" by simp
    also have "\<dots> \<le> k (py_max_key k ?x' zs)" by (rule py_max_key_start)
    finally show ?thesis unfolding step 2 .
  next
    case 3
    then have "y \<in> set (?x' # zs)" by simp
    from Cons.IH [OF this] show ?thesis unfolding step .
  qed
qed

lemma distinct_ids_card:
  assumes "distinct (map src_document_id S)"
    and "\<forall>s\<in>set S. Some (src_document_id s) \<in> cc_document_id ` set C"
  shows "length S \<le> card (cc_document_id ` set C)"
proof -
  have "length S = card (set (map src_document_id S))"
    using assms(1) by (metis distinct_card length_map)
  also have "\<dots> = card (Some ` set (map src_document_id S))"
    by (simp add: card_image)
  also have "\<dots> \<le> card (cc_document_id ` set C)"
    using assms(2) by (intro card_mono) auto
  finally show ?thesis .
qed

text \<open>
  The two outcomes of the filter on sources that carry the documents of the context:
  the relevant sources when there are any, and otherwise the one source whose document
  has the greatest score on record.
\<close>

lemma filter_relevant_sources_relevant:
  assumes "C \<noteq> []" and "src_document_id ` set S = dom (build_usage C)"
    and "\<exists>s\<in>set S. is_relevant (the (build_usage C (src_document_id s)))"
  shows "filter_relevant_sources S C =
           map (\<lambda>s. with_usage False (the (build_usage C (src_document_id s))) s)
             (filter (\<lambda>s. is_relevant (the (build_usage C (src_document_id s)))) S)"
proof -
  let ?f = "\<lambda>s. case build_usage C (src_document_id s) of
                   None \<Rightarrow> None
                 | Some u \<Rightarrow> if is_relevant u then Some (with_usage False u s) else None"
  have u: "\<exists>u. build_usage C (src_document_id s) = Some u" if "s \<in> set S" for s
    using that assms(2) by blast
  have f: "?f s = (if is_relevant (the (build_usage C (src_document_id s)))
                   then Some (with_usage False (the (build_usage C (src_document_id s))) s)
                   else None)" if "s \<in> set S" for s
    using u [OF that] by auto
  have "List.map_filter ?f S =
          map (\<lambda>s. with_usage False (the (build_usage C (src_document_id s))) s)
             (filter (\<lambda>s. is_relevant (the (build_usage C (src_document_id s)))) S)"
    using f
  proof (induction S)
    case Nil
    then show ?case by (simp add: List.map_filter_def)
  next
    case (Cons a S)
    have "List.map_filter ?f (a # S) =
            (case ?f a of None \<Rightarrow> List.map_filter ?f S | Some y \<Rightarrow> y # List.map_filter ?f S)"
      by (simp add: List.map_filter_def split: option.splits)
    then show ?case
      using Cons.IH Cons.prems by (simp split: option.splits)
  qed
  moreover from assms(3) have
    "filter (\<lambda>s. is_relevant (the (build_usage C (src_document_id s)))) S \<noteq> []"
    by (simp add: filter_empty_conv)
  moreover from assms(3) have "S \<noteq> []" by auto
  ultimately show ?thesis
    using assms(1) unfolding filter_relevant_sources_def Let_def by simp
qed

lemma filter_relevant_sources_fallback:
  assumes "S \<noteq> []" "C \<noteq> []" and "src_document_id ` set S = dom (build_usage C)"
    and "\<not> (\<exists>s\<in>set S. is_relevant (the (build_usage C (src_document_id s))))"
  shows "\<exists>best u. best \<in> set S \<and> build_usage C (src_document_id best) = Some u \<and>
           (\<forall>s\<in>set S. \<forall>v. build_usage C (src_document_id s) = Some v
                          \<longrightarrow> du_max_score v \<le> du_max_score u) \<and>
           filter_relevant_sources S C = [with_usage True u best]"
proof -
  let ?k = "\<lambda>s. case build_usage C (src_document_id s) of None \<Rightarrow> 0 | Some u \<Rightarrow> du_max_score u"
  let ?best = "py_max_key ?k (hd S) (tl S)"
  let ?f = "\<lambda>s. case build_usage C (src_document_id s) of
                   None \<Rightarrow> None
                 | Some u \<Rightarrow> if is_relevant u then Some (with_usage False u s) else None"
  from assms(1) py_max_key_member [of ?k "hd S" "tl S"] have b: "?best \<in> set S" by simp
  with assms(3) have "src_document_id ?best \<in> dom (build_usage C)" by blast
  then obtain u where u: "build_usage C (src_document_id ?best) = Some u" by blast
  then have nz: "src_document_id ?best \<noteq> 0"
    using build_usage_dom [of C] by blast
  have g: "du_max_score v \<le> du_max_score u"
    if "s \<in> set S" "build_usage C (src_document_id s) = Some v" for s v
  proof -
    from that(1) assms(1) have "s \<in> set (hd S # tl S)" by simp
    from py_max_key_greatest [OF this, of ?k] that(2) u show ?thesis by simp
  qed
  have "?f s = None" if "s \<in> set S" for s
    using that assms(4) by (auto split: option.splits)
  then have "List.map_filter ?f S = []"
    by (induction S) (simp_all add: List.map_filter_def)
  then have "filter_relevant_sources S C = [with_usage True u ?best]"
    using assms(1,2) u nz unfolding filter_relevant_sources_def Let_def by simp
  with b u g show ?thesis by blast
qed

lemma filter_relevant_sources_length:
  "length (filter_relevant_sources S C) \<le> length S"
proof (cases "S = [] \<or> C = []")
  case True
  then show ?thesis by (auto simp: filter_relevant_sources_def)
next
  case False
  then have "1 \<le> length S" by (cases S) simp_all
  moreover have "length (List.map_filter f S) \<le> length S" for f :: "source \<Rightarrow> source option"
    by (simp add: List.map_filter_def)
  ultimately show ?thesis
    using False unfolding filter_relevant_sources_def Let_def
    by (auto split: option.splits)
qed

lemma with_usage_id [simp]: "src_document_id (with_usage fallback u s) = src_document_id s"
  by (simp add: with_usage_def)

text \<open>
  Claim C5. Every context chunk that the handler builds carries the id of a stored
  document, an integer other than zero. For such chunks the source filter emits at
  most as many sources as there are distinct document ids among the chunks, and at
  least one source when there is a chunk. When no document passes the relevance rule,
  it emits exactly one source, marked as the fallback, for a document of the context
  whose greatest score no chunk of any document exceeds. When some document passes the
  rule, it emits exactly the documents that pass, each once.
\<close>

theorem chat_citations_bounds:
  assumes "\<forall>c\<in>set (to_context_chunks results). truthy_id (cc_document_id c)"
  shows "(let chunks = to_context_chunks results;
              usage = build_usage chunks;
              citations = chat_citations db results
          in length citations \<le> card (cc_document_id ` set chunks)
           \<and> (chunks \<noteq> [] \<longrightarrow> citations \<noteq> [])
           \<and> (chunks \<noteq> [] \<and> (\<forall>d\<in>dom usage. \<not> is_relevant (the (usage d))) \<longrightarrow>
                (\<exists>s info. citations = [s] \<and> src_usage_info s = Some info
                   \<and> ui_fallback_included info
                   \<and> Some (src_document_id s) \<in> cc_document_id ` set chunks
                   \<and> ui_max_score info =
                       Max (insert 0 (cc_score `
                         {c \<in> set chunks. cc_document_id c = Some (src_document_id s)}))
                   \<and> (\<forall>c\<in>set chunks. cc_score c \<le> ui_max_score info)))
           \<and> ((\<exists>d\<in>dom usage. is_relevant (the (usage d))) \<longrightarrow>
                distinct (map src_document_id citations) \<and>
                set (map src_document_id citations) =
                  {d \<in> dom usage. is_relevant (the (usage d))}))"
proof -
  let ?C = "to_context_chunks results"
  let ?U = "build_usage ?C"
  let ?S = "compact_sources db results"
  let ?out = "chat_citations db results"
  let ?rel = "\<lambda>s. is_relevant (the (?U (src_document_id s)))"
  note sh = compact_sources_shape [of db results]
  have out: "?out = filter_relevant_sources ?S ?C" by (simp add: chat_citations_def)
  have in_dom: "\<exists>d. cc_document_id c = Some d \<and> d \<in> dom ?U" if "c \<in> set ?C" for c
  proof -
    from assms that obtain d where "cc_document_id c = Some d" "d \<noteq> 0"
      by (auto simp: truthy_id_def split: option.splits)
    with that show ?thesis unfolding build_usage_dom by force
  qed
  have Sne: "?S \<noteq> []" if "?C \<noteq> []"
  proof -
    from that obtain c where "c \<in> set ?C" by (cases ?C) auto
    from in_dom [OF this] sh(2) show ?thesis by auto
  qed
  have rel_iff: "(\<exists>s\<in>set ?S. ?rel s) \<longleftrightarrow> (\<exists>d\<in>dom ?U. is_relevant (the (?U d)))"
    using sh(2) by (metis (mono_tags, lifting) image_iff)
  have ids: "\<forall>s\<in>set ?S. Some (src_document_id s) \<in> cc_document_id ` set ?C"
    using sh(2) unfolding build_usage_dom by blast

  have one: "length ?out \<le> card (cc_document_id ` set ?C)"
  proof -
    have "length ?out \<le> length ?S" unfolding out by (rule filter_relevant_sources_length)
    also have "\<dots> \<le> card (cc_document_id ` set ?C)"
      using sh(1) ids by (rule distinct_ids_card)
    finally show ?thesis .
  qed

  have three: "\<exists>s info. ?out = [s] \<and> src_usage_info s = Some info
                   \<and> ui_fallback_included info
                   \<and> Some (src_document_id s) \<in> cc_document_id ` set ?C
                   \<and> ui_max_score info =
                       Max (insert 0 (cc_score `
                         {c \<in> set ?C. cc_document_id c = Some (src_document_id s)}))
                   \<and> (\<forall>c\<in>set ?C. cc_score c \<le> ui_max_score info)"
    if ne: "?C \<noteq> []" and none: "\<forall>d\<in>dom ?U. \<not> is_relevant (the (?U d))"
  proof -
    from none rel_iff have "\<not> (\<exists>s\<in>set ?S. ?rel s)" by blast
    from filter_relevant_sources_fallback [OF Sne [OF ne] ne sh(2) this]
    obtain best u where best: "best \<in> set ?S" and u: "?U (src_document_id best) = Some u"
      and g: "\<forall>s\<in>set ?S. \<forall>v. ?U (src_document_id s) = Some v
                          \<longrightarrow> du_max_score v \<le> du_max_score u"
      and o: "?out = [with_usage True u best]"
      unfolding out by blast
    let ?info = "\<lparr>ui_chunks_used = length (du_chunks u), ui_max_score = du_max_score u,
                  ui_total_content_length = du_content_length u,
                  ui_fallback_included = True\<rparr>"
    have a: "src_usage_info (with_usage True u best) = Some ?info"
      by (simp add: with_usage_def)
    have b: "Some (src_document_id (with_usage True u best)) \<in> cc_document_id ` set ?C"
      using ids best by simp
    have c: "ui_max_score ?info =
               Max (insert 0 (cc_score `
                 {c \<in> set ?C. cc_document_id c = Some (src_document_id (with_usage True u best))}))"
      using build_usage_max [OF u] by simp
    have d: "cc_score c \<le> ui_max_score ?info" if "c \<in> set ?C" for c
    proof -
      from in_dom [OF that] obtain d v where
        d: "cc_document_id c = Some d" and v: "?U d = Some v" by blast
      from v have "d \<in> src_document_id ` set ?S" unfolding sh(2) by blast
      then obtain s where s: "s \<in> set ?S" "src_document_id s = d" by blast
      with g v have le: "du_max_score v \<le> du_max_score u" by blast
      have "cc_score c \<in> insert 0 (cc_score ` {c \<in> set ?C. cc_document_id c = Some d})"
        using that d by blast
      then have "cc_score c \<le> Max (insert 0 (cc_score ` {c \<in> set ?C. cc_document_id c = Some d}))"
        by (intro Max_ge) simp_all
      then have "cc_score c \<le> du_max_score v"
        by (simp only: build_usage_max [OF v])
      from this le have "cc_score c \<le> du_max_score u" by (rule order_trans)
      then show ?thesis by simp
    qed
    have d': "\<forall>c\<in>set ?C. cc_score c \<le> ui_max_score ?info" using d by blast
    have e: "ui_fallback_included ?info" by simp
    from o a e b c d' show ?thesis by (intro exI conjI)
  qed

  have four: "distinct (map src_document_id ?out) \<and>
                set (map src_document_id ?out) = {d \<in> dom ?U. is_relevant (the (?U d))}"
    if some: "\<exists>d\<in>dom ?U. is_relevant (the (?U d))"
  proof -
    from some have ne: "?C \<noteq> []" by (auto simp: build_usage_dom)
    from some rel_iff have "\<exists>s\<in>set ?S. ?rel s" by blast
    from filter_relevant_sources_relevant [OF ne sh(2) this]
    have "map src_document_id ?out = map src_document_id (filter ?rel ?S)"
      unfolding out by (simp add: comp_def)
    moreover have "distinct (map src_document_id (filter ?rel ?S))"
      using sh(1) by (rule distinct_map_filter)
    moreover have "src_document_id ` {s \<in> set ?S. ?rel s} = {d \<in> dom ?U. is_relevant (the (?U d))}"
      using sh(2) by (auto simp: image_iff)
    ultimately show ?thesis by simp
  qed

  have two: "?out \<noteq> []" if ne: "?C \<noteq> []"
  proof (cases "\<exists>d\<in>dom ?U. is_relevant (the (?U d))")
    case True
    from four [OF True] True show ?thesis by auto
  next
    case False
    then have "\<forall>d\<in>dom ?U. \<not> is_relevant (the (?U d))" by blast
    from three [OF ne this] show ?thesis by auto
  qed

  from one two three four show ?thesis unfolding Let_def by blast
qed

lemma example_chunks:
  "to_context_chunks (ReusedResults [example_reused 1 a, example_reused 2 b]) =
     [\<lparr>cc_content = replicate 30 97, cc_document_id = Some 1,
       cc_chunk_id = Inr (ascii ''context_'' @ py_str_int 1),
       cc_section = Some (ascii ''procedures''), cc_score = a\<rparr>,
      \<lparr>cc_content = replicate 30 97, cc_document_id = Some 2,
       cc_chunk_id = Inr (ascii ''context_'' @ py_str_int 2),
       cc_section = Some (ascii ''procedures''), cc_score = b\<rparr>]"
  by (simp add: to_context_chunks_def example_reused_def)

lemma example_usage:
  assumes "0 \<le> a" "0 \<le> b"
  shows "dom (build_usage (to_context_chunks (ReusedResults [example_reused 1 a, example_reused 2 b])))
           = {1, 2}"
    and "du_max_score (the (build_usage (to_context_chunks
            (ReusedResults [example_reused 1 a, example_reused 2 b])) 1)) = a"
    and "du_max_score (the (build_usage (to_context_chunks
            (ReusedResults [example_reused 1 a, example_reused 2 b])) 2)) = b"
    and "du_content_length (the (build_usage (to_context_chunks
            (ReusedResults [example_reused 1 a, example_reused 2 b])) 1)) = 30"
    and "du_content_length (the (build_usage (to_context_chunks
            (ReusedResults [example_reused 1 a, example_reused 2 b])) 2)) = 30"
  using assms
  by (auto simp: example_chunks build_usage_def add_usage_def truthy_id_def Let_def)

theorem chat_citations_bounds_witness:
  "list_all (\<lambda>c. truthy_id (cc_document_id c))
     (to_context_chunks (ReusedResults [example_reused 1 0.4, example_reused 2 0.6]))
   \<and> map src_document_id
       (chat_citations Map.empty (ReusedResults [example_reused 1 0.4, example_reused 2 0.6]))
     = [2]
   \<and> map (\<lambda>s. map_option ui_fallback_included (src_usage_info s))
       (chat_citations Map.empty (ReusedResults [example_reused 1 0.4, example_reused 2 0.6]))
     = [Some True]
   \<and> list_all (\<lambda>c. truthy_id (cc_document_id c))
     (to_context_chunks (ReusedResults [example_reused 1 0.4, example_reused 2 0.9]))
   \<and> map src_document_id
       (chat_citations Map.empty (ReusedResults [example_reused 1 0.4, example_reused 2 0.9]))
     = [2]"
proof -
  let ?A = "ReusedResults [example_reused 1 0.4, example_reused 2 0.6]"
  let ?B = "ReusedResults [example_reused 1 0.4, example_reused 2 0.9]"
  have tA: "\<forall>c\<in>set (to_context_chunks ?A). truthy_id (cc_document_id c)"
    and tB: "\<forall>c\<in>set (to_context_chunks ?B). truthy_id (cc_document_id c)"
    by (simp_all add: example_chunks truthy_id_def)
  note uA = example_usage [of "0.4" "0.6"]
  note uB = example_usage [of "0.4" "0.9"]
  have noneA: "\<forall>d\<in>dom (build_usage (to_context_chunks ?A)).
                 \<not> is_relevant (the (build_usage (to_context_chunks ?A) d))"
    using uA by (simp add: is_relevant_def)
  have neA: "to_context_chunks ?A \<noteq> []" by (simp add: example_chunks)
  from chat_citations_bounds [OF tA, of Map.empty, unfolded Let_def] neA noneA
  obtain s info where s: "chat_citations Map.empty ?A = [s]"
    "src_usage_info s = Some info" "ui_fallback_included info"
    "Some (src_document_id s) \<in> cc_document_id ` set (to_context_chunks ?A)"
    "ui_max_score info = Max (insert 0 (cc_score `
        {c \<in> set (to_context_chunks ?A). cc_document_id c = Some (src_document_id s)}))"
    "\<forall>c\<in>set (to_context_chunks ?A). cc_score c \<le> ui_max_score info"
    by blast
  from s(4) have "src_document_id s = 1 \<or> src_document_id s = 2"
    by (auto simp: example_chunks)
  moreover have "src_document_id s \<noteq> 1"
  proof
    assume 1: "src_document_id s = 1"
    have "{c \<in> set (to_context_chunks ?A). cc_document_id c = Some 1} =
            {\<lparr>cc_content = replicate 30 97, cc_document_id = Some 1,
              cc_chunk_id = Inr (ascii ''context_'' @ py_str_int 1),
              cc_section = Some (ascii ''procedures''), cc_score = 0.4\<rparr>}"
      by (auto simp: example_chunks)
    with s(5) 1 have "ui_max_score info = 0.4" by simp
    with s(6) show False by (simp add: example_chunks)
  qed
  ultimately have idA: "src_document_id s = 2" by blast
  have someB: "\<exists>d\<in>dom (build_usage (to_context_chunks ?B)).
                 is_relevant (the (build_usage (to_context_chunks ?B) d))"
    using uB by (simp add: is_relevant_def)
  from chat_citations_bounds [OF tB, of Map.empty, unfolded Let_def] someB
  have dB: "distinct (map src_document_id (chat_citations Map.empty ?B))"
    and sB: "set (map src_document_id (chat_citations Map.empty ?B)) =
          {d \<in> dom (build_usage (to_context_chunks ?B)).
             is_relevant (the (build_usage (to_context_chunks ?B) d))}"
    by blast+
  have "{d \<in> dom (build_usage (to_context_chunks ?B)).
             is_relevant (the (build_usage (to_context_chunks ?B) d))} = {2}"
    using uB by (auto simp: is_relevant_def)
  with sB have sB': "set (map src_document_id (chat_citations Map.empty ?B)) = {2}" by simp
  have idB: "map src_document_id (chat_citations Map.empty ?B) = [2]"
  proof -
    from dB have "length (map src_document_id (chat_citations Map.empty ?B)) = card {2::int}"
      unfolding sB' [symmetric] by (rule distinct_card [symmetric])
    then obtain x where "map src_document_id (chat_citations Map.empty ?B) = [x]"
      by (cases "map src_document_id (chat_citations Map.empty ?B)") auto
    with sB' show ?thesis by auto
  qed
  from tA tB s(1,2,3) idA idB show ?thesis
    by (simp add: list_all_iff)
qed


section \<open>Memory policy: properties\<close>

lemma find_append_cases:
  "find P (xs @ ys) = (case find P xs of None \<Rightarrow> find P ys | Some x \<Rightarrow> Some x)"
  by (induction xs) auto

lemma last_user_message_found:
  assumes "\<forall>msg\<in>set later. msg_role msg \<noteq> ascii ''user''"
  shows "last_user_message
           (earlier @ \<lparr>msg_role = ascii ''user'', msg_content = previous_query\<rparr> # later)
         = Some previous_query"
proof -
  from assms have "find (\<lambda>msg. msg_role msg = ascii ''user'') (rev later) = None"
    by (simp add: find_None_iff)
  then show ?thesis
    by (simp add: last_user_message_def find_append_cases)
qed

lemma example_context_facts:
  "ctx_document_context example_context \<noteq> []"
  "ctx_messages example_context =
     [\<lparr>msg_role = ascii ''user'', msg_content = ascii ''q9''\<rparr>,
      \<lparr>msg_role = ascii ''assistant'', msg_content = ascii ''a9''\<rparr>] @
     \<lparr>msg_role = ascii ''user'', msg_content = ascii ''q0''\<rparr> #
     [\<lparr>msg_role = ascii ''assistant'', msg_content = ascii ''a0''\<rparr>]"
  "\<forall>msg\<in>set [\<lparr>msg_role = ascii ''assistant'', msg_content = ascii ''a0''\<rparr>].
     msg_role msg \<noteq> ascii ''user''"
  "2 \<le> length (ctx_messages example_context)"
  "ascii ''q0'' \<noteq> []"
  by (simp_all add: example_context_def ascii_def)

lemma example_embedder_facts:
  "example_embedder (ascii ''q0'') = Some [1, 0, 0, 0]"
  "example_embedder (ascii ''q1'') = Some [2, 0, 0, 0]"
  "example_embedder (ascii ''q2'') = Some [1, 1, 1, 1]"
  "example_embedder (ascii ''q3'') = Some [0, 1, 0, 0]"
  by (simp_all add: example_embedder_def ascii_def)

lemma example_numpy_facts:
  "np_linalg_norm example_numpy [1, 0, 0, 0] = 1"
  "np_linalg_norm example_numpy [2, 0, 0, 0] = 2"
  "np_linalg_norm example_numpy [1, 1, 1, 1] = 2"
  "np_linalg_norm example_numpy [0, 1, 0, 0] = 1"
  "np_dot example_numpy [1, 0, 0, 0] [2, 0, 0, 0] = 2"
  "np_dot example_numpy [1, 0, 0, 0] [1, 1, 1, 1] = 1"
  "np_dot example_numpy [1, 0, 0, 0] [0, 1, 0, 0] = 0"
  "np_multiply example_numpy x y = x * y"
  "np_divide example_numpy x y = x / y"
  by (simp_all add: example_numpy_def)

text \<open>
  Claim C4. The session has document context and at least two messages, the last of
  its user messages is \<open>previous_query\<close> and is not empty, the new query is not
  classified as clarifying, and both queries have embeddings of the same length whose
  norms are not zero. The similarity is the cosine of the two embeddings as the
  function computes it in 64-bit floats: the dot product divided by the product of the
  norms, each operation rounded. With the default threshold 0.6 the policy returns
  \<open>context_reuse\<close> when the similarity exceeds 0.6, \<open>hybrid_context\<close> when it exceeds
  0.3 but not 0.6, and \<open>new_search\<close> when it is at most 0.3.
\<close>

theorem memory_policy_thresholds:
  assumes "ctx_document_context context \<noteq> []"
    and "ctx_messages context =
           earlier @ \<lparr>msg_role = ascii ''user'', msg_content = previous_query\<rparr> # later"
    and "\<forall>msg\<in>set later. msg_role msg \<noteq> ascii ''user''"
    and "2 \<le> length (ctx_messages context)"
    and "previous_query \<noteq> []"
    and "\<not> is_clarifying_question new_query previous_query"
    and "embedder previous_query = Some vec1" and "embedder new_query = Some vec2"
    and "length vec1 = length vec2"
    and "np_linalg_norm np vec1 \<noteq> 0" and "np_linalg_norm np vec2 \<noteq> 0"
  shows "should_use_existing_context np embedder is_clarifying_question context new_query 0.6 =
     (let similarity =
            np_divide np (np_dot np vec1 vec2)
              (np_multiply np (np_linalg_norm np vec1) (np_linalg_norm np vec2))
      in if similarity > 0.6 then (True, ctx_document_context context, ascii ''context_reuse'')
         else if similarity > 0.3
           then (True, ctx_document_context context, ascii ''hybrid_context'')
         else (False, [], ascii ''new_search''))"
proof -
  have last: "last_user_message (ctx_messages context) = Some previous_query"
    unfolding assms(2) using assms(3) by (rule last_user_message_found)
  have "calculate_query_similarity np embedder previous_query new_query
          = np_divide np (np_dot np vec1 vec2)
              (np_multiply np (np_linalg_norm np vec1) (np_linalg_norm np vec2))"
    using assms(7-11) by (simp add: calculate_query_similarity_def Let_def)
  then show ?thesis
    using assms(1,4,5,6) last by (simp add: should_use_existing_context_def Let_def)
qed

theorem memory_policy_thresholds_witness:
  "snd (snd (should_use_existing_context example_numpy example_embedder (\<lambda>new previous. False)
       example_context (ascii ''q1'') 0.6)) = ascii ''context_reuse''
   \<and> snd (snd (should_use_existing_context example_numpy example_embedder (\<lambda>new previous. False)
       example_context (ascii ''q2'') 0.6)) = ascii ''hybrid_context''
   \<and> snd (snd (should_use_existing_context example_numpy example_embedder (\<lambda>new previous. False)
       example_context (ascii ''q3'') 0.6)) = ascii ''new_search''"
proof -
  note c = example_context_facts
  note e = example_embedder_facts
  note n = example_numpy_facts
  have a: "should_use_existing_context example_numpy example_embedder (\<lambda>new previous. False)
       example_context (ascii ''q1'') 0.6
       = (True, ctx_document_context example_context, ascii ''context_reuse'')"
    using memory_policy_thresholds [OF c(1) c(2) c(3) c(4) c(5), of "\<lambda>new previous. False"
        "ascii ''q1''" example_embedder "[1, 0, 0, 0]" "[2, 0, 0, 0]" example_numpy] e
    by (simp add: n)
  have b: "should_use_existing_context example_numpy example_embedder (\<lambda>new previous. False)
       example_context (ascii ''q2'') 0.6
       = (True, ctx_document_context example_context, ascii ''hybrid_context'')"
    using memory_policy_thresholds [OF c(1) c(2) c(3) c(4) c(5), of "\<lambda>new previous. False"
        "ascii ''q2''" example_embedder "[1, 0, 0, 0]" "[1, 1, 1, 1]" example_numpy] e
    by (simp add: n)
  have d: "should_use_existing_context example_numpy example_embedder (\<lambda>new previous. False)
       example_context (ascii ''q3'') 0.6
       = (False, [], ascii ''new_search'')"
    using memory_policy_thresholds [OF c(1) c(2) c(3) c(4) c(5), of "\<lambda>new previous. False"
        "ascii ''q3''" example_embedder "[1, 0, 0, 0]" "[0, 1, 0, 0]" example_numpy] e
    by (simp add: n)
  show ?thesis unfolding a b d by simp
qed

section \<open>Prompt builder: properties\<close>

text \<open>
  Claim C10. The system prompt that the prompt builder constructs contains the notice
  that no documents were found, whatever the list of context chunks is, empty or not.
\<close>

theorem prompt_always_has_no_documents_notice:
  "\<exists>before after.
     prepare_conversation_messages format_2f query context_chunks conversation_history
       session_context question_analysis
     = [(ascii ''system'', before @ NO_DOCUMENTS_NOTICE @ after)]"
proof -
  let ?before = "SYSTEM_PROMPT @ session_summary session_context @
     history_summary conversation_history @
     (if context_chunks \<noteq> [] then CONTEXT_HEADER @ CONTEXT_INTRO else []) @
     concat (map (fragment_lines format_2f) (py_enumerate_from 1 context_chunks))"
  let ?after = "QUESTION_HEADER @ query @ [10, 10] @
     strategy_guidance question_analysis context_chunks @ ANSWER_HEADER @
     special_instructions question_analysis"
  have "prepare_conversation_messages format_2f query context_chunks conversation_history
       session_context question_analysis
     = [(ascii ''system'', ?before @ NO_DOCUMENTS_NOTICE @ ?after)]"
    unfolding prepare_conversation_messages_def Let_def by (simp only: append_assoc)
  then show ?thesis by blast
qed

end
